(* ===== verification/Prelude.thy ===== *)
theory Prelude
  imports Complex_Main
begin

text \<open>
  Shared vocabulary of the Bridge development: the Python exceptions the backend
  raises or lets escape, an exception-and-state monad in which every handler of
  \<^verbatim>\<open>src/bridge/backend/app/main.py\<close> and every store operation of
  \<^verbatim>\<open>database.py\<close> is written, Python's truthiness of optional floats,
  Python's \<^verbatim>\<open>str.split(sep)\<close> and list indexing, and the generic lemmas on
  them that the component theories use as simplification rules.
\<close>

named_theorems py_simps \<open>evaluation rules of the Python-level helpers\<close>

section \<open>Exceptions\<close>

text \<open>
  The exceptions that can occur on the alert path.  \<open>HTTPException\<close> is FastAPI's
  exception with a status code and a detail string; the pipeline re-raises it
  (\<^verbatim>\<open>except HTTPException: raise\<close>) while every other exception is turned into a
  failure record.  \<open>ConnectionError\<close> stands for an unreachable Redis server,
  \<open>ResponseError\<close> for an error reply of Redis (a write refused when the server is
  out of memory),
  \<open>InvalidToken\<close> for a Fernet decryption failure and \<open>ExchangeError\<close> for
  any error raised by a ccxt exchange client.
\<close>

datatype exc =
    HTTPException nat string
  | KeyError string
  | IndexError
  | TypeError
  | ZeroDivisionError
  | ConnectionError
  | ResponseError string
  | InvalidToken
  | ExchangeError string

fun is_http :: "exc \<Rightarrow> bool" where
  "is_http (HTTPException _ _) = True"
| "is_http _ = False"

text \<open>Python's \<^verbatim>\<open>str(e)\<close> of each exception, used in the failure message.\<close>

fun exc_str :: "exc \<Rightarrow> string" where
  "exc_str (HTTPException c d) = d"
| "exc_str (KeyError k) = CHR 0x27 # k @ [CHR 0x27]"
| "exc_str IndexError = ''list index out of range''"
| "exc_str TypeError = ''float() argument must be a string or a real number''"
| "exc_str ZeroDivisionError = ''float division by zero''"
| "exc_str ConnectionError = ''Error connecting to Redis''"
| "exc_str (ResponseError m) = m"
| "exc_str InvalidToken = ''''"
| "exc_str (ExchangeError m) = m"

section \<open>Exceptions and state\<close>

text \<open>
  A Python statement sequence that reads and writes a state and may raise is a
  function from the state to an outcome (\<open>Inl\<close> the exception, \<open>Inr\<close> the
  value) and the state reached: effects that happened before an exception are
  kept, as they are in Python.
\<close>

type_synonym ('s, 'a) py = "'s \<Rightarrow> (exc + 'a) \<times> 's"

definition ret :: "'a \<Rightarrow> ('s, 'a) py" where
  "ret x s = (Inr x, s)"

definition raise :: "exc \<Rightarrow> ('s, 'a) py" where
  "raise e s = (Inl e, s)"

definition pbind :: "('s, 'a) py \<Rightarrow> ('a \<Rightarrow> ('s, 'b) py) \<Rightarrow> ('s, 'b) py" where
  "pbind m f s = (case m s of (Inl e, s') \<Rightarrow> (Inl e, s') | (Inr x, s') \<Rightarrow> f x s')"

text \<open>A value computed by a function that may raise, as a statement.\<close>

definition of_sum :: "exc + 'a \<Rightarrow> ('s, 'a) py" where
  "of_sum r s = (r, s)"

text \<open>Lifting an operation on one part of the state to the whole state.\<close>

definition lift :: "('s \<Rightarrow> 't) \<Rightarrow> ('t \<Rightarrow> 's \<Rightarrow> 's) \<Rightarrow> ('t, 'a) py \<Rightarrow> ('s, 'a) py" where
  "lift get put m s = (case m (get s) of (r, t) \<Rightarrow> (r, put t s))"

section \<open>Python values\<close>

text \<open>
  Truthiness of an optional float (\<^verbatim>\<open>if config.get("quantity"):\<close>): \<open>None\<close>
  and \<open>0.0\<close> are false, every other number is true.
\<close>

fun truthy :: "real option \<Rightarrow> bool" where
  "truthy None = False"
| "truthy (Some x) = (x \<noteq> 0)"

text \<open>\<^verbatim>\<open>a if a else b\<close> on optional floats.\<close>

definition py_or :: "real option \<Rightarrow> real option \<Rightarrow> real option" where
  "py_or a b = (if truthy a then a else b)"

text \<open>
  Python's \<^verbatim>\<open>s.split(sep)\<close> for a one-character separator: always at least one
  piece, empty pieces kept.
\<close>

fun split_on :: "char \<Rightarrow> string \<Rightarrow> string list" where
  "split_on c [] = [[]]"
| "split_on c (x # xs) =
     (if x = c then [] # split_on c xs
      else (case split_on c xs of [] \<Rightarrow> [[x]] | w # ws \<Rightarrow> (x # w) # ws))"

text \<open>Python's \<^verbatim>\<open>xs[i]\<close> for a non-negative index: \<open>IndexError\<close> out of range.\<close>

definition py_nth :: "'a list \<Rightarrow> nat \<Rightarrow> exc + 'a" where
  "py_nth xs i = (if i < length xs then Inr (xs ! i) else Inl IndexError)"

text \<open>Python's \<^verbatim>\<open>xs[-1]\<close>.\<close>

definition py_last :: "'a list \<Rightarrow> exc + 'a" where
  "py_last xs = (if xs = [] then Inl IndexError else Inr (last xs))"

text \<open>\<^verbatim>\<open>float(x)\<close> of a JSON number that may be null: \<open>TypeError\<close> on null.\<close>

definition py_float :: "real option \<Rightarrow> exc + real" where
  "py_float v = (case v of None \<Rightarrow> Inl TypeError | Some x \<Rightarrow> Inr x)"

text \<open>Python's \<^verbatim>\<open>a / b\<close> on floats.\<close>

definition py_div :: "real \<Rightarrow> real \<Rightarrow> exc + real" where
  "py_div a b = (if b = 0 then Inl ZeroDivisionError else Inr (a / b))"

section \<open>Rules of the monad\<close>

lemma ret_apply [simp]: "ret x s = (Inr x, s)"
  by (simp add: ret_def)

lemma raise_apply [simp]: "raise e s = (Inl e, s)"
  by (simp add: raise_def)

lemma pbind_apply [simp]:
  "pbind m f s = (case m s of (Inl e, s') \<Rightarrow> (Inl e, s') | (Inr x, s') \<Rightarrow> f x s')"
  by (simp add: pbind_def)

lemma of_sum_apply [simp]: "of_sum r s = (r, s)"
  by (simp add: of_sum_def)

lemma lift_apply [simp]:
  "lift get put m s = (case m (get s) of (r, t) \<Rightarrow> (r, put t s))"
  by (simp add: lift_def)

lemma case_map_sum [simp]:
  "(case map_sum f g x of Inl a \<Rightarrow> l a | Inr b \<Rightarrow> r b) = (case x of Inl a \<Rightarrow> l (f a) | Inr b \<Rightarrow> r (g b))"
  by (cases x) simp_all

lemma pbind_Inl:
  "m s = (Inl e, s') \<Longrightarrow> pbind m f s = (Inl e, s')"
  by simp

lemma pbind_Inr:
  "m s = (Inr x, s') \<Longrightarrow> pbind m f s = f x s'"
  by simp

section \<open>Rules of the Python helpers\<close>

lemma truthy_iff [py_simps]: "truthy v \<longleftrightarrow> (\<exists>x. v = Some x \<and> x \<noteq> 0)"
  by (cases v) auto

lemma py_or_truthy [simp]: "truthy a \<Longrightarrow> py_or a b = a"
  by (simp add: py_or_def)

lemma py_or_falsy [simp]: "\<not> truthy a \<Longrightarrow> py_or a b = b"
  by (simp add: py_or_def)

lemma truthy_py_or: "truthy (py_or a b) \<longleftrightarrow> truthy a \<or> truthy b"
  by (simp add: py_or_def)

lemma py_nth_Inr [py_simps]: "py_nth xs i = Inr y \<longleftrightarrow> i < length xs \<and> xs ! i = y"
  by (auto simp: py_nth_def)

lemma py_float_simps [simp]: "py_float None = Inl TypeError" "py_float (Some x) = Inr x"
  by (simp_all add: py_float_def)

lemma py_div_Inr [py_simps]: "py_div a b = Inr q \<longleftrightarrow> b \<noteq> 0 \<and> q = a / b"
  by (auto simp: py_div_def)

lemma split_on_not_Nil [simp]: "split_on c xs \<noteq> []"
  by (induction xs) (auto split: list.split)

lemma split_on_no_sep [simp]: "c \<notin> set xs \<Longrightarrow> split_on c xs = [xs]"
  by (induction xs) auto

lemma split_on_append_sep:
  "c \<notin> set xs \<Longrightarrow> split_on c (xs @ c # ys) = xs # split_on c ys"
  by (induction xs) auto

lemma split_on_append_sep_gen: "split_on c (xs @ c # ys) = split_on c xs @ split_on c ys"
proof (induction xs)
  case (Cons x xs)
  then show ?case
    using split_on_not_Nil [of c xs] by (cases "split_on c xs") auto
qed simp

lemma length_split_on: "length (split_on c xs) = Suc (length (filter ((=) c) xs))"
  by (induction xs) (auto split: list.split)

lemma split_on_Cons_last:
  "last (split_on c (x # xs)) = (if x = c \<or> c \<in> set xs then last (split_on c xs) else x # xs)"
proof (cases "x = c")
  case True
  then show ?thesis by simp
next
  case False
  then show ?thesis
  proof (cases "split_on c xs")
    case Nil
    then show ?thesis by simp
  next
    case (Cons w ws)
    have "ws = [] \<longleftrightarrow> c \<notin> set xs"
      using length_split_on [of c xs] Cons by (auto simp: filter_empty_conv)
    with False Cons show ?thesis
      by (cases "c \<in> set xs") auto
  qed
qed

lemma takeWhile_append_stop: "\<not> P y \<Longrightarrow> takeWhile P (xs @ y # ys) = takeWhile P xs"
  by (induction xs) auto

lemma takeWhile_no_sep [simp]: "c \<notin> set xs \<Longrightarrow> takeWhile (\<lambda>x. x \<noteq> c) xs = xs"
  by (induction xs) auto

lemma last_split_on: "last (split_on c xs) = rev (takeWhile (\<lambda>x. x \<noteq> c) (rev xs))"
proof (induction xs)
  case Nil
  then show ?case by simp
next
  case (Cons x xs)
  show ?case
  proof (cases "c \<in> set xs")
    case True
    then have "takeWhile (\<lambda>y. y \<noteq> c) (rev xs @ [x]) = takeWhile (\<lambda>y. y \<noteq> c) (rev xs)"
      by (intro takeWhile_append1 [of c]) auto
    with True Cons.IH show ?thesis unfolding split_on_Cons_last by simp
  next
    case False
    then have "takeWhile (\<lambda>y. y \<noteq> c) (rev xs @ [x]) = rev xs @ takeWhile (\<lambda>y. y \<noteq> c) [x]"
      by (intro takeWhile_append2) auto
    with False show ?thesis unfolding split_on_Cons_last by simp
  qed
qed

lemma last_split_on_sep: "c \<notin> set e \<Longrightarrow> last (split_on c (u @ c # e)) = e"
  by (simp add: last_split_on takeWhile_append_stop)

text \<open>A string joined at a separator that the left part does not contain determines that part.\<close>

lemma sep_join_left:
  assumes "c \<notin> set u1" "c \<notin> set u2" "u1 @ c # e1 = u2 @ c # e2"
  shows "u1 = u2"
proof -
  have "takeWhile (\<lambda>x. x \<noteq> c) (u1 @ c # e1) = takeWhile (\<lambda>x. x \<noteq> c) (u2 @ c # e2)"
    using assms(3) by simp
  with assms(1,2) show ?thesis by (simp add: takeWhile_append_stop)
qed

lemma sep_join_right:
  assumes "(c::char) \<notin> set e1" "c \<notin> set e2" "u1 @ c # e1 = u2 @ c # e2"
  shows "e1 = e2"
proof -
  have "last (split_on c (u1 @ c # e1)) = last (split_on c (u2 @ c # e2))"
    using assms(3) by simp
  with assms(1,2) show ?thesis by (simp add: last_split_on_sep)
qed

lemma map_filter_all_Some:
  "\<forall>k\<in>set ks. f k \<noteq> None \<Longrightarrow> List.map_filter f ks = map (\<lambda>k. the (f k)) ks"
  by (induction ks) (auto simp: List.map_filter_simps)

lemma length_map_filter_le: "length (List.map_filter f xs) \<le> length xs"
  by (induction xs) (auto simp: List.map_filter_simps split: option.split)

end
