(* ===== verification/Models.thy ===== *)
theory Models
  imports Prelude
begin

text \<open>
  The data model of \<^verbatim>\<open>src/bridge/backend/app/models.py\<close>: the three string
  enums, the alert configuration, the TradingView alert payload and the order
  result.  An alert configuration is a record over the types of its three enum
  fields, so that the same record describes the pydantic model (enum members)
  and the dictionary the pipeline reads back from Redis (their string values,
  as \<^verbatim>\<open>json.dumps(config.dict())\<close> stores them).
\<close>

section \<open>Enums\<close>

datatype ExchangeEnum = BINANCE | COINBASE | BYBIT | OKEX | KUCOIN | BITFINEX | FTX | HUOBI

fun exchange_value :: "ExchangeEnum \<Rightarrow> string" where
  "exchange_value BINANCE = ''binance''"
| "exchange_value COINBASE = ''coinbase''"
| "exchange_value BYBIT = ''bybit''"
| "exchange_value OKEX = ''okex''"
| "exchange_value KUCOIN = ''kucoin''"
| "exchange_value BITFINEX = ''bitfinex''"
| "exchange_value FTX = ''ftx''"
| "exchange_value HUOBI = ''huobi''"

text \<open>\<^verbatim>\<open>[e.value for e in ExchangeEnum]\<close>, in declaration order.\<close>

definition all_exchanges :: "ExchangeEnum list" where
  "all_exchanges = [BINANCE, COINBASE, BYBIT, OKEX, KUCOIN, BITFINEX, FTX, HUOBI]"

datatype OrderTypeEnum = MARKET | LIMIT | STOP_LOSS | TAKE_PROFIT

fun order_type_value :: "OrderTypeEnum \<Rightarrow> string" where
  "order_type_value MARKET = ''market''"
| "order_type_value LIMIT = ''limit''"
| "order_type_value STOP_LOSS = ''stop_loss''"
| "order_type_value TAKE_PROFIT = ''take_profit''"

datatype PositionSideEnum = LONG | SHORT

fun position_side_value :: "PositionSideEnum \<Rightarrow> string" where
  "position_side_value LONG = ''long''"
| "position_side_value SHORT = ''short''"

text \<open>
  Pydantic's validation of an enum field from its string: the member whose value
  it is, or a validation error.
\<close>

definition parse_exchange :: "string \<Rightarrow> ExchangeEnum option" where
  "parse_exchange s = find (\<lambda>e. exchange_value e = s) all_exchanges"

definition parse_order_type :: "string \<Rightarrow> OrderTypeEnum option" where
  "parse_order_type s = find (\<lambda>t. order_type_value t = s) [MARKET, LIMIT, STOP_LOSS, TAKE_PROFIT]"

definition parse_position_side :: "string \<Rightarrow> PositionSideEnum option" where
  "parse_position_side s = find (\<lambda>p. position_side_value p = s) [LONG, SHORT]"

section \<open>Records\<close>

text \<open>\<^verbatim>\<open>ApiKeyModel\<close>.\<close>

record ApiKeyModel =
  api_exchange :: ExchangeEnum
  api_key :: string
  api_secret :: string

text \<open>\<^verbatim>\<open>AlertConfigModel\<close>; the optional floats are \<open>real option\<close>.\<close>

record ('e, 'o, 'p) alert_config =
  name :: string
  exchange :: 'e
  symbol :: string
  order_type :: 'o
  position_side :: 'p
  quantity :: "real option"
  quantity_percentage :: "real option"
  price :: "real option"
  stop_loss :: "real option"
  take_profit :: "real option"
  description :: "string option"

type_synonym AlertConfigModel = "(ExchangeEnum, OrderTypeEnum, PositionSideEnum) alert_config"

text \<open>The dictionary \<^verbatim>\<open>get_alert_config\<close> returns: enum fields are their values.\<close>

type_synonym stored_config = "(string, string, string) alert_config"

definition config_dict :: "AlertConfigModel \<Rightarrow> stored_config" where
  "config_dict c =
     \<lparr>name = name c, exchange = exchange_value (exchange c), symbol = symbol c,
      order_type = order_type_value (order_type c),
      position_side = position_side_value (position_side c),
      quantity = quantity c, quantity_percentage = quantity_percentage c, price = price c,
      stop_loss = stop_loss c, take_profit = take_profit c, description = description c\<rparr>"

text \<open>
  \<^verbatim>\<open>TradingViewAlertModel\<close>.  Its fields are prefixed where they would clash with
  those of the configuration; \<^verbatim>\<open>time\<close> is kept as its ISO string and
  \<^verbatim>\<open>additional_parameters\<close> as an association list.
\<close>

record TradingViewAlertModel =
  config_name :: string
  user_id :: string
  alert_price :: "real option"
  volume :: "real option"
  alert_time :: "string option"
  alert_exchange :: "string option"
  alert_symbol :: "string option"
  alert_message :: "string option"
  additional_parameters :: "(string \<times> string) list option"

text \<open>An exchange order receipt (ccxt's order dictionary), as an association list.\<close>

type_synonym receipt = "(string \<times> string) list"

text \<open>\<^verbatim>\<open>OrderResultModel\<close>; the timestamp is its ISO string.\<close>

record OrderResultModel =
  success :: bool
  order_id :: "string option"
  result_message :: "string option"
  details :: "receipt option"
  timestamp :: string

text \<open>\<^verbatim>\<open>UserModel\<close> (declared, not used by the backend).\<close>

record UserModel =
  um_user_id :: string
  um_username :: string
  um_email :: "string option"

section \<open>Validation of request bodies\<close>

text \<open>
  FastAPI validates a JSON body against the pydantic model of the endpoint's parameter:
  the string of each enum field must be the value of a member; otherwise the request is
  answered with 422 before the handler runs.  A body is written as the record of its
  string fields, absent optional keys being \<open>None\<close>.
\<close>

definition parse_api_key_body :: "string \<Rightarrow> string \<Rightarrow> string \<Rightarrow> ApiKeyModel option" where
  "parse_api_key_body ex k s = map_option (\<lambda>e. \<lparr>api_exchange = e, api_key = k, api_secret = s\<rparr>) (parse_exchange ex)"

definition parse_config_body :: "stored_config \<Rightarrow> AlertConfigModel option" where
  "parse_config_body d =
     (case (parse_exchange (exchange d), parse_order_type (order_type d), parse_position_side (position_side d)) of
        (Some e, Some t, Some p) \<Rightarrow>
          Some \<lparr>name = name d, exchange = e, symbol = symbol d, order_type = t, position_side = p,
                quantity = quantity d, quantity_percentage = quantity_percentage d, price = price d,
                stop_loss = stop_loss d, take_profit = take_profit d, description = description d\<rparr>
      | _ \<Rightarrow> None)"

section \<open>Lemmas\<close>

text \<open>Validating the string value of an enum member gives that member back.\<close>

lemma enum_value_roundtrip:
  "parse_exchange (exchange_value e) = Some e \<and> parse_order_type (order_type_value t) = Some t \<and>
   parse_position_side (position_side_value p) = Some p"
  by (cases e; cases t; cases p)
     (simp_all add: parse_exchange_def all_exchanges_def parse_order_type_def parse_position_side_def)

lemma exchange_value_no_colon [simp]: "CHR '':'' \<notin> set (exchange_value e)"
  by (cases e) simp_all

lemma config_dict_sel [simp]:
  "name (config_dict c) = name c"
  "exchange (config_dict c) = exchange_value (exchange c)"
  "symbol (config_dict c) = symbol c"
  "order_type (config_dict c) = order_type_value (order_type c)"
  "position_side (config_dict c) = position_side_value (position_side c)"
  "quantity (config_dict c) = quantity c"
  "quantity_percentage (config_dict c) = quantity_percentage c"
  "price (config_dict c) = price c"
  by (simp_all add: config_dict_def)

end
