(* ===== verification/Glob.thy ===== *)
theory Glob
  imports Prelude "HOL-Library.Sublist"
begin

text \<open>
  The glob-style patterns of the Redis \<^verbatim>\<open>KEYS\<close> command, which
  \<^verbatim>\<open>database.py\<close> calls with patterns built from a user id and a literal suffix
  \<^verbatim>\<open>*\<close>.  Redis documents the syntax as follows: \<^verbatim>\<open>?\<close> matches one
  character, \<^verbatim>\<open>*\<close> any sequence, \<^verbatim>\<open>[ae]\<close> one of the listed characters,
  \<^verbatim>\<open>[^e]\<close> any other character, \<^verbatim>\<open>[a-b]\<close> a range, and a backslash escapes
  the next character.  The matcher below follows that description in the shape of the
  server's \<^verbatim>\<open>stringmatchlen\<close>: one pass over the pattern, a \<^verbatim>\<open>*\<close> that
  tries every suffix of the key, a bracket class scanned up to its closing
  \<^verbatim>\<open>]\<close> (an unterminated class runs to the end of the pattern), a trailing
  backslash that stands for itself.  Characters are compared by code.
\<close>

section \<open>Matcher\<close>

definition in_char_range :: "char \<Rightarrow> char \<Rightarrow> char \<Rightarrow> bool" where
  "in_char_range a b c =
     (let lo = min (of_char a :: nat) (of_char b); hi = max (of_char a :: nat) (of_char b)
      in lo \<le> of_char c \<and> of_char c \<le> hi)"

text \<open>
  The body of a bracket class after \<^verbatim>\<open>[\<close> (and \<^verbatim>\<open>^\<close>): whether the key
  character \<open>c\<close> is listed, and the rest of the pattern after the closing bracket.
\<close>

fun glob_class :: "string \<Rightarrow> char \<Rightarrow> bool \<Rightarrow> bool \<times> string" where
  "glob_class [] c m = (m, [])"
| "glob_class (x # p) c m =
     (if x = CHR 0x5C \<and> p \<noteq> [] then glob_class (tl p) c (m \<or> hd p = c)
      else if x = CHR '']'' then (m, p)
      else if 2 \<le> length p \<and> hd p = CHR ''-'' then glob_class (drop 2 p) c (m \<or> in_char_range x (p ! 1) c)
      else glob_class p c (m \<or> x = c))"

definition class_match :: "string \<Rightarrow> char \<Rightarrow> bool \<times> string" where
  "class_match p c =
     (if p \<noteq> [] \<and> hd p = CHR ''^'' then apfst Not (glob_class (tl p) c False)
      else glob_class p c False)"

function glob_match :: "string \<Rightarrow> string \<Rightarrow> bool" where
  "glob_match [] s = (s = [])"
| "glob_match (x # p) s =
     (if x = CHR ''*'' then glob_match p s \<or> (case s of [] \<Rightarrow> False | _ # s' \<Rightarrow> glob_match (x # p) s')
      else case s of [] \<Rightarrow> False | y # s' \<Rightarrow>
        (if x = CHR ''?'' then glob_match p s'
         else if x = CHR ''['' then (case class_match p y of (hit, rest) \<Rightarrow> hit \<and> glob_match rest s')
         else if x = CHR 0x5C \<and> p \<noteq> [] then y = hd p \<and> glob_match (tl p) s'
         else y = x \<and> glob_match p s'))"
  by pat_completeness auto
termination
  by (relation "measures [\<lambda>(p, s). length s, \<lambda>(p, s). length p]") auto

text \<open>A pattern with none of the four special characters matches only itself.\<close>

definition glob_free :: "string \<Rightarrow> bool" where
  "glob_free p \<longleftrightarrow> (\<forall>c \<in> set p. c \<notin> set [CHR ''*'', CHR ''?'', CHR ''['', CHR 0x5C])"

section \<open>Lemmas\<close>

lemma glob_free_append [simp]: "glob_free (p @ q) \<longleftrightarrow> glob_free p \<and> glob_free q"
  by (auto simp: glob_free_def)

lemma glob_free_Cons [simp]:
  "glob_free (x # p) \<longleftrightarrow> x \<notin> set [CHR ''*'', CHR ''?'', CHR ''['', CHR 0x5C] \<and> glob_free p"
  by (simp add: glob_free_def)

lemma glob_free_Nil [simp]: "glob_free []"
  by (simp add: glob_free_def)

lemma glob_star_any [simp]: "glob_match ''*'' s"
  by (induction s) simp_all

lemma glob_star_skip: "glob_match q s \<Longrightarrow> glob_match (CHR ''*'' # q) (a @ s)"
  by (induction a) simp_all

lemma glob_literal_append: "glob_free p \<Longrightarrow> glob_match (p @ q) (p @ s) = glob_match q s"
  by (induction p) auto

text \<open>A literal prefix followed by \<^verbatim>\<open>*\<close> selects exactly the keys with that prefix.\<close>

lemma glob_match_literal_star:
  "glob_free p \<Longrightarrow> glob_match (p @ ''*'') k = prefix p k"
proof (induction p arbitrary: k)
  case Nil
  then show ?case by (simp del: glob_match.simps)
next
  case (Cons x p)
  then show ?case by (cases k) auto
qed

end
