(* ===== verification/Store.thy ===== *)
theory Store
  imports Models Glob "HOL-Library.AList" "HOL-Library.Sublist" "HOL-Library.List_Lexorder"
    "HOL-Library.Char_ord"
begin

text \<open>
  The persistence layer of \<^verbatim>\<open>src/bridge/backend/app/database.py\<close>.  Redis is one
  keyspace shared by the credential vault, the configuration store and the history
  store: an association list from key strings to the JSON values written there
  (distinct keys), a flag for whether the server answers (every command on a
  server that does not answer raises \<open>ConnectionError\<close>) and a flag for a server
  out of memory, which refuses writes (\<^verbatim>\<open>SET\<close>) with an error reply and still
  serves reads and deletions.  The Fernet cipher is a
  pair of functions; decryption fails (\<open>InvalidToken\<close>) on a token the key did not
  produce.  The value written under a key is one of
  the three dictionary shapes the backend writes.
\<close>

section \<open>Stored values\<close>

text \<open>
  The two shapes of \<^verbatim>\<open>history_data\<close> built by \<^verbatim>\<open>process_tradingview_alert\<close>:
  the success record and the failure record.
\<close>

datatype history_entry =
    HistSuccess (h_config_name: string) (h_symbol: string) (h_side: string)
      (h_quantity: real) (h_price: "real option") (h_timestamp: string)
      (h_order_id: "string option") (h_details: "receipt option")
  | HistFailure (h_config_name: string) (h_timestamp: string) (h_message: string)

datatype rval =
    RApiKeys string string
  | RConfig stored_config
  | RHistory history_entry

record redis =
  r_data :: "(string \<times> rval) list"
  r_up :: bool
  r_oom :: bool

section \<open>Redis commands\<close>

definition redis_get :: "string \<Rightarrow> (redis, rval option) py" where
  "redis_get k r = (if r_up r then (Inr (map_of (r_data r) k), r) else (Inl ConnectionError, r))"

definition oom_message :: string where
  "oom_message = ''OOM command not allowed when used memory > 'maxmemory'.''"

definition redis_set :: "string \<Rightarrow> rval \<Rightarrow> (redis, bool) py" where
  "redis_set k v r =
     (if \<not> r_up r then (Inl ConnectionError, r)
      else if r_oom r then (Inl (ResponseError oom_message), r)
      else (Inr True, r\<lparr>r_data := AList.update k v (r_data r)\<rparr>))"

definition redis_delete :: "string \<Rightarrow> (redis, nat) py" where
  "redis_delete k r =
     (if r_up r then (Inr (if k \<in> fst ` set (r_data r) then 1 else 0),
                      r\<lparr>r_data := AList.delete k (r_data r)\<rparr>)
      else (Inl ConnectionError, r))"

text \<open>\<^verbatim>\<open>KEYS pattern\<close>: the keys the glob pattern matches (theory \<open>Glob\<close>).\<close>

definition redis_keys :: "string \<Rightarrow> (redis, string list) py" where
  "redis_keys p r =
     (if r_up r then (Inr (filter (glob_match p) (map fst (r_data r))), r)
      else (Inl ConnectionError, r))"

text \<open>Redis holds each key once.\<close>

definition redis_wf :: "redis \<Rightarrow> bool" where
  "redis_wf r \<longleftrightarrow> distinct (map fst (r_data r))"

section \<open>Encryption\<close>

record cipher =
  encrypt :: "string \<Rightarrow> string"
  decrypt :: "string \<Rightarrow> string option"

definition encrypt_data :: "cipher \<Rightarrow> string \<Rightarrow> string" where
  "encrypt_data c d = encrypt c d"

definition decrypt_data :: "cipher \<Rightarrow> string \<Rightarrow> exc + string" where
  "decrypt_data c d = (case decrypt c d of None \<Rightarrow> Inl InvalidToken | Some x \<Rightarrow> Inr x)"

section \<open>Keys\<close>

definition api_key_key :: "string \<Rightarrow> string \<Rightarrow> string" where
  "api_key_key u e = ''user:'' @ u @ '':exchange:'' @ e"

definition config_key :: "string \<Rightarrow> string \<Rightarrow> string" where
  "config_key u n = ''user:'' @ u @ '':alert_config:'' @ n"

definition history_key :: "string \<Rightarrow> string \<Rightarrow> string" where
  "history_key u ts = ''alert:'' @ u @ '':'' @ ts"

section \<open>API keys\<close>

definition save_exchange_api_key ::
  "cipher \<Rightarrow> string \<Rightarrow> string \<Rightarrow> string \<Rightarrow> string \<Rightarrow> (redis, bool) py" where
  "save_exchange_api_key c u e k s =
     redis_set (api_key_key u e) (RApiKeys (encrypt_data c k) (encrypt_data c s))"

definition get_exchange_api_key ::
  "cipher \<Rightarrow> string \<Rightarrow> string \<Rightarrow> (redis, (string \<times> string) option) py" where
  "get_exchange_api_key c u e =
     pbind (redis_get (api_key_key u e)) (\<lambda>d. case d of
        None \<Rightarrow> ret None
      | Some (RApiKeys a s) \<Rightarrow>
          (case decrypt_data c a of
             Inl x \<Rightarrow> raise x
           | Inr k \<Rightarrow> (case decrypt_data c s of Inl x \<Rightarrow> raise x | Inr sec \<Rightarrow> ret (Some (k, sec))))
      | Some _ \<Rightarrow> raise (KeyError ''api_key''))"

definition delete_exchange_api_key :: "string \<Rightarrow> string \<Rightarrow> (redis, bool) py" where
  "delete_exchange_api_key u e = pbind (redis_delete (api_key_key u e)) (\<lambda>n. ret (0 < n))"

section \<open>Alert configurations\<close>

definition save_alert_config :: "string \<Rightarrow> string \<Rightarrow> stored_config \<Rightarrow> (redis, bool) py" where
  "save_alert_config u n cfg = redis_set (config_key u n) (RConfig cfg)"

definition get_alert_config :: "string \<Rightarrow> string \<Rightarrow> (redis, rval option) py" where
  "get_alert_config u n = redis_get (config_key u n)"

text \<open>\<^verbatim>\<open>config["name"] = config_name\<close> on a loaded dictionary.\<close>

fun set_config_name :: "string \<Rightarrow> rval \<Rightarrow> rval" where
  "set_config_name n (RConfig cfg) = RConfig (cfg\<lparr>name := n\<rparr>)"
| "set_config_name n v = v"

text \<open>The loop of \<^verbatim>\<open>get_all_alert_configs\<close> over the keys \<^verbatim>\<open>KEYS\<close> returned.\<close>

fun collect_configs :: "string \<Rightarrow> string list \<Rightarrow> (redis, rval list) py" where
  "collect_configs u [] = ret []"
| "collect_configs u (k # ks) =
     (let n = last (split_on CHR '':'' k) in
      pbind (get_alert_config u n) (\<lambda>c.
      pbind (collect_configs u ks) (\<lambda>rest.
      ret (case c of None \<Rightarrow> rest | Some v \<Rightarrow> set_config_name n v # rest))))"

definition config_pattern :: "string \<Rightarrow> string" where
  "config_pattern u = ''user:'' @ u @ '':alert_config:*''"

definition get_all_alert_configs :: "string \<Rightarrow> (redis, rval list) py" where
  "get_all_alert_configs u = pbind (redis_keys (config_pattern u)) (collect_configs u)"

definition delete_alert_config :: "string \<Rightarrow> string \<Rightarrow> (redis, bool) py" where
  "delete_alert_config u n = pbind (redis_delete (config_key u n)) (\<lambda>k. ret (0 < k))"

section \<open>History\<close>

definition save_alert_history :: "string \<Rightarrow> history_entry \<Rightarrow> (redis, bool) py" where
  "save_alert_history u h = redis_set (history_key u (h_timestamp h)) (RHistory h)"

fun fetch_all :: "string list \<Rightarrow> (redis, rval list) py" where
  "fetch_all [] = ret []"
| "fetch_all (k # ks) =
     pbind (redis_get k) (\<lambda>d. pbind (fetch_all ks) (\<lambda>rest.
       ret (case d of None \<Rightarrow> rest | Some v \<Rightarrow> v # rest)))"

definition history_pattern :: "string \<Rightarrow> string" where
  "history_pattern u = ''alert:'' @ u @ '':*''"

definition get_alert_history :: "string \<Rightarrow> nat \<Rightarrow> (redis, rval list) py" where
  "get_alert_history u limit =
     pbind (redis_keys (history_pattern u)) (\<lambda>ks. fetch_all (take limit (rev (sort ks))))"

section \<open>Lemmas\<close>

lemma redis_keys_up [simp]: "r_up r \<Longrightarrow> redis_keys p r = (Inr (filter (glob_match p) (map fst (r_data r))), r)"
  by (simp add: redis_keys_def)

text \<open>For a user id without glob characters, the two patterns select the keys with a literal prefix.\<close>

lemma history_pattern_literal:
  "glob_free u \<Longrightarrow> glob_match (history_pattern u) = prefix (''alert:'' @ u @ '':'')"
  using glob_match_literal_star [of "''alert:'' @ u @ '':''"] by (simp add: history_pattern_def fun_eq_iff)

lemma config_pattern_literal:
  "glob_free u \<Longrightarrow> glob_match (config_pattern u) = prefix (''user:'' @ u @ '':alert_config:'')"
  using glob_match_literal_star [of "''user:'' @ u @ '':alert_config:''"] by (simp add: config_pattern_def fun_eq_iff)

lemma redis_get_up [simp]: "r_up r \<Longrightarrow> redis_get k r = (Inr (map_of (r_data r) k), r)"
  by (simp add: redis_get_def)

lemma redis_set_ok [simp]:
  "r_up r \<Longrightarrow> \<not> r_oom r \<Longrightarrow> redis_set k v r = (Inr True, r\<lparr>r_data := AList.update k v (r_data r)\<rparr>)"
  by (simp add: redis_set_def)

lemma redis_set_state: "redis_set k v r = (x, r') \<Longrightarrow>
   r' = r \<or> (x = Inr True \<and> r' = r\<lparr>r_data := AList.update k v (r_data r)\<rparr>)"
  by (auto simp: redis_set_def split: if_splits)

lemma redis_set_wf: "redis_wf r \<Longrightarrow> redis_set k v r = (x, r') \<Longrightarrow> redis_wf r'"
  by (auto simp: redis_wf_def redis_set_def distinct_update split: if_splits)

lemma redis_delete_wf: "redis_wf r \<Longrightarrow> redis_delete k r = (x, r') \<Longrightarrow> redis_wf r'"
  by (auto simp: redis_wf_def redis_delete_def distinct_delete split: if_splits)

text \<open>C22: With a cipher whose decryption inverts its encryption, reading the API keys of a user and exchange right after saving them returns the saved key and secret.\<close>

theorem api_key_roundtrip:
  assumes "\<forall>x. decrypt c (encrypt c x) = Some x" and "r_up r" and "\<not> r_oom r"
    and "save_exchange_api_key c u e k s r = (Inr True, r')"
  shows "get_exchange_api_key c u e r' = (Inr (Some (k, s)), r')"
  using assms
  by (auto simp: save_exchange_api_key_def get_exchange_api_key_def encrypt_data_def
      decrypt_data_def update_conv')

theorem api_key_roundtrip_witness:
  "get_exchange_api_key \<lparr>encrypt = rev, decrypt = (\<lambda>s. Some (rev s))\<rparr> ''u1'' ''binance''
     \<lparr>r_data = [(api_key_key ''u1'' ''binance'', RApiKeys ''k'' ''s'')], r_up = True, r_oom = False\<rparr> =
   (Inr (Some (''k'', ''s'')),
    \<lparr>r_data = [(api_key_key ''u1'' ''binance'', RApiKeys ''k'' ''s'')], r_up = True, r_oom = False\<rparr>)"
  by (rule api_key_roundtrip [where r = "\<lparr>r_data = [], r_up = True, r_oom = False\<rparr>" and k = "''k''"])
     (simp_all add: save_exchange_api_key_def encrypt_data_def)

text \<open>The Redis key of a configuration does not separate the user id from the configuration name.\<close>

lemma config_key_collision:
  "config_key (u @ '':alert_config:'' @ m) n = config_key u (m @ '':alert_config:'' @ n)"
  by (simp add: config_key_def)

text \<open>C24: Two history records of one user with the same timestamp are stored under one key: the second write replaces the first.\<close>

theorem history_same_timestamp_overwrites:
  assumes "h_timestamp h1 = h_timestamp h2" and "r_up r" and "\<not> r_oom r"
  shows "pbind (save_alert_history u h1) (\<lambda>_. save_alert_history u h2) r = save_alert_history u h2 r"
  using assms by (simp add: save_alert_history_def)

theorem history_same_timestamp_overwrites_witness:
  "pbind (save_alert_history ''u1'' (HistFailure ''c1'' ''t1'' ''first''))
     (\<lambda>_. save_alert_history ''u1'' (HistFailure ''c1'' ''t1'' ''second''))
     \<lparr>r_data = [], r_up = True, r_oom = False\<rparr> =
   (Inr True, \<lparr>r_data = [(history_key ''u1'' ''t1'', RHistory (HistFailure ''c1'' ''t1'' ''second''))],
               r_up = True, r_oom = False\<rparr>)"
proof -
  have "pbind (save_alert_history ''u1'' (HistFailure ''c1'' ''t1'' ''first''))
     (\<lambda>_. save_alert_history ''u1'' (HistFailure ''c1'' ''t1'' ''second''))
     \<lparr>r_data = [], r_up = True, r_oom = False\<rparr> =
     save_alert_history ''u1'' (HistFailure ''c1'' ''t1'' ''second'') \<lparr>r_data = [], r_up = True, r_oom = False\<rparr>"
    by (rule history_same_timestamp_overwrites) simp_all
  then show ?thesis by (simp add: save_alert_history_def)
qed

end
