(* ===== verification/Gateway.thy ===== *)
theory Gateway
  imports Store
begin

text \<open>
  The exchange gateway: the capability interface through which the backend uses
  ccxt, the state of the backend process, and \<^verbatim>\<open>get_exchange_client\<close>
  (\<^verbatim>\<open>main.py\<close>, lines 42--70) with its process-wide client cache.

  ccxt is not modelled: an exchange is an environment of answers (\<open>ccxt\<close>):
  whether a client can be constructed for an exchange name and key pair, and what
  the client's \<^verbatim>\<open>fetch_balance\<close>, \<^verbatim>\<open>fetch_ticker\<close> and
  \<^verbatim>\<open>create_order\<close> return or raise.  Every call the backend makes on a client is
  appended to the call log of the state, so that the order, the number and the
  arguments of exchange calls can be stated; \<^verbatim>\<open>create_order\<close> in the log is an
  order placed.
\<close>

section \<open>The exchange capability\<close>

text \<open>A ccxt client: \<^verbatim>\<open>getattr(ccxt, exchange_name)({'apiKey': .., 'secret': ..})\<close>.\<close>

record client =
  cl_exchange :: string
  cl_api_key :: string
  cl_secret :: string

text \<open>\<^verbatim>\<open>fetch_balance()\<close>: currency \<open>\<mapsto>\<close> its \<^verbatim>\<open>'free'\<close> amount (\<open>None\<close> if null).\<close>

type_synonym balance = "string \<rightharpoonup> real option"

text \<open>The arguments of \<^verbatim>\<open>create_order(symbol, type, side, amount, price, params)\<close>.\<close>

record order_req =
  or_symbol :: string
  or_type :: string
  or_side :: string
  or_amount :: real
  or_price :: "real option"
  or_params :: "(string \<times> real) list"

datatype call = FetchBalance | FetchTicker string | CreateOrder order_req

text \<open>
  What ccxt answers.  A failing construction or call is a ccxt exception, given by its
  message: \<^verbatim>\<open>AttributeError\<close> of \<^verbatim>\<open>getattr\<close> or an error of the constructor for
  \<open>ccxt_init\<close>, a \<^verbatim>\<open>ccxt.BaseError\<close> (network error, exchange rejection) for the calls.
\<close>

record ccxt =
  ccxt_init :: "string \<Rightarrow> string \<Rightarrow> string \<Rightarrow> string option"
  ccxt_balance :: "client \<Rightarrow> string + balance"
  ccxt_ticker :: "client \<Rightarrow> string \<Rightarrow> string + real option"
  ccxt_order :: "client \<Rightarrow> order_req \<Rightarrow> string + receipt"

section \<open>Process state\<close>

text \<open>
  The backend process: the Redis server it talks to, the module-level dictionary
  \<^verbatim>\<open>exchange_clients\<close>, and the exchange calls made so far.
\<close>

record world =
  w_redis :: redis
  w_cache :: "string \<rightharpoonup> client"
  w_calls :: "(client \<times> call) list"

definition on_redis :: "(redis, 'a) py \<Rightarrow> (world, 'a) py" where
  "on_redis m = lift w_redis (\<lambda>r w. w\<lparr>w_redis := r\<rparr>) m"

definition log_call :: "client \<Rightarrow> call \<Rightarrow> world \<Rightarrow> world" where
  "log_call cl c w = w\<lparr>w_calls := w_calls w @ [(cl, c)]\<rparr>"

definition fetch_balance :: "ccxt \<Rightarrow> client \<Rightarrow> (world, balance) py" where
  "fetch_balance env cl w = (map_sum ExchangeError id (ccxt_balance env cl), log_call cl FetchBalance w)"

definition fetch_ticker :: "ccxt \<Rightarrow> client \<Rightarrow> string \<Rightarrow> (world, real option) py" where
  "fetch_ticker env cl sy w =
     (map_sum ExchangeError id (ccxt_ticker env cl sy), log_call cl (FetchTicker sy) w)"

definition create_order :: "ccxt \<Rightarrow> client \<Rightarrow> order_req \<Rightarrow> (world, receipt) py" where
  "create_order env cl req w =
     (map_sum ExchangeError id (ccxt_order env cl req), log_call cl (CreateOrder req) w)"

text \<open>The orders placed, in the order of a call log.\<close>

fun orders_of :: "(client \<times> call) list \<Rightarrow> order_req list" where
  "orders_of [] = []"
| "orders_of ((cl, CreateOrder r) # cs) = r # orders_of cs"
| "orders_of ((cl, FetchBalance) # cs) = orders_of cs"
| "orders_of ((cl, FetchTicker sy) # cs) = orders_of cs"

text \<open>
  \<open>appends w C w'\<close>: from \<open>w\<close> to \<open>w'\<close> the only effect is that calls drawn
  from \<open>C\<close> were made; Redis and the client cache are untouched.
\<close>

definition appends :: "world \<Rightarrow> (client \<times> call) set \<Rightarrow> world \<Rightarrow> bool" where
  "appends w C w' \<longleftrightarrow> (\<exists>cs. w' = w\<lparr>w_calls := w_calls w @ cs\<rparr> \<and> set cs \<subseteq> C)"

section \<open>The client cache\<close>

definition client_key :: "string \<Rightarrow> string \<Rightarrow> string" where
  "client_key u e = u @ '':'' @ e"

definition get_exchange_client :: "cipher \<Rightarrow> ccxt \<Rightarrow> string \<Rightarrow> string \<Rightarrow> (world, client) py" where
  "get_exchange_client c env u e w =
     (case w_cache w (client_key u e) of
        Some cl \<Rightarrow> (Inr cl, w)
      | None \<Rightarrow>
          pbind (on_redis (get_exchange_api_key c u e)) (\<lambda>creds. case creds of
              None \<Rightarrow> raise (HTTPException 404 (''API keys not found for exchange '' @ e))
            | Some (k, s) \<Rightarrow>
                (case ccxt_init env e k s of
                   Some x \<Rightarrow> raise (HTTPException 500 (''Error creating exchange client: '' @ x))
                 | None \<Rightarrow> (\<lambda>w'. let cl = \<lparr>cl_exchange = e, cl_api_key = k, cl_secret = s\<rparr>
                                 in (Inr cl, w'\<lparr>w_cache := (w_cache w')(client_key u e \<mapsto> cl)\<rparr>)))) w)"

section \<open>Lemmas\<close>

lemma appends_refl [simp, intro]: "appends w C w"
  unfolding appends_def by (rule exI [of _ "[]"]) simp

lemma appends_log_call [intro]:
  "appends w C w' \<Longrightarrow> (cl, c) \<in> C \<Longrightarrow> appends w C (log_call cl c w')"
proof -
  assume "appends w C w'" and c: "(cl, c) \<in> C"
  then obtain cs where "w' = w\<lparr>w_calls := w_calls w @ cs\<rparr>" and "set cs \<subseteq> C"
    by (auto simp: appends_def)
  with c show ?thesis
    unfolding appends_def log_call_def by (intro exI [of _ "cs @ [(cl, c)]"]) simp
qed

lemma appends_calls [dest]:
  "appends w C w' \<Longrightarrow> w_redis w' = w_redis w \<and> w_cache w' = w_cache w"
  unfolding appends_def by auto

lemma orders_of_append [simp]: "orders_of (xs @ ys) = orders_of xs @ orders_of ys"
  by (induction xs rule: orders_of.induct) auto

lemma orders_of_Nil: "\<forall>cl r. (cl, CreateOrder r) \<notin> set cs \<Longrightarrow> orders_of cs = []"
  by (induction cs rule: orders_of.induct) auto

lemma appends_no_orders:
  "appends w C w' \<Longrightarrow> \<forall>cl r. (cl, CreateOrder r) \<notin> C \<Longrightarrow> orders_of (w_calls w') = orders_of (w_calls w)"
  unfolding appends_def by (force intro: orders_of_Nil)

lemma appends_prefix: "appends w C w' \<Longrightarrow> prefix (w_calls w) (w_calls w')"
  unfolding appends_def by auto

lemma log_call_sel [simp]:
  "w_redis (log_call cl c w) = w_redis w"
  "w_cache (log_call cl c w) = w_cache w"
  "w_calls (log_call cl c w) = w_calls w @ [(cl, c)]"
  by (simp_all add: log_call_def)

lemma on_redis_apply [simp]:
  "on_redis m w = (case m (w_redis w) of (x, r) \<Rightarrow> (x, w\<lparr>w_redis := r\<rparr>))"
  by (simp add: on_redis_def)

lemma get_exchange_api_key_state: "get_exchange_api_key c u e r = (x, r') \<Longrightarrow> r' = r"
  by (auto simp: get_exchange_api_key_def redis_get_def split: if_splits option.splits rval.splits sum.splits)

text \<open>For exchange names without a colon, the cache key determines the user and the exchange.\<close>

lemma client_key_inj:
  assumes "CHR '':'' \<notin> set e1" and "CHR '':'' \<notin> set e2" and "client_key u1 e1 = client_key u2 e2"
  shows "u1 = u2 \<and> e1 = e2"
proof -
  from assms(3) have eq: "u1 @ CHR '':'' # e1 = u2 @ CHR '':'' # e2"
    by (simp add: client_key_def)
  then have "last (split_on CHR '':'' (u1 @ CHR '':'' # e1)) = last (split_on CHR '':'' (u2 @ CHR '':'' # e2))"
    by simp
  with assms(1,2) have "e1 = e2" by (simp add: last_split_on_sep)
  with eq show ?thesis by simp
qed

text \<open>A cached client is returned without reading Redis.\<close>

lemma get_exchange_client_hit:
  "w_cache w (client_key u e) = Some cl \<Longrightarrow> get_exchange_client c env u e w = (Inr cl, w)"
  by (simp add: get_exchange_client_def)

text \<open>C11: On a cache miss with a stored key pair, the client is built for that exchange from the decrypted key and secret and cached under <user>:<exchange>; nothing else changes.\<close>

theorem get_exchange_client_miss:
  assumes "w_cache w (client_key u e) = None"
    and "get_exchange_api_key c u e (w_redis w) = (Inr (Some (k, s)), w_redis w)"
    and "ccxt_init env e k s = None"
  shows "get_exchange_client c env u e w =
    (Inr \<lparr>cl_exchange = e, cl_api_key = k, cl_secret = s\<rparr>,
     w\<lparr>w_cache := (w_cache w)(client_key u e \<mapsto> \<lparr>cl_exchange = e, cl_api_key = k, cl_secret = s\<rparr>)\<rparr>)"
  using assms by (simp add: get_exchange_client_def Let_def)

text \<open>C20: On a cache miss with no key pair stored for the user and exchange, the gateway raises HTTP 404 'API keys not found for exchange <name>' and changes nothing.\<close>

theorem get_exchange_client_no_keys:
  assumes "w_cache w (client_key u e) = None" and "r_up (w_redis w)"
    and "map_of (r_data (w_redis w)) (api_key_key u e) = None"
  shows "get_exchange_client c env u e w =
    (Inl (HTTPException 404 (''API keys not found for exchange '' @ e)), w)"
  using assms by (simp add: get_exchange_client_def get_exchange_api_key_def redis_get_def)

text \<open>On a cache miss where ccxt cannot build the client, the gateway raises HTTP 500 and caches nothing.\<close>

lemma get_exchange_client_init_error:
  assumes "w_cache w (client_key u e) = None"
    and "get_exchange_api_key c u e (w_redis w) = (Inr (Some (k, s)), w_redis w)"
    and "ccxt_init env e k s = Some x"
  shows "get_exchange_client c env u e w =
    (Inl (HTTPException 500 (''Error creating exchange client: '' @ x)), w)"
  using assms by (simp add: get_exchange_client_def)

lemma get_exchange_client_frame:
  assumes "get_exchange_client c env u e w = (x, w')"
  shows "w_redis w' = w_redis w \<and> w_calls w' = w_calls w \<and> w_cache w \<subseteq>\<^sub>m w_cache w' \<and>
         (\<forall>cl. x = Inr cl \<longrightarrow> w_cache w' (client_key u e) = Some cl)"
proof (cases "w_cache w (client_key u e)")
  case None
  obtain y r where gk: "get_exchange_api_key c u e (w_redis w) = (y, r)" by fastforce
  then have "r = w_redis w" by (rule get_exchange_api_key_state)
  with None gk assms show ?thesis
    by (auto simp: get_exchange_client_def map_le_def Let_def split: sum.splits option.splits prod.splits)
next
  case (Some cl)
  with assms show ?thesis by (auto simp: get_exchange_client_def)
qed

end
