(* ===== verification/Scenario.thy ===== *)
theory Scenario
  imports Gateway
begin

text \<open>
  A concrete deployment, the one of the examples of the specification (section 8):
  user \<^verbatim>\<open>u1\<close> has stored Binance keys and the configuration \<^verbatim>\<open>c1\<close> (market buy
  of 0.01 BTC/USDT); the exchange reports a free USDT balance of 1000, a last price
  of 50000, and answers every order with the receipt \<^verbatim>\<open>{"id": "o1"}\<close>.  The
  cipher reverses strings.  These values instantiate the theorems of the component
  theories in their witnesses; those of the gateway's theorems are at the end of this
  theory.
\<close>

definition ex_cipher :: cipher where
  "ex_cipher = \<lparr>encrypt = rev, decrypt = (\<lambda>s. Some (rev s))\<rparr>"

definition ex_cfg :: stored_config where
  "ex_cfg = \<lparr>name = ''c1'', exchange = ''binance'', symbol = ''BTC/USDT'', order_type = ''market'',
     position_side = ''long'', quantity = Some 0.01, quantity_percentage = None, price = None,
     stop_loss = None, take_profit = None, description = None\<rparr>"

definition ex_pct_cfg :: stored_config where
  "ex_pct_cfg = ex_cfg\<lparr>quantity := None, quantity_percentage := Some 10\<rparr>"

definition ex_alert :: TradingViewAlertModel where
  "ex_alert = \<lparr>config_name = ''c1'', user_id = ''u1'', alert_price = None, volume = None,
     alert_time = None, alert_exchange = None, alert_symbol = None, alert_message = None,
     additional_parameters = None\<rparr>"

definition ex_env :: ccxt where
  "ex_env = \<lparr>ccxt_init = (\<lambda>_ _ _. None), ccxt_balance = (\<lambda>_. Inr [''USDT'' \<mapsto> Some 1000]),
     ccxt_ticker = (\<lambda>_ _. Inr (Some 50000)), ccxt_order = (\<lambda>_ _. Inr [(''id'', ''o1'')])\<rparr>"

definition ex_client :: client where
  "ex_client = \<lparr>cl_exchange = ''binance'', cl_api_key = ''k'', cl_secret = ''s''\<rparr>"

definition ex_redis_of :: "stored_config \<Rightarrow> redis" where
  "ex_redis_of cfg = \<lparr>r_data = [(config_key ''u1'' ''c1'', RConfig cfg),
                                (api_key_key ''u1'' ''binance'', RApiKeys (rev ''k'') (rev ''s''))],
                      r_up = True, r_oom = False\<rparr>"

definition ex_world_of :: "stored_config \<Rightarrow> world" where
  "ex_world_of cfg = \<lparr>w_redis = ex_redis_of cfg, w_cache = Map.empty, w_calls = []\<rparr>"

definition ex_world :: world where
  "ex_world = ex_world_of ex_cfg"

section \<open>Witnesses of the gateway theorems\<close>

theorem get_exchange_client_miss_witness:
  "get_exchange_client ex_cipher ex_env ''u1'' ''binance'' ex_world =
   (Inr ex_client, ex_world\<lparr>w_cache := [client_key ''u1'' ''binance'' \<mapsto> ex_client]\<rparr>)"
proof -
  have "w_cache ex_world (client_key ''u1'' ''binance'') = None"
    and "get_exchange_api_key ex_cipher ''u1'' ''binance'' (w_redis ex_world) =
           (Inr (Some (''k'', ''s'')), w_redis ex_world)"
    and "ccxt_init ex_env ''binance'' ''k'' ''s'' = None"
    by (simp_all add: ex_world_def ex_world_of_def ex_redis_of_def ex_cipher_def ex_env_def
        get_exchange_api_key_def decrypt_data_def config_key_def api_key_key_def)
  from get_exchange_client_miss [OF this] show ?thesis
    by (simp add: ex_client_def ex_world_def ex_world_of_def)
qed

theorem get_exchange_client_no_keys_witness:
  "get_exchange_client ex_cipher ex_env ''u2'' ''binance'' ex_world =
   (Inl (HTTPException 404 ''API keys not found for exchange binance''), ex_world)"
  using get_exchange_client_no_keys [of ex_world "''u2''" "''binance''" ex_cipher ex_env]
  by (simp add: ex_world_def ex_world_of_def ex_redis_of_def config_key_def api_key_key_def)

end
