(* ===== verification/Quantity.thy ===== *)
theory Quantity
  imports Scenario
begin

text \<open>
  The quantity resolver: lines 177--195 of \<^verbatim>\<open>process_tradingview_alert\<close>
  (\<^verbatim>\<open>main.py\<close>).  A truthy fixed quantity wins; otherwise a truthy percentage
  is applied to the free balance of the quote currency (the part of the symbol after
  the first \<^verbatim>\<open>/\<close>) at the alert's price, or at the ticker's last price when the
  alert carries no truthy price; a quantity that is not truthy in the end is the
  HTTP 400 error "Could not determine order quantity".
\<close>

definition quote_currency :: "string \<Rightarrow> exc + string" where
  "quote_currency sy = py_nth (split_on CHR ''/'' sy) 1"

definition determine_quantity ::
  "ccxt \<Rightarrow> client \<Rightarrow> stored_config \<Rightarrow> TradingViewAlertModel \<Rightarrow> (world, real) py" where
  "determine_quantity env cl cfg alert =
     pbind
       (if truthy (quantity cfg) then ret (quantity cfg)
        else if truthy (quantity_percentage cfg) then
          pbind (fetch_balance env cl) (\<lambda>bal.
          pbind (of_sum (quote_currency (symbol cfg))) (\<lambda>base.
          case bal base of
            None \<Rightarrow> raise (HTTPException 400 (''No balance found for '' @ base))
          | Some free \<Rightarrow>
              pbind (of_sum (py_float free)) (\<lambda>available.
              pbind (if truthy (alert_price alert) then ret (the (alert_price alert))
                     else pbind (fetch_ticker env cl (symbol cfg)) (\<lambda>tick. of_sum (py_float tick)))
                (\<lambda>current_price.
              pbind (of_sum (py_div (available * the (quantity_percentage cfg) / 100) current_price))
                (\<lambda>q. ret (Some q))))))
        else ret None)
       (\<lambda>q. if truthy q then ret (the q)
            else raise (HTTPException 400 ''Could not determine order quantity''))"

text \<open>The quote currency of a symbol base/quote with no further slash is quote.\<close>

lemma quote_currency_pair:
  "CHR ''/'' \<notin> set b \<Longrightarrow> CHR ''/'' \<notin> set q \<Longrightarrow> quote_currency (b @ CHR ''/'' # q) = Inr q"
  by (simp add: quote_currency_def split_on_append_sep py_nth_def)

lemma quote_currency_no_slash: "CHR ''/'' \<notin> set s \<Longrightarrow> quote_currency s = Inl IndexError"
  by (simp add: quote_currency_def py_nth_def)

text \<open>C6: A truthy fixed quantity is used as it is, without any exchange call; its sign is not checked.\<close>

theorem determine_quantity_fixed:
  "quantity cfg = Some q \<Longrightarrow> q \<noteq> 0 \<Longrightarrow> determine_quantity env cl cfg alert w = (Inr q, w)"
  by (simp add: determine_quantity_def)

text \<open>C7: With no truthy fixed quantity and a truthy percentage, the quantity is (free quote balance * percentage / 100) / price, computed after one balance call and, only when the alert carries no truthy price, one ticker call whose last price is used.\<close>

theorem determine_quantity_percentage:
  assumes "\<not> truthy (quantity cfg)" "quantity_percentage cfg = Some p" "p \<noteq> 0"
    and "quote_currency (symbol cfg) = Inr qc"
    and "ccxt_balance env cl = Inr bal" "bal qc = Some (Some avail)"
    and "\<not> truthy (alert_price alert) \<Longrightarrow> ccxt_ticker env cl (symbol cfg) = Inr (Some lp)"
    and "cp = (if truthy (alert_price alert) then the (alert_price alert) else lp)"
    and "cp \<noteq> 0" "avail * p / 100 / cp \<noteq> 0"
  shows "determine_quantity env cl cfg alert w =
     (Inr (avail * p / 100 / cp),
      w\<lparr>w_calls := w_calls w @ (cl, FetchBalance) #
          (if truthy (alert_price alert) then [] else [(cl, FetchTicker (symbol cfg))])\<rparr>)"
  using assms
  by (cases "truthy (alert_price alert)")
     (simp_all add: determine_quantity_def fetch_balance_def fetch_ticker_def log_call_def py_div_def)

lemma determine_quantity_frame:
  "determine_quantity env cl cfg alert w = (r, w') \<Longrightarrow>
   appends w {(cl, FetchBalance), (cl, FetchTicker (symbol cfg))} w'"
  unfolding determine_quantity_def fetch_balance_def fetch_ticker_def
  by (auto split: if_splits sum.splits option.splits prod.splits)

lemma determine_quantity_no_orders:
  "determine_quantity env cl cfg alert w = (x, w') \<Longrightarrow> orders_of (w_calls w') = orders_of (w_calls w)"
  by (auto dest!: determine_quantity_frame elim!: appends_no_orders)

theorem determine_quantity_fixed_witness:
  "determine_quantity ex_env ex_client ex_cfg ex_alert ex_world = (Inr 0.01, ex_world)"
  by (rule determine_quantity_fixed) (simp_all add: ex_cfg_def)

theorem determine_quantity_percentage_witness:
  "determine_quantity ex_env ex_client ex_pct_cfg ex_alert ex_world =
     (Inr 0.002, ex_world\<lparr>w_calls := [(ex_client, FetchBalance), (ex_client, FetchTicker ''BTC/USDT'')]\<rparr>)"
proof -
  have "determine_quantity ex_env ex_client ex_pct_cfg ex_alert ex_world =
     (Inr (1000 * 10 / 100 / 50000), ex_world\<lparr>w_calls := w_calls ex_world @ (ex_client, FetchBalance) #
        (if truthy (alert_price ex_alert) then [] else [(ex_client, FetchTicker (symbol ex_pct_cfg))])\<rparr>)"
    by (rule determine_quantity_percentage [where qc = "''USDT''" and bal = "[''USDT'' \<mapsto> Some 1000]"
          and lp = 50000])
       (simp_all add: ex_pct_cfg_def ex_cfg_def ex_env_def ex_alert_def quote_currency_def py_nth_def)
  then show ?thesis by (simp add: ex_pct_cfg_def ex_cfg_def ex_alert_def ex_world_def ex_world_of_def)
qed

text \<open>C18: On the percentage path, a quote currency absent from the balance raises HTTP 400 'No balance found for <currency>' after the single balance call.\<close>

theorem determine_quantity_no_balance:
  assumes "\<not> truthy (quantity cfg)" and "truthy (quantity_percentage cfg)"
    and "ccxt_balance env cl = Inr bal" and "quote_currency (symbol cfg) = Inr qc" and "bal qc = None"
  shows "determine_quantity env cl cfg alert w =
    (Inl (HTTPException 400 (''No balance found for '' @ qc)), log_call cl FetchBalance w)"
  using assms by (simp add: determine_quantity_def fetch_balance_def)

text \<open>C19: When neither the fixed quantity nor the percentage is truthy, the resolver raises HTTP 400 'Could not determine order quantity' without any exchange call.\<close>

theorem determine_quantity_undetermined:
  assumes "\<not> truthy (quantity cfg)" and "\<not> truthy (quantity_percentage cfg)"
  shows "determine_quantity env cl cfg alert w =
    (Inl (HTTPException 400 ''Could not determine order quantity''), w)"
  using assms by (simp add: determine_quantity_def)

theorem determine_quantity_no_balance_witness:
  "determine_quantity (ex_env\<lparr>ccxt_balance := (\<lambda>_. Inr [''BTC'' \<mapsto> Some 1])\<rparr>) ex_client ex_pct_cfg ex_alert
     ex_world = (Inl (HTTPException 400 ''No balance found for USDT''), log_call ex_client FetchBalance ex_world)"
proof -
  have "\<not> truthy (quantity ex_pct_cfg)" and "truthy (quantity_percentage ex_pct_cfg)"
    and "ccxt_balance (ex_env\<lparr>ccxt_balance := (\<lambda>_. Inr [''BTC'' \<mapsto> Some 1])\<rparr>) ex_client =
           Inr [''BTC'' \<mapsto> Some 1]"
    and "quote_currency (symbol ex_pct_cfg) = Inr ''USDT''" and "[''BTC'' \<mapsto> Some (1::real)] ''USDT'' = None"
    by (simp_all add: ex_pct_cfg_def ex_cfg_def quote_currency_def py_nth_def)
  from determine_quantity_no_balance [OF this] show ?thesis by simp
qed

theorem determine_quantity_undetermined_witness:
  "determine_quantity ex_env ex_client (ex_cfg\<lparr>quantity := Some 0\<rparr>) ex_alert ex_world =
     (Inl (HTTPException 400 ''Could not determine order quantity''), ex_world)"
  by (rule determine_quantity_undetermined) (simp_all add: ex_cfg_def)

end
