(* ===== verification/Dispatcher.thy ===== *)
theory Dispatcher
  imports Scenario
begin

text \<open>
  The order dispatcher: lines 197--235 of \<^verbatim>\<open>process_tradingview_alert\<close>
  (\<^verbatim>\<open>main.py\<close>), and the side derivation of line 173.  The configuration's
  \<^verbatim>\<open>order_type\<close> string selects the ccxt order: \<^verbatim>\<open>market\<close> without a price,
  \<^verbatim>\<open>limit\<close> with a price, \<^verbatim>\<open>stop_loss\<close> and \<^verbatim>\<open>take_profit\<close> as a
  \<^verbatim>\<open>stop\<close> order whose \<^verbatim>\<open>stopPrice\<close> parameter is the price.  The price is
  the alert's if truthy, else the configuration's; a price that is not truthy is an
  HTTP 400 error.  Any other order type places no order and yields
  \<^verbatim>\<open>order_result = None\<close>.
\<close>

definition side_of :: "string \<Rightarrow> string" where
  "side_of ps = (if ps = ''long'' then ''buy'' else ''sell'')"

text \<open>The request of a market order (lines 201--206).\<close>

definition market_req :: "string \<Rightarrow> string \<Rightarrow> real \<Rightarrow> order_req" where
  "market_req sy side q = \<lparr>or_symbol = sy, or_type = ''market'', or_side = side, or_amount = q,
     or_price = None, or_params = []\<rparr>"

text \<open>\<^verbatim>\<open>order_result = exchange.create_order(...)\<close>, shared by the three branches.\<close>

definition place_order :: "ccxt \<Rightarrow> client \<Rightarrow> order_req \<Rightarrow> (world, receipt option) py" where
  "place_order env cl req = pbind (create_order env cl req) (\<lambda>r. ret (Some r))"

definition execute_order ::
  "ccxt \<Rightarrow> client \<Rightarrow> string \<Rightarrow> string \<Rightarrow> string \<Rightarrow> real \<Rightarrow> real option \<Rightarrow> real option
   \<Rightarrow> (world, receipt option) py" where
  "execute_order env cl sy ot side q aprice cprice =
     (if ot = ''market'' then
        place_order env cl
          \<lparr>or_symbol = sy, or_type = ''market'', or_side = side, or_amount = q,
           or_price = None, or_params = []\<rparr>
      else if ot = ''limit'' then
        (let p = py_or aprice cprice in
         if \<not> truthy p then raise (HTTPException 400 ''Price required for limit orders'')
         else place_order env cl
                \<lparr>or_symbol = sy, or_type = ''limit'', or_side = side, or_amount = q,
                 or_price = p, or_params = []\<rparr>)
      else if ot = ''stop_loss'' \<or> ot = ''take_profit'' then
        (let p = py_or aprice cprice in
         if \<not> truthy p then raise (HTTPException 400 (''Price required for '' @ ot @ '' orders''))
         else place_order env cl
                \<lparr>or_symbol = sy, or_type = ''stop'', or_side = side, or_amount = q,
                 or_price = p, or_params = [(''stopPrice'', the p)]\<rparr>)
      else ret None)"

lemma place_order_apply:
  "place_order env cl req w =
     (map_sum ExchangeError Some (ccxt_order env cl req), log_call cl (CreateOrder req) w)"
  by (simp add: place_order_def create_order_def split: sum.split)

lemma map_sum_ExchangeError_Inl [dest]: "map_sum ExchangeError g y = Inl e \<Longrightarrow> \<not> is_http e"
  by (cases y) auto

text \<open>C8: A market order is placed as type 'market' with the symbol, side and quantity given, no price and no parameters, whatever prices the alert or the configuration carry.\<close>

theorem execute_order_market:
  "execute_order env cl sy ''market'' side q ap cp w =
     (map_sum ExchangeError Some (ccxt_order env cl (market_req sy side q)),
      log_call cl (CreateOrder (market_req sy side q)) w)"
  by (simp add: execute_order_def place_order_apply market_req_def)

text \<open>C9: A limit, stop_loss or take_profit order with neither a truthy alert price nor a truthy configured price raises HTTP 400 'Price required for <type> orders' and makes no exchange call.\<close>

theorem execute_order_missing_price:
  assumes "ot \<in> {''limit'', ''stop_loss'', ''take_profit''}" and "\<not> truthy (py_or ap cp)"
  shows "execute_order env cl sy ot side q ap cp w =
    (Inl (HTTPException 400 (''Price required for '' @ ot @ '' orders'')), w)"
  using assms by (auto simp: execute_order_def Let_def)

text \<open>A limit order with a truthy price is placed at the alert's price if truthy, else at the configured price.\<close>

lemma execute_order_limit:
  assumes "truthy (py_or ap cp)"
  shows "execute_order env cl sy ''limit'' side q ap cp w =
    (map_sum ExchangeError Some (ccxt_order env cl \<lparr>or_symbol = sy, or_type = ''limit'', or_side = side,
        or_amount = q, or_price = py_or ap cp, or_params = []\<rparr>),
     log_call cl (CreateOrder \<lparr>or_symbol = sy, or_type = ''limit'', or_side = side,
        or_amount = q, or_price = py_or ap cp, or_params = []\<rparr>) w)"
  using assms by (simp add: execute_order_def place_order_apply Let_def)

text \<open>C17: A stop_loss or take_profit order with a truthy price p is placed as type 'stop' at price p with the parameter stopPrice = p.\<close>

theorem execute_order_stop:
  assumes "ot = ''stop_loss'' \<or> ot = ''take_profit''" and "py_or ap cp = Some p" and "p \<noteq> 0"
  shows "execute_order env cl sy ot side q ap cp w =
    (map_sum ExchangeError Some (ccxt_order env cl \<lparr>or_symbol = sy, or_type = ''stop'', or_side = side,
        or_amount = q, or_price = Some p, or_params = [(''stopPrice'', p)]\<rparr>),
     log_call cl (CreateOrder \<lparr>or_symbol = sy, or_type = ''stop'', or_side = side,
        or_amount = q, or_price = Some p, or_params = [(''stopPrice'', p)]\<rparr>) w)"
  using assms by (auto simp: execute_order_def place_order_apply Let_def)

theorem execute_order_unsupported:
  assumes "ot \<notin> {''market'', ''limit'', ''stop_loss'', ''take_profit''}"
  shows "execute_order env cl sy ot side q ap cp w = (Inr None, w)"
  using assms by (simp add: execute_order_def)

text \<open>
  The effect of a dispatch: either no call and, on an error, an HTTP error; or exactly
  one \<^verbatim>\<open>create_order\<close> call for the symbol, side and amount given and, on an error,
  the exchange's error.
\<close>

lemma execute_order_effect:
  assumes "execute_order env cl sy ot side q ap cp w = (x, w')"
  shows "(w' = w \<and> (\<forall>e. x = Inl e \<longrightarrow> is_http e)) \<or>
         (\<exists>req. w' = log_call cl (CreateOrder req) w \<and> or_symbol req = sy \<and>
           or_side req = side \<and> or_amount req = q \<and> (\<forall>e. x = Inl e \<longrightarrow> \<not> is_http e))"
proof -
  have placed: "?thesis" if "x = map_sum ExchangeError Some (ccxt_order env cl req)"
    and "w' = log_call cl (CreateOrder req) w" and "or_symbol req = sy" and "or_side req = side"
    and "or_amount req = q" for req
    using that by (intro disjI2 exI [of _ req]) auto
  consider "ot = ''market''" | "ot = ''limit''" | "ot = ''stop_loss'' \<or> ot = ''take_profit''"
    | "ot \<notin> {''market'', ''limit'', ''stop_loss'', ''take_profit''}"
    by blast
  then show ?thesis
  proof cases
    case 1
    with assms show ?thesis
      by (intro placed [of "market_req sy side q"]) (simp_all add: execute_order_def place_order_apply market_req_def)
  next
    case 2
    show ?thesis
    proof (cases "truthy (py_or ap cp)")
      case True
      with 2 assms show ?thesis
        by (intro placed [of "\<lparr>or_symbol = sy, or_type = ''limit'', or_side = side, or_amount = q,
                                or_price = py_or ap cp, or_params = []\<rparr>"])
           (simp_all add: execute_order_def place_order_apply)
    next
      case False
      with 2 assms show ?thesis by (auto simp: execute_order_def)
    qed
  next
    case 3
    then have br: "execute_order env cl sy ot side q ap cp =
      (if \<not> truthy (py_or ap cp)
       then raise (HTTPException 400 (''Price required for '' @ ot @ '' orders''))
       else place_order env cl
              \<lparr>or_symbol = sy, or_type = ''stop'', or_side = side, or_amount = q,
               or_price = py_or ap cp, or_params = [(''stopPrice'', the (py_or ap cp))]\<rparr>)"
      unfolding execute_order_def Let_def by auto
    show ?thesis
    proof (cases "truthy (py_or ap cp)")
      case True
      with assms show ?thesis
        by (intro placed [of "\<lparr>or_symbol = sy, or_type = ''stop'', or_side = side, or_amount = q,
                                or_price = py_or ap cp, or_params = [(''stopPrice'', the (py_or ap cp))]\<rparr>"])
           (simp_all add: br place_order_apply)
    next
      case False
      with assms show ?thesis by (auto simp: br)
    qed
  next
    case 4
    with assms show ?thesis by (auto simp: execute_order_def)
  qed
qed

lemma execute_order_frame:
  "execute_order env cl sy ot side q ap cp w = (x, w') \<Longrightarrow>
   w_redis w' = w_redis w \<and> w_cache w' = w_cache w"
  by (drule execute_order_effect) auto

lemma execute_order_http:
  "execute_order env cl sy ot side q ap cp w = (Inl e, w') \<Longrightarrow> is_http e \<Longrightarrow> w' = w"
  by (drule execute_order_effect) auto

theorem execute_order_missing_price_witness:
  "execute_order ex_env ex_client ''BTC/USDT'' ''limit'' ''buy'' 0.01 None (Some 0) ex_world =
     (Inl (HTTPException 400 ''Price required for limit orders''), ex_world)"
  using execute_order_missing_price [of "''limit''" None "Some 0" ex_env ex_client "''BTC/USDT''"
      "''buy''" "0.01" ex_world]
  by simp

theorem execute_order_stop_witness:
  "execute_order ex_env ex_client ''BTC/USDT'' ''take_profit'' ''sell'' 0.01 None (Some 60000) ex_world =
     (Inr (Some [(''id'', ''o1'')]),
      log_call ex_client (CreateOrder \<lparr>or_symbol = ''BTC/USDT'', or_type = ''stop'', or_side = ''sell'',
        or_amount = 0.01, or_price = Some 60000, or_params = [(''stopPrice'', 60000)]\<rparr>) ex_world)"
  using execute_order_stop [of "''take_profit''" None "Some 60000" 60000 ex_env ex_client "''BTC/USDT''" "''sell''" "0.01" ex_world]
  by (simp add: ex_env_def)

theorem execute_order_unsupported_witness:
  "execute_order ex_env ex_client ''BTC/USDT'' ''trailing_stop'' ''buy'' 0.01 None None ex_world =
     (Inr None, ex_world)"
  by (rule execute_order_unsupported) simp

end
