(* ===== verification/Pipeline.thy ===== *)
theory Pipeline
  imports Quantity Dispatcher
begin

text \<open>
  The alert pipeline: \<^verbatim>\<open>process_tradingview_alert\<close> (\<^verbatim>\<open>main.py\<close>, lines
  158--279).  \<open>alert_body\<close> is the body of the \<^verbatim>\<open>try\<close> block: load the
  configuration, get the exchange client, resolve the quantity, dispatch the order,
  write the success record to the history.  \<open>process_tradingview_alert\<close> adds the
  two handlers: an \<open>HTTPException\<close> is re-raised as it is (no history record);
  any other exception becomes a failure result that is written to the history and
  returned.  The clock reading \<^verbatim>\<open>datetime.now()\<close> is the parameter \<open>now\<close>.
\<close>

section \<open>Definitions\<close>

text \<open>\<^verbatim>\<open>config["exchange"]\<close> on the dictionary loaded from Redis.\<close>

definition as_config :: "rval \<Rightarrow> exc + stored_config" where
  "as_config v = (case v of RConfig cfg \<Rightarrow> Inr cfg | _ \<Rightarrow> Inl (KeyError ''exchange''))"

text \<open>\<^verbatim>\<open>order_result["id"] if order_result and "id" in order_result else None\<close>.\<close>

definition receipt_id :: "receipt option \<Rightarrow> string option" where
  "receipt_id r = (case r of None \<Rightarrow> None | Some d \<Rightarrow> if d = [] then None else map_of d ''id'')"

definition success_result :: "receipt option \<Rightarrow> string \<Rightarrow> OrderResultModel" where
  "success_result r now =
     \<lparr>success = True, order_id = receipt_id r, result_message = Some ''Order executed successfully'',
      details = r, timestamp = now\<rparr>"

definition success_entry ::
  "TradingViewAlertModel \<Rightarrow> stored_config \<Rightarrow> real \<Rightarrow> receipt option \<Rightarrow> string \<Rightarrow> history_entry" where
  "success_entry alert cfg q r now =
     HistSuccess (config_name alert) (symbol cfg) (side_of (position_side cfg)) q (alert_price alert) now
       (order_id (success_result r now)) (details (success_result r now))"

definition failure_result :: "exc \<Rightarrow> string \<Rightarrow> OrderResultModel" where
  "failure_result e now =
     \<lparr>success = False, order_id = None,
      result_message = Some (''Error executing order: '' @ exc_str e),
      details = None, timestamp = now\<rparr>"

definition failure_entry :: "TradingViewAlertModel \<Rightarrow> exc \<Rightarrow> string \<Rightarrow> history_entry" where
  "failure_entry alert e now =
     HistFailure (config_name alert) now (the (result_message (failure_result e now)))"

definition config_not_found :: "string \<Rightarrow> exc" where
  "config_not_found n = HTTPException 404 (''Configuration '' @ CHR 0x27 # n @ CHR 0x27 # '' not found'')"

definition alert_body ::
  "cipher \<Rightarrow> ccxt \<Rightarrow> TradingViewAlertModel \<Rightarrow> string \<Rightarrow> (world, OrderResultModel) py" where
  "alert_body c env alert now =
     pbind (on_redis (get_alert_config (user_id alert) (config_name alert))) (\<lambda>config.
     case config of
       None \<Rightarrow> raise (config_not_found (config_name alert))
     | Some v \<Rightarrow>
     pbind (of_sum (as_config v)) (\<lambda>cfg.
     pbind (get_exchange_client c env (user_id alert) (exchange cfg)) (\<lambda>cl.
     pbind (determine_quantity env cl cfg alert) (\<lambda>q.
     pbind (execute_order env cl (symbol cfg) (order_type cfg) (side_of (position_side cfg)) q
              (alert_price alert) (price cfg)) (\<lambda>order_result.
     pbind (on_redis (save_alert_history (user_id alert) (success_entry alert cfg q order_result now)))
       (\<lambda>_. ret (success_result order_result now)))))))"

definition process_tradingview_alert ::
  "cipher \<Rightarrow> ccxt \<Rightarrow> TradingViewAlertModel \<Rightarrow> string \<Rightarrow> (world, OrderResultModel) py" where
  "process_tradingview_alert c env alert now w =
     (case alert_body c env alert now w of
        (Inr r, w') \<Rightarrow> (Inr r, w')
      | (Inl e, w') \<Rightarrow>
          if is_http e then (Inl e, w')
          else pbind (on_redis (save_alert_history (user_id alert) (failure_entry alert e now)))
                 (\<lambda>_. ret (failure_result e now)) w')"

text \<open>The effect of a history write that succeeds.\<close>

definition record_history :: "string \<Rightarrow> history_entry \<Rightarrow> world \<Rightarrow> world" where
  "record_history u h w =
     w\<lparr>w_redis := (w_redis w)\<lparr>r_data := AList.update (history_key u (h_timestamp h)) (RHistory h)
                                       (r_data (w_redis w))\<rparr>\<rparr>"

section \<open>Lemmas\<close>

lemma get_alert_config_state: "get_alert_config u n r = (x, r') \<Longrightarrow> r' = r"
  by (auto simp: get_alert_config_def redis_get_def split: if_splits)

lemma save_alert_history_Inl:
  "save_alert_history u h r = (Inl e, r') \<Longrightarrow> r' = r \<and> \<not> is_http e"
  by (auto simp: save_alert_history_def redis_set_def split: if_splits)

lemma save_alert_history_ok:
  "r_up r \<Longrightarrow> \<not> r_oom r \<Longrightarrow>
   save_alert_history u h r =
     (Inr True, r\<lparr>r_data := AList.update (history_key u (h_timestamp h)) (RHistory h) (r_data r)\<rparr>)"
  by (simp add: save_alert_history_def)

lemma save_alert_history_oom:
  "r_up r \<Longrightarrow> r_oom r \<Longrightarrow> save_alert_history u h r = (Inl (ResponseError oom_message), r)"
  by (simp add: save_alert_history_def redis_set_def)

lemma alert_body_Inl_redis:
  "alert_body c env alert now w = (Inl e, w') \<Longrightarrow> w_redis w' = w_redis w"
  unfolding alert_body_def
  by (auto simp: Let_def split: prod.splits sum.splits option.splits
       dest!: get_alert_config_state get_exchange_client_frame determine_quantity_frame
         execute_order_frame save_alert_history_Inl)

lemma alert_body_steps:
  assumes "r_up (w_redis w)"
    and "map_of (r_data (w_redis w)) (config_key (user_id alert) (config_name alert)) = Some (RConfig cfg)"
    and "get_exchange_client c env (user_id alert) (exchange cfg) w = (Inr cl, wc)"
    and "determine_quantity env cl cfg alert wc = (Inr q, wq)"
    and "execute_order env cl (symbol cfg) (order_type cfg) (side_of (position_side cfg)) q
           (alert_price alert) (price cfg) wq = (Inr r, wo)"
  shows "alert_body c env alert now w =
     pbind (on_redis (save_alert_history (user_id alert) (success_entry alert cfg q r now)))
       (\<lambda>_. ret (success_result r now)) wo"
    and "w_redis wo = w_redis w"
proof -
  from assms(3) have "w_redis wc = w_redis w" by (auto dest: get_exchange_client_frame)
  moreover from assms(4) have "w_redis wq = w_redis wc" by (auto dest: determine_quantity_frame)
  moreover from assms(5) have "w_redis wo = w_redis wq" by (auto dest: execute_order_frame)
  ultimately show "w_redis wo = w_redis w" by simp
  from assms show "alert_body c env alert now w =
     pbind (on_redis (save_alert_history (user_id alert) (success_entry alert cfg q r now)))
       (\<lambda>_. ret (success_result r now)) wo"
    by (simp add: alert_body_def get_alert_config_def as_config_def)
qed

text \<open>C1: When the configuration exists, the exchange client is obtained, the quantity resolves and the order is dispatched, the webhook returns the success result whose order id is the receipt's id, and the only further effect is the success record written under alert:<user>:<timestamp>.\<close>

theorem process_alert_success:
  assumes "r_up (w_redis w)" and "\<not> r_oom (w_redis w)"
    and "map_of (r_data (w_redis w)) (config_key (user_id alert) (config_name alert)) = Some (RConfig cfg)"
    and "get_exchange_client c env (user_id alert) (exchange cfg) w = (Inr cl, wc)"
    and "determine_quantity env cl cfg alert wc = (Inr q, wq)"
    and "execute_order env cl (symbol cfg) (order_type cfg) (side_of (position_side cfg)) q
           (alert_price alert) (price cfg) wq = (Inr r, wo)"
  shows "process_tradingview_alert c env alert now w =
     (Inr (success_result r now), record_history (user_id alert) (success_entry alert cfg q r now) wo)"
proof -
  from assms(1,3-6) have body: "alert_body c env alert now w =
     pbind (on_redis (save_alert_history (user_id alert) (success_entry alert cfg q r now)))
       (\<lambda>_. ret (success_result r now)) wo" and "w_redis wo = w_redis w"
    by (rule alert_body_steps)+
  with assms(1,2) show ?thesis
    by (simp add: process_tradingview_alert_def save_alert_history_ok record_history_def)
qed

theorem process_alert_success_witness:
  "fst (process_tradingview_alert ex_cipher ex_env ex_alert ''t1'' ex_world) =
     Inr \<lparr>success = True, order_id = Some ''o1'', result_message = Some ''Order executed successfully'',
          details = Some [(''id'', ''o1'')], timestamp = ''t1''\<rparr>"
proof -
  let ?wc = "ex_world\<lparr>w_cache := [client_key ''u1'' ''binance'' \<mapsto> ex_client]\<rparr>"
  let ?wo = "log_call ex_client (CreateOrder (market_req ''BTC/USDT'' ''buy'' 0.01)) ?wc"
  have up: "r_up (w_redis ex_world)" and oom: "\<not> r_oom (w_redis ex_world)"
    by (simp_all add: ex_world_def ex_world_of_def ex_redis_of_def)
  have cfg: "map_of (r_data (w_redis ex_world)) (config_key (user_id ex_alert) (config_name ex_alert)) =
      Some (RConfig ex_cfg)"
    by (simp add: ex_world_def ex_world_of_def ex_redis_of_def ex_alert_def config_key_def api_key_key_def)
  have cl: "get_exchange_client ex_cipher ex_env (user_id ex_alert) (exchange ex_cfg) ex_world =
      (Inr ex_client, ?wc)"
    by (simp add: get_exchange_client_def Let_def get_exchange_api_key_def decrypt_data_def ex_world_def
        ex_world_of_def ex_redis_of_def ex_alert_def ex_cfg_def ex_cipher_def ex_env_def ex_client_def config_key_def
        api_key_key_def client_key_def)
  have q: "determine_quantity ex_env ex_client ex_cfg ex_alert ?wc = (Inr 0.01, ?wc)"
    by (simp add: determine_quantity_def ex_cfg_def)
  have o: "execute_order ex_env ex_client (symbol ex_cfg) (order_type ex_cfg)
      (side_of (position_side ex_cfg)) 0.01 (alert_price ex_alert) (price ex_cfg) ?wc =
      (Inr (Some [(''id'', ''o1'')]), ?wo)"
    by (simp add: execute_order_def place_order_apply market_req_def ex_cfg_def ex_env_def side_of_def)
  from process_alert_success [OF up oom cfg cl q o] show ?thesis
    by (simp add: success_result_def receipt_id_def)
qed


lemma alert_body_http:
  "alert_body c env alert now w = (Inl e, w') \<Longrightarrow> is_http e \<Longrightarrow>
   orders_of (w_calls w') = orders_of (w_calls w)"
  unfolding alert_body_def
  by (auto simp: Let_def as_config_def split: prod.splits sum.splits option.splits rval.splits
       dest!: get_alert_config_state get_exchange_client_frame execute_order_http
         save_alert_history_Inl determine_quantity_no_orders)

text \<open>C2: An alert naming a configuration that is not stored makes the webhook raise HTTP 404 and leaves the whole state unchanged: no failure record is written, although the specification asks for one.\<close>

theorem process_alert_config_not_found:
  assumes "r_up (w_redis w)"
    and "map_of (r_data (w_redis w)) (config_key (user_id alert) (config_name alert)) = None"
  shows "process_tradingview_alert c env alert now w = (Inl (config_not_found (config_name alert)), w)"
  using assms
  by (simp add: process_tradingview_alert_def alert_body_def get_alert_config_def config_not_found_def)

text \<open>C3: Whenever the webhook ends in an HTTPException, Redis is unchanged (no history record of any kind is written) and no order was placed.\<close>

theorem process_alert_http_error:
  assumes "process_tradingview_alert c env alert now w = (Inl e, w')" and "is_http e"
  shows "w_redis w' = w_redis w \<and> orders_of (w_calls w') = orders_of (w_calls w)"
proof -
  obtain x wb where body: "alert_body c env alert now w = (x, wb)" by fastforce
  with assms have "x = Inl e" and "wb = w'"
    by (auto simp: process_tradingview_alert_def save_alert_history_def redis_set_def
        split: sum.splits if_splits)
  with body assms(2) show ?thesis
    by (auto dest: alert_body_Inl_redis alert_body_http)
qed


text \<open>C4: Any exception other than an HTTPException raised in the body of the handler (an exchange rejection, a decryption failure, a division by zero, a missing key) becomes the failure result 'Error executing order: ...', which is written to the history and returned.\<close>

theorem process_alert_generic_error:
  assumes "alert_body c env alert now w = (Inl e, w')" and "\<not> is_http e"
    and "r_up (w_redis w)" and "\<not> r_oom (w_redis w)"
  shows "process_tradingview_alert c env alert now w =
    (Inr (failure_result e now), record_history (user_id alert) (failure_entry alert e now) w')"
proof -
  from assms(1) have "w_redis w' = w_redis w" by (rule alert_body_Inl_redis)
  with assms show ?thesis
    by (simp add: process_tradingview_alert_def save_alert_history_ok record_history_def)
qed

text \<open>C14: If Redis refuses writes after the order was placed, the order stays placed, no history record is written, and the webhook raises the Redis error because the failure path's own history write fails as well.\<close>

theorem process_alert_oom:
  assumes "r_up (w_redis w)" and "r_oom (w_redis w)"
    and "map_of (r_data (w_redis w)) (config_key (user_id alert) (config_name alert)) = Some (RConfig cfg)"
    and "get_exchange_client c env (user_id alert) (exchange cfg) w = (Inr cl, wc)"
    and "determine_quantity env cl cfg alert wc = (Inr q, wq)"
    and "execute_order env cl (symbol cfg) (order_type cfg) (side_of (position_side cfg)) q
           (alert_price alert) (price cfg) wq = (Inr r, wo)"
  shows "process_tradingview_alert c env alert now w = (Inl (ResponseError oom_message), wo)"
proof -
  from assms(1,3-6) have body: "alert_body c env alert now w =
     pbind (on_redis (save_alert_history (user_id alert) (success_entry alert cfg q r now)))
       (\<lambda>_. ret (success_result r now)) wo" and "w_redis wo = w_redis w"
    by (rule alert_body_steps)+
  with assms(1,2) show ?thesis
    by (simp add: process_tradingview_alert_def save_alert_history_oom)
qed

text \<open>C13: A stored configuration whose order type is none of market, limit, stop_loss, take_profit places no order but is recorded and returned as a success without order id, where the specification asks for an UnsupportedOrderType failure.\<close>

theorem process_alert_unsupported_type:
  assumes "r_up (w_redis w)" and "\<not> r_oom (w_redis w)"
    and "map_of (r_data (w_redis w)) (config_key (user_id alert) (config_name alert)) = Some (RConfig cfg)"
    and "get_exchange_client c env (user_id alert) (exchange cfg) w = (Inr cl, wc)"
    and "determine_quantity env cl cfg alert wc = (Inr q, wq)"
    and "order_type cfg \<notin> {''market'', ''limit'', ''stop_loss'', ''take_profit''}"
  shows "process_tradingview_alert c env alert now w =
     (Inr (success_result None now), record_history (user_id alert) (success_entry alert cfg q None now) wq)
   \<and> orders_of (w_calls wq) = orders_of (w_calls w)"
proof -
  have o: "execute_order env cl (symbol cfg) (order_type cfg) (side_of (position_side cfg)) q
           (alert_price alert) (price cfg) wq = (Inr None, wq)"
    using assms(6) by (rule execute_order_unsupported)
  from assms(1,3-5) o have body: "alert_body c env alert now w =
     pbind (on_redis (save_alert_history (user_id alert) (success_entry alert cfg q None now)))
       (\<lambda>_. ret (success_result None now)) wq" and "w_redis wq = w_redis w"
    by (rule alert_body_steps)+
  moreover from assms(4) have "w_calls wc = w_calls w" by (auto dest: get_exchange_client_frame)
  moreover from assms(5) have "orders_of (w_calls wq) = orders_of (w_calls wc)"
    by (rule determine_quantity_no_orders)
  ultimately show ?thesis using assms(1,2)
    by (simp add: process_tradingview_alert_def save_alert_history_ok record_history_def)
qed


lemma process_alert_market_fixed:
  assumes "r_up (w_redis w)" and "\<not> r_oom (w_redis w)"
    and "map_of (r_data (w_redis w)) (config_key (user_id alert) (config_name alert)) = Some (RConfig cfg)"
    and "w_cache w (client_key (user_id alert) (exchange cfg)) = Some cl"
    and "order_type cfg = ''market''" and "quantity cfg = Some q" and "q \<noteq> 0"
    and "ccxt_order env cl (market_req (symbol cfg) (side_of (position_side cfg)) q) = Inr r"
  shows "process_tradingview_alert c env alert now w =
    (Inr (success_result (Some r) now),
     record_history (user_id alert) (success_entry alert cfg q (Some r) now)
       (log_call cl (CreateOrder (market_req (symbol cfg) (side_of (position_side cfg)) q)) w))"
proof -
  have cl: "get_exchange_client c env (user_id alert) (exchange cfg) w = (Inr cl, w)"
    using assms(4) by (simp add: get_exchange_client_def)
  have q: "determine_quantity env cl cfg alert w = (Inr q, w)"
    using assms(6,7) by (simp add: determine_quantity_def)
  have o: "execute_order env cl (symbol cfg) (order_type cfg) (side_of (position_side cfg)) q
       (alert_price alert) (price cfg) w =
     (Inr (Some r), log_call cl (CreateOrder (market_req (symbol cfg) (side_of (position_side cfg)) q)) w)"
    using assms(5,8) by (simp add: execute_order_def place_order_apply market_req_def)
  from assms(1,3) cl q o have body: "alert_body c env alert now w =
     pbind (on_redis (save_alert_history (user_id alert) (success_entry alert cfg q (Some r) now)))
       (\<lambda>_. ret (success_result (Some r) now))
       (log_call cl (CreateOrder (market_req (symbol cfg) (side_of (position_side cfg)) q)) w)"
    by (rule alert_body_steps)
  with assms(1,2) show ?thesis
    by (simp add: process_tradingview_alert_def save_alert_history_ok record_history_def)
qed

lemma record_history_sel [simp]:
  "w_cache (record_history u h w) = w_cache w"
  "w_calls (record_history u h w) = w_calls w"
  "r_up (w_redis (record_history u h w)) = r_up (w_redis w)"
  "r_oom (w_redis (record_history u h w)) = r_oom (w_redis w)"
  by (simp_all add: record_history_def)

lemma config_key_not_history_key [simp]: "config_key u n \<noteq> history_key v ts"
  by (simp add: config_key_def history_key_def)

lemma map_of_record_history_config [simp]:
  "map_of (r_data (w_redis (record_history u h w))) (config_key v n) =
   map_of (r_data (w_redis w)) (config_key v n)"
  by (simp add: record_history_def update_conv')

text \<open>C12: Two identical alerts processed one after the other both succeed, place two identical orders and, with distinct timestamps, leave two history records: the pipeline performs no deduplication.\<close>

theorem process_alert_no_dedup:
  assumes "r_up (w_redis w)" and "\<not> r_oom (w_redis w)"
    and "map_of (r_data (w_redis w)) (config_key (user_id alert) (config_name alert)) = Some (RConfig cfg)"
    and "w_cache w (client_key (user_id alert) (exchange cfg)) = Some cl"
    and "order_type cfg = ''market''" and "quantity cfg = Some q" and "q \<noteq> 0"
    and "ccxt_order env cl (market_req (symbol cfg) (side_of (position_side cfg)) q) = Inr r"
    and "t1 \<noteq> t2"
  shows "fst (process_tradingview_alert c env alert t1 w) = Inr (success_result (Some r) t1) \<and>
    fst (process_tradingview_alert c env alert t2 (snd (process_tradingview_alert c env alert t1 w))) =
      Inr (success_result (Some r) t2) \<and>
    orders_of (w_calls (snd (process_tradingview_alert c env alert t2
                                (snd (process_tradingview_alert c env alert t1 w))))) =
      orders_of (w_calls w) @ [market_req (symbol cfg) (side_of (position_side cfg)) q,
                               market_req (symbol cfg) (side_of (position_side cfg)) q] \<and>
    (let w2 = snd (process_tradingview_alert c env alert t2 (snd (process_tradingview_alert c env alert t1 w)))
     in map_of (r_data (w_redis w2)) (history_key (user_id alert) t1) =
          Some (RHistory (success_entry alert cfg q (Some r) t1)) \<and>
        map_of (r_data (w_redis w2)) (history_key (user_id alert) t2) =
          Some (RHistory (success_entry alert cfg q (Some r) t2)))"
proof -
  let ?req = "market_req (symbol cfg) (side_of (position_side cfg)) q"
  let ?w1 = "record_history (user_id alert) (success_entry alert cfg q (Some r) t1) (log_call cl (CreateOrder ?req) w)"
  have first: "process_tradingview_alert c env alert t1 w = (Inr (success_result (Some r) t1), ?w1)"
    using assms(1-8) by (rule process_alert_market_fixed)
  have "process_tradingview_alert c env alert t2 ?w1 =
     (Inr (success_result (Some r) t2),
      record_history (user_id alert) (success_entry alert cfg q (Some r) t2) (log_call cl (CreateOrder ?req) ?w1))"
    by (rule process_alert_market_fixed) (use assms in \<open>simp_all add: log_call_def\<close>)
  moreover have "history_key (user_id alert) t1 \<noteq> history_key (user_id alert) t2"
    using assms(9) by (simp add: history_key_def)
  ultimately show ?thesis using first
    by (simp add: record_history_def update_conv' success_entry_def log_call_def)
qed

text \<open>C15: A negative fixed quantity is not rejected: the webhook sends a market order with a negative amount to the exchange.\<close>

theorem process_alert_negative_quantity:
  assumes "r_up (w_redis w)" and "\<not> r_oom (w_redis w)"
    and "map_of (r_data (w_redis w)) (config_key (user_id alert) (config_name alert)) = Some (RConfig cfg)"
    and "w_cache w (client_key (user_id alert) (exchange cfg)) = Some cl"
    and "order_type cfg = ''market''" and "quantity cfg = Some q" and "q < 0"
    and "ccxt_order env cl (market_req (symbol cfg) (side_of (position_side cfg)) q) = Inr r"
  shows "orders_of (w_calls (snd (process_tradingview_alert c env alert now w))) =
      orders_of (w_calls w) @ [market_req (symbol cfg) (side_of (position_side cfg)) q]
    \<and> or_amount (market_req (symbol cfg) (side_of (position_side cfg)) q) < 0"
proof -
  from assms(7) have "q \<noteq> 0" by simp
  with assms(1-6,8) have "process_tradingview_alert c env alert now w =
    (Inr (success_result (Some r) now),
     record_history (user_id alert) (success_entry alert cfg q (Some r) now)
       (log_call cl (CreateOrder (market_req (symbol cfg) (side_of (position_side cfg)) q)) w))"
    by (intro process_alert_market_fixed)
  with assms(7) show ?thesis by (simp add: market_req_def)
qed

lemma alert_body_calls:
  assumes "alert_body c env alert now w = (x, w')"
  shows "prefix (w_calls w) (w_calls w') \<and>
         length (orders_of (w_calls w')) \<le> length (orders_of (w_calls w)) + 1 \<and>
         w_cache w \<subseteq>\<^sub>m w_cache w'"
  using assms unfolding alert_body_def
  by (auto simp: Let_def as_config_def split: prod.splits sum.splits option.splits rval.splits
       dest!: get_alert_config_state get_exchange_client_frame save_alert_history_Inl
         determine_quantity_frame execute_order_effect
       intro: map_le_trans dest: appends_prefix appends_no_orders)

lemma process_alert_body:
  assumes "process_tradingview_alert c env alert now w = (x, w')"
  obtains y wb where "alert_body c env alert now w = (y, wb)"
    and "w_calls w' = w_calls wb" and "w_cache w' = w_cache wb"
proof -
  obtain y wb where body: "alert_body c env alert now w = (y, wb)" by fastforce
  with assms have "w_calls w' = w_calls wb \<and> w_cache w' = w_cache wb"
    by (auto simp: process_tradingview_alert_def split: sum.splits if_splits prod.splits)
  with body show ?thesis using that by blast
qed

text \<open>C5: Processing one alert only appends to the log of exchange calls and places at most one order.\<close>

theorem process_alert_at_most_one_order:
  assumes "process_tradingview_alert c env alert now w = (x, w')"
  shows "prefix (w_calls w) (w_calls w') \<and>
         length (orders_of (w_calls w')) \<le> length (orders_of (w_calls w)) + 1"
  using assms by (elim process_alert_body) (auto dest: alert_body_calls)

section \<open>Witnesses on the scenario\<close>

lemmas ex_unfold = ex_world_def ex_world_of_def ex_redis_of_def ex_alert_def ex_cfg_def ex_cipher_def
  ex_env_def ex_client_def config_key_def api_key_key_def client_key_def get_exchange_client_def
  get_exchange_api_key_def decrypt_data_def determine_quantity_def execute_order_def place_order_apply
  market_req_def side_of_def log_call_def alert_body_def get_alert_config_def as_config_def Let_def

theorem process_alert_config_not_found_witness:
  "process_tradingview_alert ex_cipher ex_env (ex_alert\<lparr>config_name := ''c2''\<rparr>) ''t1'' ex_world =
     (Inl (config_not_found ''c2''), ex_world)"
  using process_alert_config_not_found [of ex_world "ex_alert\<lparr>config_name := ''c2''\<rparr>"]
  by (simp add: ex_world_def ex_world_of_def ex_redis_of_def ex_alert_def config_key_def api_key_key_def)

theorem process_alert_http_error_witness:
  "fst (process_tradingview_alert ex_cipher ex_env ex_alert ''t1'' (ex_world_of (ex_cfg\<lparr>order_type := ''limit''\<rparr>))) =
     Inl (HTTPException 400 ''Price required for limit orders'') \<and>
   w_redis (snd (process_tradingview_alert ex_cipher ex_env ex_alert ''t1'' (ex_world_of (ex_cfg\<lparr>order_type := ''limit''\<rparr>)))) =
     w_redis (ex_world_of (ex_cfg\<lparr>order_type := ''limit''\<rparr>)) \<and>
   orders_of (w_calls (snd (process_tradingview_alert ex_cipher ex_env ex_alert ''t1'' (ex_world_of (ex_cfg\<lparr>order_type := ''limit''\<rparr>))))) = []"
proof -
  let ?w = "ex_world_of (ex_cfg\<lparr>order_type := ''limit''\<rparr>)"
  let ?w' = "?w\<lparr>w_cache := [client_key ''u1'' ''binance'' \<mapsto> ex_client]\<rparr>"
  have run: "process_tradingview_alert ex_cipher ex_env ex_alert ''t1'' ?w =
      (Inl (HTTPException 400 ''Price required for limit orders''), ?w')"
    by (simp add: process_tradingview_alert_def ex_unfold)
  from process_alert_http_error [OF run] run show ?thesis
    by (simp add: ex_world_of_def)
qed

theorem process_alert_generic_error_witness:
  "fst (process_tradingview_alert ex_cipher (ex_env\<lparr>ccxt_order := (\<lambda>_ _. Inl ''insufficient balance'')\<rparr>)
          ex_alert ''t1'' ex_world) =
     Inr (failure_result (ExchangeError ''insufficient balance'') ''t1'')"
proof -
  let ?env = "ex_env\<lparr>ccxt_order := (\<lambda>_ _. Inl ''insufficient balance'')\<rparr>"
  let ?wb = "log_call ex_client (CreateOrder (market_req ''BTC/USDT'' ''buy'' 0.01))
               (ex_world\<lparr>w_cache := [client_key ''u1'' ''binance'' \<mapsto> ex_client]\<rparr>)"
  have body: "alert_body ex_cipher ?env ex_alert ''t1'' ex_world = (Inl (ExchangeError ''insufficient balance''), ?wb)"
    by (simp add: ex_unfold)
  have "\<not> is_http (ExchangeError ''insufficient balance'')" by simp
  moreover have "r_up (w_redis ex_world)" and "\<not> r_oom (w_redis ex_world)"
    by (simp_all add: ex_world_def ex_world_of_def ex_redis_of_def)
  ultimately show ?thesis using process_alert_generic_error [OF body] by simp
qed

theorem process_alert_oom_witness:
  "fst (process_tradingview_alert ex_cipher ex_env ex_alert ''t1''
          (ex_world\<lparr>w_redis := (w_redis ex_world)\<lparr>r_oom := True\<rparr>\<rparr>)) =
     Inl (ResponseError oom_message) \<and>
   orders_of (w_calls (snd (process_tradingview_alert ex_cipher ex_env ex_alert ''t1''
          (ex_world\<lparr>w_redis := (w_redis ex_world)\<lparr>r_oom := True\<rparr>\<rparr>)))) =
     [market_req ''BTC/USDT'' ''buy'' 0.01]"
proof -
  let ?w = "ex_world\<lparr>w_redis := (w_redis ex_world)\<lparr>r_oom := True\<rparr>\<rparr>"
  let ?wc = "?w\<lparr>w_cache := [client_key ''u1'' ''binance'' \<mapsto> ex_client]\<rparr>"
  let ?wo = "log_call ex_client (CreateOrder (market_req ''BTC/USDT'' ''buy'' 0.01)) ?wc"
  have up: "r_up (w_redis ?w)" and oom: "r_oom (w_redis ?w)"
    by (simp_all add: ex_world_def ex_world_of_def ex_redis_of_def)
  have cfg: "map_of (r_data (w_redis ?w)) (config_key (user_id ex_alert) (config_name ex_alert)) =
      Some (RConfig ex_cfg)"
    by (simp add: ex_unfold)
  have cl: "get_exchange_client ex_cipher ex_env (user_id ex_alert) (exchange ex_cfg) ?w = (Inr ex_client, ?wc)"
    by (simp add: ex_unfold)
  have q: "determine_quantity ex_env ex_client ex_cfg ex_alert ?wc = (Inr 0.01, ?wc)"
    by (simp add: ex_unfold)
  have o: "execute_order ex_env ex_client (symbol ex_cfg) (order_type ex_cfg)
      (side_of (position_side ex_cfg)) 0.01 (alert_price ex_alert) (price ex_cfg) ?wc =
      (Inr (Some [(''id'', ''o1'')]), ?wo)"
    by (simp add: ex_unfold)
  from process_alert_oom [OF up oom cfg cl q o] show ?thesis
    by (simp add: log_call_def ex_world_def ex_world_of_def)
qed

theorem process_alert_unsupported_type_witness:
  "fst (process_tradingview_alert ex_cipher ex_env ex_alert ''t1''
          (ex_world_of (ex_cfg\<lparr>order_type := ''trailing_stop''\<rparr>))) = Inr (success_result None ''t1'') \<and>
   orders_of (w_calls (snd (process_tradingview_alert ex_cipher ex_env ex_alert ''t1''
          (ex_world_of (ex_cfg\<lparr>order_type := ''trailing_stop''\<rparr>))))) = []"
proof -
  let ?cfg = "ex_cfg\<lparr>order_type := ''trailing_stop''\<rparr>"
  let ?w = "ex_world_of ?cfg"
  let ?wc = "?w\<lparr>w_cache := [client_key ''u1'' ''binance'' \<mapsto> ex_client]\<rparr>"
  have up: "r_up (w_redis ?w)" and oom: "\<not> r_oom (w_redis ?w)"
    by (simp_all add: ex_world_of_def ex_redis_of_def)
  have cfg: "map_of (r_data (w_redis ?w)) (config_key (user_id ex_alert) (config_name ex_alert)) =
      Some (RConfig ?cfg)"
    by (simp add: ex_unfold)
  have cl: "get_exchange_client ex_cipher ex_env (user_id ex_alert) (exchange ?cfg) ?w = (Inr ex_client, ?wc)"
    by (simp add: ex_unfold)
  have q: "determine_quantity ex_env ex_client ?cfg ex_alert ?wc = (Inr 0.01, ?wc)"
    by (simp add: ex_unfold)
  have ot: "order_type ?cfg \<notin> {''market'', ''limit'', ''stop_loss'', ''take_profit''}" by simp
  from process_alert_unsupported_type [OF up oom cfg cl q ot] show ?thesis
    by (simp add: record_history_def ex_world_of_def)
qed

theorem process_alert_no_dedup_witness:
  "orders_of (w_calls (snd (process_tradingview_alert ex_cipher ex_env ex_alert ''t2''
     (snd (process_tradingview_alert ex_cipher ex_env ex_alert ''t1''
        (ex_world\<lparr>w_cache := [client_key ''u1'' ''binance'' \<mapsto> ex_client]\<rparr>)))))) =
   [market_req ''BTC/USDT'' ''buy'' 0.01, market_req ''BTC/USDT'' ''buy'' 0.01]"
proof -
  let ?w = "ex_world\<lparr>w_cache := [client_key ''u1'' ''binance'' \<mapsto> ex_client]\<rparr>"
  have "r_up (w_redis ?w)" and "\<not> r_oom (w_redis ?w)"
    and "map_of (r_data (w_redis ?w)) (config_key (user_id ex_alert) (config_name ex_alert)) = Some (RConfig ex_cfg)"
    and "w_cache ?w (client_key (user_id ex_alert) (exchange ex_cfg)) = Some ex_client"
    and "order_type ex_cfg = ''market''" and "quantity ex_cfg = Some 0.01" and "(0.01::real) \<noteq> 0"
    and "ccxt_order ex_env ex_client (market_req (symbol ex_cfg) (side_of (position_side ex_cfg)) 0.01) =
           Inr [(''id'', ''o1'')]"
    and "''t1'' \<noteq> ''t2''"
    by (simp_all add: ex_unfold)
  from process_alert_no_dedup [OF this] show ?thesis
    by (simp add: ex_unfold)
qed

theorem process_alert_negative_quantity_witness:
  "orders_of (w_calls (snd (process_tradingview_alert ex_cipher ex_env ex_alert ''t1''
     ((ex_world_of (ex_cfg\<lparr>quantity := Some (-0.01)\<rparr>))\<lparr>w_cache := [client_key ''u1'' ''binance'' \<mapsto> ex_client]\<rparr>)))) =
   [market_req ''BTC/USDT'' ''buy'' (-0.01)]"
proof -
  let ?cfg = "ex_cfg\<lparr>quantity := Some (-0.01)\<rparr>"
  let ?w = "(ex_world_of ?cfg)\<lparr>w_cache := [client_key ''u1'' ''binance'' \<mapsto> ex_client]\<rparr>"
  have "r_up (w_redis ?w)" and "\<not> r_oom (w_redis ?w)"
    and "map_of (r_data (w_redis ?w)) (config_key (user_id ex_alert) (config_name ex_alert)) = Some (RConfig ?cfg)"
    and "w_cache ?w (client_key (user_id ex_alert) (exchange ?cfg)) = Some ex_client"
    and "order_type ?cfg = ''market''" and "quantity ?cfg = Some (-0.01)" and "(-0.01::real) < 0"
    and "ccxt_order ex_env ex_client (market_req (symbol ?cfg) (side_of (position_side ?cfg)) (-0.01)) =
           Inr [(''id'', ''o1'')]"
    by (simp_all add: ex_unfold)
  from process_alert_negative_quantity [OF this] show ?thesis
    by (simp add: ex_unfold)
qed

theorem process_alert_at_most_one_order_witness:
  "prefix (w_calls ex_world) (w_calls (snd (process_tradingview_alert ex_cipher ex_env ex_alert ''t1'' ex_world))) \<and>
   length (orders_of (w_calls (snd (process_tradingview_alert ex_cipher ex_env ex_alert ''t1'' ex_world))))
     \<le> length (orders_of (w_calls ex_world)) + 1"
  by (rule process_alert_at_most_one_order [of ex_cipher ex_env ex_alert "''t1''" ex_world
        "fst (process_tradingview_alert ex_cipher ex_env ex_alert ''t1'' ex_world)"]) simp

end
