(* ===== verification/Backend.thy ===== *)
theory Backend
  imports Pipeline
begin

text \<open>
  The HTTP endpoints of \<^verbatim>\<open>src/bridge/backend/app/main.py\<close> (lines 72--155 and
  281--296) and the webhook (158--279) as one backend.  Every endpoint is an
  \<^verbatim>\<open>async def\<close> with no \<^verbatim>\<open>await\<close>, so the event loop runs each request to
  completion before the next one starts: a request is one atomic transition of the
  process state \<open>world\<close>, \<open>backend_step\<close>.  The management endpoints act for the
  fixed user \<^verbatim>\<open>"default"\<close>; the webhook acts for the user named in the alert.
  \<open>reachable\<close> is the set of states the process goes through from an empty Redis
  and an empty cache, under any sequence of requests, any answers of the exchanges,
  and a Redis server that may go down, come back, or run out of memory at any time.
\<close>

section \<open>Requests and responses\<close>

datatype request =
    ReadRoot
  | AddApiKey ApiKeyModel
  | GetApiKeyStatus string
  | RemoveApiKey string
  | CreateAlertConfig AlertConfigModel
  | GetConfig string
  | ListConfigs
  | RemoveConfig string
  | Webhook TradingViewAlertModel string
  | GetUserAlertHistory nat
  | ListExchanges

text \<open>The JSON bodies the endpoints return.\<close>

datatype response =
    RStatus
  | RSaved bool string
  | RHasKeys bool
  | RDeleted bool
  | RConfigOut rval
  | RConfigList "rval list"
  | ROrder OrderResultModel
  | RHistoryList "rval list"
  | RExchanges "string list"

definition default_user :: string where
  "default_user = ''default''"

section \<open>Exception handlers of the endpoints\<close>

text \<open>\<^verbatim>\<open>except Exception as e: raise HTTPException(status_code=500, detail=str(e))\<close>.\<close>

definition http_500 :: "('s, 'a) py \<Rightarrow> ('s, 'a) py" where
  "http_500 m s = (case m s of (Inl e, s') \<Rightarrow> (Inl (HTTPException 500 (exc_str e)), s') | x \<Rightarrow> x)"

text \<open>The same, preceded by \<^verbatim>\<open>except HTTPException: raise\<close> (\<^verbatim>\<open>get_config\<close>).\<close>

definition reraise_500 :: "('s, 'a) py \<Rightarrow> ('s, 'a) py" where
  "reraise_500 m s =
     (case m s of
        (Inl e, s') \<Rightarrow> (if is_http e then (Inl e, s') else (Inl (HTTPException 500 (exc_str e)), s'))
      | x \<Rightarrow> x)"

section \<open>Endpoints\<close>

definition read_root :: "(redis, response) py" where
  "read_root = ret RStatus"

definition add_api_key :: "cipher \<Rightarrow> ApiKeyModel \<Rightarrow> (redis, response) py" where
  "add_api_key c k =
     http_500 (pbind (save_exchange_api_key c default_user (exchange_value (api_exchange k))
                        (api_key k) (api_secret k))
                 (\<lambda>res. ret (RSaved res ''API keys saved successfully'')))"

definition get_api_key_status :: "cipher \<Rightarrow> string \<Rightarrow> (redis, response) py" where
  "get_api_key_status c e =
     http_500 (pbind (get_exchange_api_key c default_user e) (\<lambda>keys. ret (RHasKeys (keys \<noteq> None))))"

definition remove_api_key :: "string \<Rightarrow> (redis, response) py" where
  "remove_api_key e = http_500 (pbind (delete_exchange_api_key default_user e) (\<lambda>res. ret (RDeleted res)))"

definition create_alert_config :: "AlertConfigModel \<Rightarrow> (redis, response) py" where
  "create_alert_config cfg =
     http_500 (pbind (save_alert_config default_user (name cfg) (config_dict cfg))
                 (\<lambda>res. ret (RSaved res ''Configuration saved successfully'')))"

definition get_config :: "string \<Rightarrow> (redis, response) py" where
  "get_config n =
     reraise_500 (pbind (get_alert_config default_user n) (\<lambda>cfg. case cfg of
        None \<Rightarrow> raise (HTTPException 404 (''Configuration '' @ n @ '' not found''))
      | Some v \<Rightarrow> ret (RConfigOut v)))"

definition list_configs :: "(redis, response) py" where
  "list_configs = http_500 (pbind (get_all_alert_configs default_user) (\<lambda>cs. ret (RConfigList cs)))"

definition remove_config :: "string \<Rightarrow> (redis, response) py" where
  "remove_config n = http_500 (pbind (delete_alert_config default_user n) (\<lambda>res. ret (RDeleted res)))"

text \<open>
  \<^verbatim>\<open>limit: int = Query(20, ge=1, le=100)\<close>: FastAPI answers 422 to a limit outside
  \<open>[1, 100]\<close> before the handler runs.
\<close>

definition get_user_alert_history :: "nat \<Rightarrow> (redis, response) py" where
  "get_user_alert_history limit =
     (if limit < 1 \<or> 100 < limit then raise (HTTPException 422 ''limit out of range'')
      else http_500 (pbind (get_alert_history default_user limit) (\<lambda>h. ret (RHistoryList h))))"

definition list_exchanges :: "(redis, response) py" where
  "list_exchanges = ret (RExchanges (map exchange_value all_exchanges))"

text \<open>One request; \<open>env\<close> is what the exchanges answer while it runs.\<close>

fun backend_step :: "cipher \<Rightarrow> ccxt \<Rightarrow> request \<Rightarrow> (world, response) py" where
  "backend_step c env ReadRoot = on_redis read_root"
| "backend_step c env (AddApiKey k) = on_redis (add_api_key c k)"
| "backend_step c env (GetApiKeyStatus e) = on_redis (get_api_key_status c e)"
| "backend_step c env (RemoveApiKey e) = on_redis (remove_api_key e)"
| "backend_step c env (CreateAlertConfig cfg) = on_redis (create_alert_config cfg)"
| "backend_step c env (GetConfig n) = on_redis (get_config n)"
| "backend_step c env ListConfigs = on_redis list_configs"
| "backend_step c env (RemoveConfig n) = on_redis (remove_config n)"
| "backend_step c env (Webhook alert now) =
     pbind (process_tradingview_alert c env alert now) (\<lambda>r. ret (ROrder r))"
| "backend_step c env (GetUserAlertHistory limit) = on_redis (get_user_alert_history limit)"
| "backend_step c env ListExchanges = on_redis list_exchanges"

text \<open>A sequence of requests, each with the exchanges' answers during it.\<close>

fun run_requests :: "cipher \<Rightarrow> (ccxt \<times> request) list \<Rightarrow> world \<Rightarrow> (exc + response) list \<times> world" where
  "run_requests c [] w = ([], w)"
| "run_requests c ((env, q) # qs) w =
     (case backend_step c env q w of
        (x, w') \<Rightarrow> (case run_requests c qs w' of (xs, w'') \<Rightarrow> (x # xs, w'')))"

text \<open>The process at start-up: an empty cache and no exchange call; Redis empty.\<close>

definition init_world :: "bool \<Rightarrow> bool \<Rightarrow> world" where
  "init_world up oom = \<lparr>w_redis = \<lparr>r_data = [], r_up = up, r_oom = oom\<rparr>, w_cache = Map.empty, w_calls = []\<rparr>"

inductive reachable :: "cipher \<Rightarrow> world \<Rightarrow> bool" for c where
  init: "reachable c (init_world up oom)"
| step: "reachable c w \<Longrightarrow> backend_step c env q w = (x, w') \<Longrightarrow> reachable c w'"
| redis_flags: "reachable c w \<Longrightarrow> reachable c (w\<lparr>w_redis := (w_redis w)\<lparr>r_up := up, r_oom := oom\<rparr>\<rparr>)"

section \<open>Invariant of the reachable states\<close>

text \<open>The string values of the supported exchanges.\<close>

definition exchange_values :: "string list" where
  "exchange_values = map exchange_value all_exchanges"

fun entry_ok :: "string \<times> rval \<Rightarrow> bool" where
  "entry_ok (k, RApiKeys a s) = (k \<in> set (map (api_key_key default_user) exchange_values))"
| "entry_ok (k, RConfig cfg) = (k = config_key default_user (name cfg) \<and> exchange cfg \<in> set exchange_values)"
| "entry_ok (k, RHistory h) = prefix ''alert:'' k"

definition keyspace_ok :: "redis \<Rightarrow> bool" where
  "keyspace_ok r \<longleftrightarrow> redis_wf r \<and> list_all entry_ok (r_data r)"

definition cache_ok :: "(string \<rightharpoonup> client) \<Rightarrow> bool" where
  "cache_ok m \<longleftrightarrow> (\<forall>k cl. m k = Some cl \<longrightarrow>
      cl_exchange cl \<in> set exchange_values \<and> (\<exists>u. k = client_key u (cl_exchange cl)))"

definition backend_inv :: "world \<Rightarrow> bool" where
  "backend_inv w \<longleftrightarrow> keyspace_ok (w_redis w) \<and> cache_ok (w_cache w)"

definition is_webhook :: "request \<Rightarrow> bool" where
  "is_webhook q = (case q of Webhook _ _ \<Rightarrow> True | _ \<Rightarrow> False)"

section \<open>A session of the backend\<close>

text \<open>
  The session of the specification's example through the API: the keys of Binance
  and the configuration c1 are saved for the user "default", then one webhook for c1
  arrives.
\<close>

definition ex_api_key :: ApiKeyModel where
  "ex_api_key = \<lparr>api_exchange = BINANCE, api_key = ''k'', api_secret = ''s''\<rparr>"

definition ex_config_model :: AlertConfigModel where
  "ex_config_model = \<lparr>name = ''c1'', exchange = BINANCE, symbol = ''BTC/USDT'', order_type = MARKET,
     position_side = LONG, quantity = Some 0.01, quantity_percentage = None, price = None,
     stop_loss = None, take_profit = None, description = None\<rparr>"

definition ex_session :: "(ccxt \<times> request) list" where
  "ex_session = [(ex_env, AddApiKey ex_api_key), (ex_env, CreateAlertConfig ex_config_model),
                 (ex_env, Webhook (ex_alert\<lparr>user_id := ''default''\<rparr>) ''2024-01-01T00:00:00'')]"

definition ex_backend_world :: world where
  "ex_backend_world = snd (run_requests ex_cipher ex_session (init_world True False))"

definition ex_history_redis :: redis where
  "ex_history_redis = \<lparr>r_data = [(history_key ''u1'' ''t1'', RHistory (HistFailure ''c1'' ''t1'' ''e1'')),
                                  (history_key ''u1'' ''t2'', RHistory (HistFailure ''c1'' ''t2'' ''e2'')),
                                  (history_key ''u1:x'' ''t3'', RHistory (HistFailure ''c9'' ''t3'' ''e3''))],
                        r_up = True, r_oom = False\<rparr>"

section \<open>Lemmas\<close>

lemma set_update_subset: "set (AList.update k v xs) \<subseteq> insert (k, v) (set xs)"
  by (induction xs) auto

lemma set_delete_subset: "set (AList.delete k xs) \<subseteq> set xs"
  by (induction xs) auto

lemma redis_set_keyspace:
  "keyspace_ok r \<Longrightarrow> entry_ok (k, v) \<Longrightarrow> redis_set k v r = (x, r') \<Longrightarrow> keyspace_ok r'"
  using redis_set_state [of k v r x r'] redis_set_wf [of r k v x r'] set_update_subset [of k v "r_data r"]
  unfolding keyspace_ok_def list_all_iff by auto

lemma redis_delete_keyspace:
  "keyspace_ok r \<Longrightarrow> redis_delete k r = (x, r') \<Longrightarrow> keyspace_ok r'"
  using redis_delete_wf [of r k x r'] set_delete_subset [of k "r_data r"]
  unfolding keyspace_ok_def list_all_iff by (auto simp: redis_delete_def split: if_splits)

lemma keyspace_flags [simp]: "keyspace_ok (r\<lparr>r_up := u, r_oom := m\<rparr>) = keyspace_ok r"
  by (simp add: keyspace_ok_def redis_wf_def)

lemma save_alert_history_keyspace:
  "keyspace_ok r \<Longrightarrow> save_alert_history u h r = (x, r') \<Longrightarrow> keyspace_ok r'"
  unfolding save_alert_history_def
  by (erule redis_set_keyspace) (simp_all add: history_key_def)

lemma keyspace_config:
  "keyspace_ok r \<Longrightarrow> map_of (r_data r) k = Some (RConfig cfg) \<Longrightarrow> exchange cfg \<in> set exchange_values"
  unfolding keyspace_ok_def list_all_iff by (auto dest!: map_of_SomeD)

lemma get_exchange_client_cache_ok:
  assumes "get_exchange_client c env u e w = (x, w')" and "e \<in> set exchange_values" and "cache_ok (w_cache w)"
  shows "cache_ok (w_cache w')"
proof (cases "w_cache w (client_key u e)")
  case None
  obtain y r where gk: "get_exchange_api_key c u e (w_redis w) = (y, r)" by fastforce
  then have "r = w_redis w" by (rule get_exchange_api_key_state)
  with None gk assms show ?thesis
    by (fastforce simp: get_exchange_client_def cache_ok_def Let_def split: sum.splits option.splits prod.splits if_splits)
next
  case (Some cl)
  with assms show ?thesis by (auto simp: get_exchange_client_def)
qed

lemma backend_inv_appends: "appends w C w' \<Longrightarrow> backend_inv w \<Longrightarrow> backend_inv w'"
  by (auto simp: backend_inv_def dest: appends_calls)

lemma get_exchange_client_inv:
  "get_exchange_client c env u e w = (x, w') \<Longrightarrow> backend_inv w \<Longrightarrow> e \<in> set exchange_values \<Longrightarrow>
   backend_inv w'"
  unfolding backend_inv_def by (auto dest: get_exchange_client_frame get_exchange_client_cache_ok)

lemma save_history_inv:
  "save_alert_history u h (w_redis w) = (x, r') \<Longrightarrow> backend_inv w \<Longrightarrow> backend_inv (w\<lparr>w_redis := r'\<rparr>)"
  unfolding backend_inv_def by (auto dest: save_alert_history_keyspace)

lemma alert_body_inv:
  assumes body: "alert_body c env alert now w = (x, w')" and inv: "backend_inv w"
  shows "backend_inv w'"
proof (cases "\<exists>cfg. r_up (w_redis w) \<and>
    map_of (r_data (w_redis w)) (config_key (user_id alert) (config_name alert)) = Some (RConfig cfg)")
  case False
  with body inv show ?thesis
    by (auto simp: alert_body_def get_alert_config_def redis_get_def as_config_def
        split: if_splits option.splits rval.splits)
next
  case True
  then obtain cfg where up: "r_up (w_redis w)"
    and cfg: "map_of (r_data (w_redis w)) (config_key (user_id alert) (config_name alert)) = Some (RConfig cfg)"
    by blast
  from inv cfg have ex: "exchange cfg \<in> set exchange_values"
    by (auto simp: backend_inv_def intro: keyspace_config)
  obtain x1 w1 where gec: "get_exchange_client c env (user_id alert) (exchange cfg) w = (x1, w1)" by fastforce
  have inv1: "backend_inv w1" using gec inv ex by (rule get_exchange_client_inv)
  have chain: "pbind (get_exchange_client c env (user_id alert) (exchange cfg)) (\<lambda>cl.
     pbind (determine_quantity env cl cfg alert) (\<lambda>q.
     pbind (execute_order env cl (symbol cfg) (order_type cfg) (side_of (position_side cfg)) q
              (alert_price alert) (price cfg)) (\<lambda>order_result.
     pbind (on_redis (save_alert_history (user_id alert) (success_entry alert cfg q order_result now)))
       (\<lambda>_. ret (success_result order_result now))))) w = (x, w')"
    using body up cfg by (simp add: alert_body_def get_alert_config_def as_config_def)
  show ?thesis
  proof (cases x1)
    case (Inl e)
    with chain gec inv1 show ?thesis by (simp add: pbind_def)
  next
    case (Inr cl)
    obtain x2 w2 where dq: "determine_quantity env cl cfg alert w1 = (x2, w2)" by fastforce
    have inv2: "backend_inv w2" using determine_quantity_frame [OF dq] inv1 by (rule backend_inv_appends)
    obtain x3 w3 where eo: "execute_order env cl (symbol cfg) (order_type cfg) (side_of (position_side cfg))
        (projr x2) (alert_price alert) (price cfg) w2 = (x3, w3)" by fastforce
    have inv3: "backend_inv w3"
      using execute_order_frame [OF eo] inv2 by (simp add: backend_inv_def)
    from chain gec Inr dq eo inv1 inv2 inv3 show ?thesis
      by (auto simp: pbind_def split: sum.splits prod.splits dest: save_history_inv)
  qed
qed

lemma process_alert_inv:
  assumes "process_tradingview_alert c env alert now w = (x, w')" and "backend_inv w"
  shows "backend_inv w'"
proof -
  obtain y wb where body: "alert_body c env alert now w = (y, wb)" by fastforce
  from body assms(2) have "backend_inv wb" by (rule alert_body_inv)
  with body assms(1) show ?thesis
    by (auto simp: process_tradingview_alert_def pbind_def split: sum.splits if_splits prod.splits
        dest: save_history_inv)
qed

lemma http_500_state: "http_500 m s = (x, s') \<Longrightarrow> \<exists>y. m s = (y, s')"
  by (auto simp: http_500_def split: prod.splits sum.splits)

lemma reraise_500_state: "reraise_500 m s = (x, s') \<Longrightarrow> \<exists>y. m s = (y, s')"
  by (auto simp: reraise_500_def split: prod.splits sum.splits if_splits)

lemma collect_configs_state: "collect_configs u ks r = (x, r') \<Longrightarrow> r' = r"
proof (induction ks arbitrary: x)
  case (Cons k ks)
  then show ?case
    by (auto simp: Let_def pbind_def get_alert_config_def redis_get_def split: prod.splits sum.splits if_splits)
qed simp

lemma fetch_all_state: "fetch_all ks r = (x, r') \<Longrightarrow> r' = r"
proof (induction ks arbitrary: x)
  case (Cons k ks)
  then show ?case by (auto simp: pbind_def redis_get_def split: prod.splits sum.splits if_splits)
qed simp

lemma redis_keys_state: "redis_keys p r = (x, r') \<Longrightarrow> r' = r"
  by (simp add: redis_keys_def split: if_splits)

lemma pbind_ret_state: "pbind m (\<lambda>y. ret (f y)) s = (x, s') \<Longrightarrow> \<exists>y. m s = (y, s')"
  by (auto simp: pbind_def split: prod.splits sum.splits)

lemma on_redis_inv:
  "on_redis m w = (x, w') \<Longrightarrow> backend_inv w \<Longrightarrow>
   (\<And>y r'. m (w_redis w) = (y, r') \<Longrightarrow> keyspace_ok r') \<Longrightarrow> backend_inv w'"
  by (auto simp: backend_inv_def split: prod.splits)

lemma exchange_value_valid [simp]: "exchange_value e \<in> set exchange_values"
  by (cases e) (simp_all add: exchange_values_def all_exchanges_def)

lemma backend_step_inv:
  assumes step: "backend_step c env q w = (x, w')" and inv: "backend_inv w"
  shows "backend_inv w'"
proof (cases q)
  case (Webhook alert now)
  obtain y wp where "process_tradingview_alert c env alert now w = (y, wp)" by fastforce
  with assms Webhook show ?thesis
    by (auto simp: pbind_def split: sum.splits dest: process_alert_inv)
next
  case (AddApiKey k)
  from step inv show ?thesis unfolding AddApiKey backend_step.simps
  proof (rule on_redis_inv)
    fix y r' assume "add_api_key c k (w_redis w) = (y, r')"
    then have "\<exists>z. save_exchange_api_key c default_user (exchange_value (api_exchange k))
        (api_key k) (api_secret k) (w_redis w) = (z, r')"
      unfolding add_api_key_def by (auto dest!: http_500_state pbind_ret_state)
    then obtain z where "save_exchange_api_key c default_user (exchange_value (api_exchange k))
        (api_key k) (api_secret k) (w_redis w) = (z, r')" ..
    with inv show "keyspace_ok r'"
      unfolding save_exchange_api_key_def backend_inv_def by (auto elim!: redis_set_keyspace [rotated 2])
  qed
next
  case (CreateAlertConfig cfg)
  from step inv show ?thesis unfolding CreateAlertConfig backend_step.simps
  proof (rule on_redis_inv)
    fix y r' assume "create_alert_config cfg (w_redis w) = (y, r')"
    then have "\<exists>z. save_alert_config default_user (name cfg) (config_dict cfg) (w_redis w) = (z, r')"
      unfolding create_alert_config_def by (auto dest!: http_500_state pbind_ret_state)
    then obtain z where "save_alert_config default_user (name cfg) (config_dict cfg) (w_redis w) = (z, r')" ..
    with inv show "keyspace_ok r'"
      unfolding save_alert_config_def backend_inv_def by (auto elim!: redis_set_keyspace [rotated 2])
  qed
qed (use step inv in \<open>auto simp: read_root_def get_api_key_status_def remove_api_key_def
      get_config_def list_configs_def remove_config_def get_user_alert_history_def
      list_exchanges_def get_all_alert_configs_def get_alert_history_def delete_exchange_api_key_def
      delete_alert_config_def ret_def raise_def backend_inv_def pbind_def
      split: prod.splits if_splits sum.splits option.splits
      dest!: http_500_state reraise_500_state pbind_ret_state get_exchange_api_key_state get_alert_config_state
        collect_configs_state fetch_all_state redis_keys_state
      intro: redis_delete_keyspace\<close>)

lemma reachable_backend_inv: "reachable c w \<Longrightarrow> backend_inv w"
proof (induction rule: reachable.induct)
  case (init up oom)
  show ?case by (simp add: init_world_def backend_inv_def keyspace_ok_def redis_wf_def cache_ok_def)
next
  case (step w env q x w')
  then show ?case by (blast intro: backend_step_inv)
next
  case (redis_flags w up oom)
  then show ?case by (simp add: backend_inv_def)
qed

lemma exchange_values_no_colon: "e \<in> set exchange_values \<Longrightarrow> CHR '':'' \<notin> set e"
  by (auto simp: exchange_values_def)

lemma reachable_cache_ok: "reachable c w \<Longrightarrow> cache_ok (w_cache w)"
  by (drule reachable_backend_inv) (simp add: backend_inv_def)

text \<open>C29: In every reachable state, the client cached under <user>:<exchange> for an exchange name without a colon is a client of that exchange.\<close>

theorem reachable_cached_client_exchange:
  assumes "reachable c w" and "w_cache w (client_key u e) = Some cl" and "CHR '':'' \<notin> set e"
  shows "cl_exchange cl = e"
proof -
  from assms(1) have "cache_ok (w_cache w)" by (rule reachable_cache_ok)
  with assms(2) obtain u' where ex: "cl_exchange cl \<in> set exchange_values"
    and eq: "client_key u e = client_key u' (cl_exchange cl)"
    unfolding cache_ok_def by blast
  from eq have "u @ CHR '':'' # e = u' @ CHR '':'' # cl_exchange cl" by (simp add: client_key_def)
  from sep_join_right [OF assms(3) exchange_values_no_colon [OF ex] this] show ?thesis by simp
qed

lemma config_key_other_user:
  assumes "CHR '':'' \<notin> set u" and "u \<noteq> default_user"
  shows "config_key u n \<noteq> config_key default_user m" and "config_key u n \<noteq> api_key_key default_user e"
    and "\<not> prefix ''alert:'' (config_key u n)"
proof -
  have d: "CHR '':'' \<notin> set default_user" by (simp add: default_user_def)
  show "config_key u n \<noteq> config_key default_user m"
  proof
    assume "config_key u n = config_key default_user m"
    then have "u @ CHR '':'' # ''alert_config:'' @ n = default_user @ CHR '':'' # ''alert_config:'' @ m"
      by (simp add: config_key_def)
    with sep_join_left [OF assms(1) d] assms(2) show False by blast
  qed
  show "config_key u n \<noteq> api_key_key default_user e"
  proof
    assume "config_key u n = api_key_key default_user e"
    then have "u @ CHR '':'' # ''alert_config:'' @ n = default_user @ CHR '':'' # ''exchange:'' @ e"
      by (simp add: config_key_def api_key_key_def)
    with sep_join_left [OF assms(1) d] assms(2) show False by blast
  qed
  show "\<not> prefix ''alert:'' (config_key u n)" by (simp add: config_key_def)
qed

lemma keyspace_no_config:
  assumes "keyspace_ok r" and "CHR '':'' \<notin> set u" and "u \<noteq> default_user"
  shows "map_of (r_data r) (config_key u n) = None"
proof (rule ccontr)
  assume "map_of (r_data r) (config_key u n) \<noteq> None"
  then obtain v where "(config_key u n, v) \<in> set (r_data r)" by (auto dest: map_of_SomeD)
  with assms(1) have "entry_ok (config_key u n, v)" by (auto simp: keyspace_ok_def list_all_iff)
  with config_key_other_user [OF assms(2,3)] show False by (cases v) auto
qed

text \<open>C30: Since the management endpoints store configurations for the user "default" only, in every reachable state a webhook whose user id is not "default" and contains no colon is answered with HTTP 404 configuration not found, with no effect.\<close>

theorem webhook_other_user_not_found:
  assumes "reachable c w" and "r_up (w_redis w)"
    and "user_id alert \<noteq> default_user" and "CHR '':'' \<notin> set (user_id alert)"
  shows "backend_step c env (Webhook alert now) w = (Inl (config_not_found (config_name alert)), w)"
proof -
  from assms(1) have "keyspace_ok (w_redis w)" by (auto dest: reachable_backend_inv simp: backend_inv_def)
  with assms(3,4) have "map_of (r_data (w_redis w)) (config_key (user_id alert) (config_name alert)) = None"
    by (intro keyspace_no_config)
  with assms(2) show ?thesis
    by (simp add: process_tradingview_alert_def alert_body_def get_alert_config_def pbind_def config_not_found_def)
qed

lemma fetch_all_up:
  "r_up r \<Longrightarrow> fetch_all ks r = (Inr (List.map_filter (map_of (r_data r)) ks), r)"
  by (induction ks) (auto simp: pbind_def ret_def List.map_filter_simps split: option.split)

lemma glob_free_default_user [simp]: "glob_free default_user"
  by (simp add: default_user_def)

text \<open>A stored value whose key the history pattern of u matches is listed when the limit covers the keyspace.\<close>

lemma history_listing_member:
  assumes "r_up r" and "map_of (r_data r) k = Some x" and "glob_match (history_pattern u) k"
    and "length (r_data r) \<le> limit"
  shows "\<exists>hs. get_alert_history u limit r = (Inr hs, r) \<and> x \<in> set hs"
proof -
  let ?ks = "filter (glob_match (history_pattern u)) (map fst (r_data r))"
  have "k \<in> set ?ks"
    using assms(2,3) by (force dest: map_of_SomeD)
  moreover have "length ?ks \<le> limit"
    using assms(4) length_filter_le [of "glob_match (history_pattern u)" "map fst (r_data r)"]
    by (simp only: length_map)
  ultimately have "k \<in> set (take limit (rev (sort ?ks)))" by simp
  then have "x \<in> set (List.map_filter (map_of (r_data r)) (take limit (rev (sort ?ks))))"
    using assms(2) by (force simp: List.map_filter_def)
  with assms(1) show ?thesis
    by (simp add: get_alert_history_def pbind_def fetch_all_up)
qed

text \<open>C33: The history listing of a user whose id has no glob character returns the stored values of the keys with prefix alert:<user>:, in descending order of key, at most limit of them, without changing Redis.\<close>

theorem get_alert_history_listing:
  assumes "r_up r" and "glob_free u"
  shows "get_alert_history u limit r =
    (Inr (map (\<lambda>k. the (map_of (r_data r) k))
       (take limit (rev (sort (filter (prefix (''alert:'' @ u @ '':'')) (map fst (r_data r))))))), r)"
proof -
  let ?ks = "take limit (rev (sort (filter (prefix (''alert:'' @ u @ '':'')) (map fst (r_data r)))))"
  have "\<forall>k\<in>set ?ks. map_of (r_data r) k \<noteq> None"
    by (auto dest!: in_set_takeD simp: map_of_eq_None_iff)
  with assms show ?thesis
    by (simp add: get_alert_history_def history_pattern_literal pbind_def fetch_all_up map_filter_all_Some)
qed

text \<open>C34: The history listing of a user u whose id has no glob character also returns the records of any user whose id starts with u followed by a colon.\<close>

theorem history_listing_other_user:
  assumes "r_up r" and "glob_free u" and "map_of (r_data r) (history_key (u @ '':'' @ v) ts) = Some x"
    and "length (r_data r) \<le> limit"
  shows "\<exists>hs. get_alert_history u limit r = (Inr hs, r) \<and> x \<in> set hs"
proof (rule history_listing_member [OF assms(1,3) _ assms(4)])
  show "glob_match (history_pattern u) (history_key (u @ '':'' @ v) ts)"
    using assms(2) by (simp add: history_pattern_literal history_key_def)
qed

text \<open>C35: The history pattern is built from the user id without escaping, so the listing of the user id * returns the record of every user, whatever its id and timestamp.\<close>

theorem history_listing_glob_user:
  assumes "r_up r" and "map_of (r_data r) (history_key v ts) = Some x"
    and "length (r_data r) \<le> limit"
  shows "\<exists>hs. get_alert_history ''*'' limit r = (Inr hs, r) \<and> x \<in> set hs"
proof (rule history_listing_member [OF assms(1,2) _ assms(3)])
  have "glob_match ('':'' @ ''*'') ('':'' @ ts)"
    by (subst glob_match_literal_star) simp_all
  then have "glob_match (CHR ''*'' # '':'' @ ''*'') (v @ '':'' @ ts)"
    by (rule glob_star_skip)
  then show "glob_match (history_pattern ''*'') (history_key v ts)"
    using glob_literal_append [of "''alert:''" "''*:*''" "v @ '':'' @ ts"]
    by (simp del: glob_match.simps add: history_pattern_def history_key_def)
qed

lemma http_500_apply_Inr [simp]: "m s = (Inr y, s') \<Longrightarrow> http_500 m s = (Inr y, s')"
  by (simp add: http_500_def)

text \<open>C32: After the API keys of an exchange are deleted, the key status endpoint reports no keys, yet a client cached before the deletion is still returned for the default user and that exchange, so webhooks keep trading with the deleted credentials.\<close>

theorem remove_api_key_stale_client:
  assumes "r_up (w_redis w)" and "w_cache w (client_key default_user e) = Some cl"
    and "backend_step c env (RemoveApiKey e) w = (x, w')"
  shows "backend_step c env (GetApiKeyStatus e) w' = (Inr (RHasKeys False), w') \<and>
         get_exchange_client c env' default_user e w' = (Inr cl, w')"
proof -
  have w': "w' = w\<lparr>w_redis := (w_redis w)\<lparr>r_data := AList.delete (api_key_key default_user e) (r_data (w_redis w))\<rparr>\<rparr>"
    using assms(1,3) by (simp add: remove_api_key_def delete_exchange_api_key_def redis_delete_def pbind_def)
  with assms(1) have "backend_step c env (GetApiKeyStatus e) w' = (Inr (RHasKeys False), w')"
    by (simp add: get_api_key_status_def get_exchange_api_key_def pbind_def delete_conv')
  moreover from w' assms(2) have "get_exchange_client c env' default_user e w' = (Inr cl, w')"
    by (simp add: get_exchange_client_def)
  ultimately show ?thesis ..
qed

lemma backend_step_calls:
  assumes "backend_step c env q w = (x, w')"
  shows "w_cache w \<subseteq>\<^sub>m w_cache w' \<and> prefix (w_calls w) (w_calls w') \<and>
    length (orders_of (w_calls w')) \<le> length (orders_of (w_calls w)) + (if is_webhook q then 1 else 0)"
proof (cases q)
  case (Webhook alert now)
  obtain y wp where p: "process_tradingview_alert c env alert now w = (y, wp)" by fastforce
  with assms Webhook have "w_calls w' = w_calls wp \<and> w_cache w' = w_cache wp"
    by (auto simp: pbind_def ret_def split: sum.splits)
  with p Webhook show ?thesis
    by (auto simp: is_webhook_def elim!: process_alert_body dest!: alert_body_calls)
qed (use assms in \<open>auto simp: is_webhook_def split: prod.splits\<close>)

text \<open>C31: Over any sequence of requests, the client cache only grows (a cached client is never replaced, so each user and exchange gets at most one client per process), the exchange call log only grows, and at most one order is placed per webhook request.\<close>

theorem run_requests_cache_orders:
  "w_cache w \<subseteq>\<^sub>m w_cache (snd (run_requests c qs w)) \<and>
   prefix (w_calls w) (w_calls (snd (run_requests c qs w))) \<and>
   length (orders_of (w_calls (snd (run_requests c qs w)))) \<le>
     length (orders_of (w_calls w)) + length (filter is_webhook (map snd qs))"
proof (induction qs arbitrary: w)
  case Nil
  show ?case by simp
next
  case (Cons p qs)
  obtain env q where p: "p = (env, q)" by fastforce
  obtain x w1 where st: "backend_step c env q w = (x, w1)" by fastforce
  have "snd (run_requests c (p # qs) w) = snd (run_requests c qs w1)"
    using p st by (simp split: prod.split)
  with backend_step_calls [OF st] Cons.IH [of w1] p show ?case
    by (auto intro: map_le_trans prefix_order.trans)
qed

lemma keyspace_alert_entry:
  "keyspace_ok r \<Longrightarrow> (k, v) \<in> set (r_data r) \<Longrightarrow> prefix ''alert:'' k \<Longrightarrow> \<exists>h. v = RHistory h"
proof -
  assume "keyspace_ok r" and "(k, v) \<in> set (r_data r)" and p: "prefix ''alert:'' k"
  then have "entry_ok (k, v)" by (auto simp: keyspace_ok_def list_all_iff)
  with p show ?thesis by (cases v) (auto simp: api_key_key_def config_key_def)
qed

text \<open>C37: In every reachable state, the history endpoint answers, when it succeeds, with at most 100 values, all of them history records, and leaves the state unchanged.\<close>

theorem history_endpoint_records:
  assumes "reachable c w" and "backend_step c env (GetUserAlertHistory limit) w = (Inr resp, w')"
  shows "w' = w \<and> (\<exists>hs. resp = RHistoryList hs \<and> length hs \<le> 100 \<and> (\<forall>v\<in>set hs. \<exists>h. v = RHistory h))"
proof -
  from assms(1) have ks: "keyspace_ok (w_redis w)" by (auto dest: reachable_backend_inv simp: backend_inv_def)
  from assms(2) have up: "r_up (w_redis w)" and lim: "1 \<le> limit" "limit \<le> 100"
    by (auto simp: get_user_alert_history_def get_alert_history_def redis_keys_def http_500_def
        pbind_def raise_def split: if_splits)
  let ?ks = "take limit (rev (sort (filter (prefix (''alert:'' @ default_user @ '':'')) (map fst (r_data (w_redis w))))))"
  from up assms(2) lim have resp: "resp = RHistoryList (List.map_filter (map_of (r_data (w_redis w))) ?ks)"
    and "w' = w"
    by (auto simp: get_user_alert_history_def get_alert_history_def history_pattern_literal http_500_def
        pbind_def ret_def fetch_all_up)
  moreover have "length (List.map_filter (map_of (r_data (w_redis w))) ?ks) \<le> length ?ks"
    by (rule length_map_filter_le)
  with lim(2) have "length (List.map_filter (map_of (r_data (w_redis w))) ?ks) \<le> 100" by simp
  moreover have "\<forall>v\<in>set (List.map_filter (map_of (r_data (w_redis w))) ?ks). \<exists>h. v = RHistory h"
  proof
    fix v assume "v \<in> set (List.map_filter (map_of (r_data (w_redis w))) ?ks)"
    then obtain k where k: "k \<in> set ?ks" and "map_of (r_data (w_redis w)) k = Some v"
      by (auto simp: List.map_filter_def)
    then have kv: "(k, v) \<in> set (r_data (w_redis w))" by (rule_tac map_of_SomeD)
    from k have "prefix (''alert:'' @ default_user @ '':'') k" by (auto dest: in_set_takeD)
    then have "prefix ''alert:'' k" by (auto simp: prefix_def)
    with ks kv show "\<exists>h. v = RHistory h" by (rule keyspace_alert_entry)
  qed
  ultimately show ?thesis by blast
qed

text \<open>A configuration created through the API is read back as stored.\<close>

lemma create_then_get_config:
  assumes "r_up (w_redis w)" and "\<not> r_oom (w_redis w)"
    and "backend_step c env (CreateAlertConfig cfg) w = (x, w')"
  shows "x = Inr (RSaved True ''Configuration saved successfully'') \<and>
         backend_step c env' (GetConfig (name cfg)) w' = (Inr (RConfigOut (RConfig (config_dict cfg))), w')"
  using assms
  by (auto simp: create_alert_config_def save_alert_config_def get_config_def get_alert_config_def
      http_500_def reraise_500_def pbind_def ret_def update_conv')

text \<open>C28: In every state the backend reaches, Redis holds each key once, API keys are stored only for the default user under a supported exchange, every configuration under the key of its own name with a supported exchange, every key with prefix alert: holds a history record, and every cached client was built for a supported exchange under the key <user>:<exchange>.\<close>

theorem reachable_keyspace:
  "reachable c w \<Longrightarrow> redis_wf (w_redis w) \<and> list_all entry_ok (r_data (w_redis w)) \<and> cache_ok (w_cache w)"
  by (drule reachable_backend_inv) (simp add: backend_inv_def keyspace_ok_def)

lemma reachable_run: "reachable c w \<Longrightarrow> reachable c (snd (run_requests c qs w))"
proof (induction qs arbitrary: w)
  case (Cons p qs)
  obtain env q where p: "p = (env, q)" by fastforce
  obtain x w1 where st: "backend_step c env q w = (x, w1)" by fastforce
  from Cons.prems st have "reachable c w1" by (rule reachable.step)
  with Cons.IH [of w1] p st show ?case by (cases "run_requests c qs w1") simp
qed simp

lemmas ex_backend_unfold = ex_session_def ex_api_key_def ex_config_model_def init_world_def
  add_api_key_def save_exchange_api_key_def create_alert_config_def save_alert_config_def
  config_dict_def encrypt_data_def http_500_def default_user_def process_tradingview_alert_def

lemma ex_backend_world_eq:
  "ex_backend_world =
     \<lparr>w_redis = \<lparr>r_data = [(api_key_key ''default'' ''binance'', RApiKeys ''k'' ''s''),
                            (config_key ''default'' ''c1'', RConfig ex_cfg),
                            (history_key ''default'' ''2024-01-01T00:00:00'',
                             RHistory (HistSuccess ''c1'' ''BTC/USDT'' ''buy'' 0.01 None ''2024-01-01T00:00:00''
                               (Some ''o1'') (Some [(''id'', ''o1'')])))],
                 r_up = True, r_oom = False\<rparr>,
      w_cache = [client_key ''default'' ''binance'' \<mapsto> ex_client],
      w_calls = [(ex_client, CreateOrder (market_req ''BTC/USDT'' ''buy'' 0.01))]\<rparr>"
  by (simp add: ex_backend_world_def ex_backend_unfold pbind_def ret_def ex_unfold save_alert_history_def
      success_entry_def history_key_def success_result_def receipt_id_def)

lemma ex_backend_world_reachable: "reachable ex_cipher ex_backend_world"
  unfolding ex_backend_world_def by (intro reachable_run reachable.init)

section \<open>Witnesses\<close>

theorem reachable_keyspace_witness:
  "reachable ex_cipher ex_backend_world \<and> list_all entry_ok (r_data (w_redis ex_backend_world))"
  using reachable_keyspace [OF ex_backend_world_reachable] ex_backend_world_reachable by simp

theorem reachable_cached_client_exchange_witness:
  "reachable ex_cipher ex_backend_world \<and>
   w_cache ex_backend_world (client_key ''default'' ''binance'') = Some ex_client \<and>
   cl_exchange ex_client = ''binance''"
proof -
  have "w_cache ex_backend_world (client_key ''default'' ''binance'') = Some ex_client"
    by (simp add: ex_backend_world_eq)
  with reachable_cached_client_exchange [OF ex_backend_world_reachable this] ex_backend_world_reachable
  show ?thesis by simp
qed

theorem webhook_other_user_not_found_witness:
  "backend_step ex_cipher ex_env (Webhook (ex_alert\<lparr>user_id := ''u2''\<rparr>) ''t'') ex_backend_world =
   (Inl (config_not_found ''c1''), ex_backend_world)"
  using webhook_other_user_not_found [OF ex_backend_world_reachable, of "ex_alert\<lparr>user_id := ''u2''\<rparr>" ex_env "''t''"]
  by (simp add: ex_backend_world_eq default_user_def ex_alert_def)

theorem get_alert_history_listing_witness:
  "get_alert_history ''u1'' 2 ex_history_redis =
   (Inr [RHistory (HistFailure ''c9'' ''t3'' ''e3''), RHistory (HistFailure ''c1'' ''t2'' ''e2'')], ex_history_redis)"
  using get_alert_history_listing [of ex_history_redis "''u1''" 2]
  by (simp add: ex_history_redis_def history_key_def)

theorem history_listing_other_user_witness:
  "\<exists>hs. get_alert_history ''u1'' 20 ex_history_redis = (Inr hs, ex_history_redis) \<and>
        RHistory (HistFailure ''c9'' ''t3'' ''e3'') \<in> set hs"
  by (rule history_listing_other_user [of _ "''u1''" "''x''" "''t3''"])
     (simp_all add: ex_history_redis_def history_key_def)

theorem history_listing_glob_user_witness:
  "\<exists>hs. get_alert_history ''*'' 20 ex_history_redis = (Inr hs, ex_history_redis) \<and>
        RHistory (HistFailure ''c1'' ''t1'' ''e1'') \<in> set hs"
  by (rule history_listing_glob_user [of _ "''u1''" "''t1''"])
     (simp_all add: ex_history_redis_def history_key_def)

theorem remove_api_key_stale_client_witness:
  "backend_step ex_cipher ex_env (GetApiKeyStatus ''binance'')
     (snd (backend_step ex_cipher ex_env (RemoveApiKey ''binance'') ex_backend_world)) =
   (Inr (RHasKeys False), snd (backend_step ex_cipher ex_env (RemoveApiKey ''binance'') ex_backend_world)) \<and>
   get_exchange_client ex_cipher ex_env ''default'' ''binance''
     (snd (backend_step ex_cipher ex_env (RemoveApiKey ''binance'') ex_backend_world)) =
   (Inr ex_client, snd (backend_step ex_cipher ex_env (RemoveApiKey ''binance'') ex_backend_world))"
  using remove_api_key_stale_client [where w = ex_backend_world and e = "''binance''" and cl = ex_client
      and c = ex_cipher and env = ex_env and env' = ex_env
      and x = "fst (backend_step ex_cipher ex_env (RemoveApiKey ''binance'') ex_backend_world)"
      and w' = "snd (backend_step ex_cipher ex_env (RemoveApiKey ''binance'') ex_backend_world)"]
  by (simp add: ex_backend_world_eq default_user_def)

theorem history_endpoint_records_witness:
  "backend_step ex_cipher ex_env (GetUserAlertHistory 20) ex_backend_world =
     (Inr (RHistoryList [RHistory (HistSuccess ''c1'' ''BTC/USDT'' ''buy'' 0.01 None ''2024-01-01T00:00:00''
                               (Some ''o1'') (Some [(''id'', ''o1'')]))]), ex_backend_world) \<and>
   length [RHistory (HistSuccess ''c1'' ''BTC/USDT'' ''buy'' 0.01 None ''2024-01-01T00:00:00''
                               (Some ''o1'') (Some [(''id'', ''o1'')]))] \<le> 100"
proof -
  have st: "backend_step ex_cipher ex_env (GetUserAlertHistory 20) ex_backend_world =
     (Inr (RHistoryList [RHistory (HistSuccess ''c1'' ''BTC/USDT'' ''buy'' 0.01 None ''2024-01-01T00:00:00''
                               (Some ''o1'') (Some [(''id'', ''o1'')]))]), ex_backend_world)"
    by (simp add: ex_backend_world_eq get_user_alert_history_def get_alert_history_def history_pattern_def
        http_500_def pbind_def ret_def fetch_all_up default_user_def history_key_def api_key_key_def
        config_key_def List.map_filter_def)
  from history_endpoint_records [OF ex_backend_world_reachable st] st show ?thesis by simp
qed

end
