(* ===== verification/Refinement.thy ===== *)
theory Refinement
  imports Backend
begin

text \<open>
  The store of \<^verbatim>\<open>database.py\<close>, as the backend uses it, against the abstract
  interfaces of the specification (section 6): abstraction functions from Redis to the
  Configuration Store and the Credential Vault of the user \<^verbatim>\<open>"default"\<close>, a
  functional refinement of every request of \<open>backend_step\<close> against them
  (\<open>abs (step q w) = spec_step q (abs w)\<close>), and the configuration listing,
  which recovers names from keys, read against the stored configurations.
\<close>

section \<open>Abstractions\<close>

text \<open>The abstraction of Redis to the specification's Configuration Store of the user "default": a map from configuration names to configurations.\<close>

definition configs_of :: "redis \<Rightarrow> string \<rightharpoonup> stored_config" where
  "configs_of r n = (case map_of (r_data r) (config_key default_user n) of Some (RConfig cfg) \<Rightarrow> Some cfg | _ \<Rightarrow> None)"

text \<open>The abstraction to the Credential Vault of the user "default": a map from exchange names to decrypted key pairs.\<close>

definition vault_of :: "cipher \<Rightarrow> redis \<Rightarrow> string \<rightharpoonup> string \<times> string" where
  "vault_of c r e =
     (case map_of (r_data r) (api_key_key default_user e) of
        Some (RApiKeys a s) \<Rightarrow> (case (decrypt c a, decrypt c s) of (Some k, Some x) \<Rightarrow> Some (k, x) | _ \<Rightarrow> None)
      | _ \<Rightarrow> None)"

text \<open>What each request does to the abstract Configuration Store (section 6 of the specification: put, delete; everything else leaves it).\<close>

fun config_spec_step :: "request \<Rightarrow> (string \<rightharpoonup> stored_config) \<Rightarrow> (string \<rightharpoonup> stored_config)" where
  "config_spec_step (CreateAlertConfig cfg) m = m(name cfg \<mapsto> config_dict cfg)"
| "config_spec_step (RemoveConfig n) m = m(n := None)"
| "config_spec_step q m = m"

text \<open>What each request does to the abstract Credential Vault.\<close>

fun vault_spec_step :: "request \<Rightarrow> (string \<rightharpoonup> string \<times> string) \<Rightarrow> (string \<rightharpoonup> string \<times> string)" where
  "vault_spec_step (AddApiKey k) m = m(exchange_value (api_exchange k) \<mapsto> (api_key k, api_secret k))"
| "vault_spec_step (RemoveApiKey e) m = m(e := None)"
| "vault_spec_step q m = m"

text \<open>The requests whose handlers write to Redis.\<close>

definition writes_redis :: "request \<Rightarrow> bool" where
  "writes_redis q = (case q of AddApiKey _ \<Rightarrow> True | RemoveApiKey _ \<Rightarrow> True | CreateAlertConfig _ \<Rightarrow> True
     | RemoveConfig _ \<Rightarrow> True | Webhook _ _ \<Rightarrow> True | _ \<Rightarrow> False)"

section \<open>Lemmas\<close>

lemma alert_body_redis:
  assumes "alert_body c env alert now w = (x, w')"
  shows "w_redis w' = w_redis w \<or> (\<exists>h y. save_alert_history (user_id alert) h (w_redis w) = (y, w_redis w'))"
  using assms unfolding alert_body_def
  by (auto simp: as_config_def get_alert_config_def redis_get_def pbind_def
       split: prod.splits sum.splits option.splits rval.splits if_splits
       dest!: get_exchange_client_frame determine_quantity_frame execute_order_frame)

lemma save_alert_history_other_key:
  "save_alert_history u h r = (y, r') \<Longrightarrow> \<not> prefix ''alert:'' k \<Longrightarrow> map_of (r_data r') k = map_of (r_data r) k"
  by (auto simp: save_alert_history_def redis_set_def history_key_def update_conv' split: if_splits)

lemma process_alert_other_key:
  assumes "process_tradingview_alert c env alert now w = (x, w')" and "\<not> prefix ''alert:'' k"
  shows "map_of (r_data (w_redis w')) k = map_of (r_data (w_redis w)) k"
proof -
  obtain y wb where body: "alert_body c env alert now w = (y, wb)" by fastforce
  then have "map_of (r_data (w_redis wb)) k = map_of (r_data (w_redis w)) k"
    using assms(2) by (auto dest!: alert_body_redis save_alert_history_other_key)
  with body assms show ?thesis
    by (auto simp: process_tradingview_alert_def pbind_def split: sum.splits if_splits prod.splits
        dest: save_alert_history_other_key)
qed

lemma key_shapes_differ [simp]:
  "config_key u n \<noteq> api_key_key u e" "api_key_key u e \<noteq> config_key u n"
  "\<not> prefix ''alert:'' (config_key u n)" "\<not> prefix ''alert:'' (api_key_key u e)"
  "config_key u n = config_key u m \<longleftrightarrow> n = m" "api_key_key u e = api_key_key u f \<longleftrightarrow> e = f"
  by (simp_all add: config_key_def api_key_key_def)

lemma webhook_other_key:
  "backend_step c env (Webhook alert now) w = (x, w') \<Longrightarrow> \<not> prefix ''alert:'' k \<Longrightarrow>
   map_of (r_data (w_redis w')) k = map_of (r_data (w_redis w)) k"
  by (auto simp: pbind_def split: prod.splits sum.splits dest: process_alert_other_key)

lemma backend_step_readonly:
  assumes "backend_step c env q w = (x, w')" and "\<not> writes_redis q"
  shows "w_redis w' = w_redis w"
  using assms
  by (cases q) (auto simp: writes_redis_def read_root_def get_api_key_status_def get_config_def
      list_configs_def get_user_alert_history_def list_exchanges_def get_all_alert_configs_def
      get_alert_history_def ret_def raise_def pbind_def split: prod.splits if_splits sum.splits option.splits
      dest!: http_500_state reraise_500_state pbind_ret_state get_exchange_api_key_state
        get_alert_config_state collect_configs_state fetch_all_state redis_keys_state)

lemma spec_step_readonly:
  "\<not> writes_redis q \<Longrightarrow> config_spec_step q m = m" "\<not> writes_redis q \<Longrightarrow> vault_spec_step q v = v"
  by (cases q; simp add: writes_redis_def)+

lemmas write_endpoint_defs = add_api_key_def save_exchange_api_key_def remove_api_key_def
  delete_exchange_api_key_def create_alert_config_def save_alert_config_def remove_config_def
  delete_alert_config_def http_500_def pbind_def ret_def redis_delete_def update_conv' delete_conv'

text \<open>C21: On a Redis server that answers and accepts writes, every request changes the abstract configuration map exactly as the specification's Configuration Store operation it stands for: creation is a map update under the configuration's name, deletion removes the name, every other request (the webhook included) leaves the map unchanged.\<close>

theorem config_endpoints_refine_map:
  assumes "r_up (w_redis w)" and "\<not> r_oom (w_redis w)" and step: "backend_step c env q w = (x, w')"
  shows "configs_of (w_redis w') = config_spec_step q (configs_of (w_redis w))"
proof (cases "writes_redis q")
  case False
  with step show ?thesis by (simp add: backend_step_readonly spec_step_readonly)
next
  case True
  show ?thesis
  proof (cases q)
    case (Webhook alert now)
    with step have "\<forall>n. map_of (r_data (w_redis w')) (config_key default_user n) =
        map_of (r_data (w_redis w)) (config_key default_user n)"
      by (metis webhook_other_key key_shapes_differ(3))
    with Webhook show ?thesis by (simp add: configs_of_def fun_eq_iff)
  qed (use True assms in \<open>auto simp: writes_redis_def configs_of_def fun_eq_iff write_endpoint_defs\<close>)
qed

text \<open>C38: With a cipher whose decryption inverts its encryption, on a Redis server that accepts writes, every request changes the abstract credential vault exactly as the specification's Credential Vault operation it stands for: saving keys is a map update under the exchange's value, deletion removes the exchange, every other request leaves the vault unchanged.\<close>

theorem api_key_endpoints_refine_vault:
  assumes "\<forall>s. decrypt c (encrypt c s) = Some s"
    and "r_up (w_redis w)" and "\<not> r_oom (w_redis w)" and step: "backend_step c env q w = (x, w')"
  shows "vault_of c (w_redis w') = vault_spec_step q (vault_of c (w_redis w))"
proof (cases "writes_redis q")
  case False
  with step show ?thesis by (simp add: backend_step_readonly spec_step_readonly)
next
  case True
  show ?thesis
  proof (cases q)
    case (Webhook alert now)
    with step have "\<forall>e. map_of (r_data (w_redis w')) (api_key_key default_user e) =
        map_of (r_data (w_redis w)) (api_key_key default_user e)"
      by (metis webhook_other_key key_shapes_differ(4))
    with Webhook show ?thesis by (simp add: vault_of_def fun_eq_iff)
  qed (use True assms in \<open>auto simp: writes_redis_def vault_of_def fun_eq_iff write_endpoint_defs
        encrypt_data_def\<close>)
qed

lemma collect_configs_up:
  "r_up r \<Longrightarrow> collect_configs u ks r =
     (Inr (List.map_filter (\<lambda>k. let n = last (split_on CHR '':'' k) in
                           map_option (set_config_name n) (map_of (r_data r) (config_key u n))) ks), r)"
  by (induction ks) (auto simp: Let_def pbind_def ret_def get_alert_config_def List.map_filter_simps
      split: option.split)

lemma set_config_name_RConfig: "set_config_name n v = RConfig c \<Longrightarrow> name c = n"
  by (cases v) auto

lemma sep_not_in_last_split: "c \<notin> set (last (split_on c xs))"
  by (auto simp: last_split_on dest: set_takeWhileD)

text \<open>C25: Listing the configurations recovers each name from its Redis key as the part after the key's last colon: a configuration whose name contains a colon is stored and read back by its name, yet the listing of its user never contains a configuration of that name.\<close>

theorem listed_config_name:
  assumes "r_up r" and "map_of (r_data r) (config_key u n) = Some (RConfig cfg)" and "CHR '':'' \<in> set n"
  shows "get_alert_config u n r = (Inr (Some (RConfig cfg)), r) \<and>
         (\<exists>xs. get_all_alert_configs u r = (Inr xs, r) \<and> (\<forall>c. RConfig c \<in> set xs \<longrightarrow> name c \<noteq> n))"
proof
  show "get_alert_config u n r = (Inr (Some (RConfig cfg)), r)"
    using assms(1,2) by (simp add: get_alert_config_def)
next
  let ?f = "\<lambda>k. let m = last (split_on CHR '':'' k) in
              map_option (set_config_name m) (map_of (r_data r) (config_key u m))"
  let ?ks = "filter (glob_match (config_pattern u)) (map fst (r_data r))"
  have "get_all_alert_configs u r = (Inr (List.map_filter ?f ?ks), r)"
    using assms(1) by (simp add: get_all_alert_configs_def pbind_def collect_configs_up)
  moreover have "name c \<noteq> n" if "RConfig c \<in> set (List.map_filter ?f ?ks)" for c
  proof -
    from that obtain k where "?f k = Some (RConfig c)" by (auto simp: List.map_filter_def)
    then have "name c = last (split_on CHR '':'' k)" by (auto simp: Let_def dest: set_config_name_RConfig)
    with assms(3) sep_not_in_last_split show ?thesis by metis
  qed
  ultimately show "\<exists>xs. get_all_alert_configs u r = (Inr xs, r) \<and> (\<forall>c. RConfig c \<in> set xs \<longrightarrow> name c \<noteq> n)"
    by blast
qed

section \<open>Witnesses\<close>

theorem config_endpoints_refine_map_witness:
  "configs_of (w_redis (snd (backend_step ex_cipher ex_env (RemoveConfig ''c1'') ex_backend_world))) =
   (configs_of (w_redis ex_backend_world))(''c1'' := None) \<and>
   configs_of (w_redis ex_backend_world) ''c1'' = Some ex_cfg"
proof -
  have "configs_of (w_redis (snd (backend_step ex_cipher ex_env (RemoveConfig ''c1'') ex_backend_world))) =
     config_spec_step (RemoveConfig ''c1'') (configs_of (w_redis ex_backend_world))"
    by (rule config_endpoints_refine_map [where x = "fst (backend_step ex_cipher ex_env (RemoveConfig ''c1'') ex_backend_world)"])
       (simp_all add: ex_backend_world_eq)
  moreover have "configs_of (w_redis ex_backend_world) ''c1'' = Some ex_cfg"
    by (simp add: ex_backend_world_eq configs_of_def default_user_def config_key_def api_key_key_def)
  ultimately show ?thesis by simp
qed

theorem api_key_endpoints_refine_vault_witness:
  "vault_of ex_cipher (w_redis (snd (backend_step ex_cipher ex_env (AddApiKey ex_api_key) (init_world True False)))) =
   [''binance'' \<mapsto> (''k'', ''s'')]"
proof -
  have "vault_of ex_cipher (w_redis (snd (backend_step ex_cipher ex_env (AddApiKey ex_api_key) (init_world True False)))) =
     vault_spec_step (AddApiKey ex_api_key) (vault_of ex_cipher (w_redis (init_world True False)))"
    by (rule api_key_endpoints_refine_vault [where x = "fst (backend_step ex_cipher ex_env (AddApiKey ex_api_key) (init_world True False))"])
       (simp_all add: ex_cipher_def init_world_def)
  moreover have "vault_of ex_cipher (w_redis (init_world True False)) = Map.empty"
    by (simp add: vault_of_def fun_eq_iff init_world_def)
  ultimately show ?thesis by (simp add: ex_api_key_def)
qed

theorem listed_config_name_witness:
  "get_alert_config ''default'' ''a:b''
     \<lparr>r_data = [(config_key ''default'' ''a:b'', RConfig (ex_cfg\<lparr>name := ''a:b''\<rparr>))], r_up = True, r_oom = False\<rparr> =
   (Inr (Some (RConfig (ex_cfg\<lparr>name := ''a:b''\<rparr>))),
    \<lparr>r_data = [(config_key ''default'' ''a:b'', RConfig (ex_cfg\<lparr>name := ''a:b''\<rparr>))], r_up = True, r_oom = False\<rparr>) \<and>
   (\<exists>xs. get_all_alert_configs ''default''
      \<lparr>r_data = [(config_key ''default'' ''a:b'', RConfig (ex_cfg\<lparr>name := ''a:b''\<rparr>))], r_up = True, r_oom = False\<rparr> =
      (Inr xs, \<lparr>r_data = [(config_key ''default'' ''a:b'', RConfig (ex_cfg\<lparr>name := ''a:b''\<rparr>))], r_up = True, r_oom = False\<rparr>) \<and>
      (\<forall>c. RConfig c \<in> set xs \<longrightarrow> name c \<noteq> ''a:b''))"
  by (rule listed_config_name [where cfg = "ex_cfg\<lparr>name := ''a:b''\<rparr>"]) simp_all

end
