(* ===== verification/Routing.thy ===== *)
theory Routing
  imports Refinement
begin

text \<open>
  How an HTTP call reaches a handler of \<^verbatim>\<open>src/bridge/backend/app/main.py\<close>.  The
  client (\<^verbatim>\<open>httpx\<close>) takes the path of a URL up to the first \<^verbatim>\<open>?\<close> or
  \<^verbatim>\<open>#\<close>; what follows is the query or the fragment.  It percent-encodes the other
  characters that a path cannot carry and leaves valid escapes \<^verbatim>\<open>%XX\<close> as they are;
  the server (uvicorn) decodes the escapes again, so the path the router sees is the
  percent-decoding of the path the client was given.  FastAPI (Starlette) matches that
  path against the routes the \<^verbatim>\<open>@app\<close> decorators declare: a literal route by
  equality, a route with a path parameter \<^verbatim>\<open>{name}\<close> by one non-empty segment
  without \<^verbatim>\<open>/\<close>.  A path whose route does not accept the method is answered 405, a
  body that fails pydantic validation 422.  A path no route matches is redirected (307)
  when the same path with its trailing slashes removed, or with a slash appended if it
  has none, matches a route (Starlette's \<^verbatim>\<open>redirect_slashes\<close>, which \<^verbatim>\<open>httpx\<close>
  does not follow); otherwise it is answered 404.  The \<^verbatim>\<open>limit\<close> query parameter of
  the history route defaults to 20.  JSON bodies are given as typed values; the
  validation of the configuration and API key bodies is the one of theory \<open>Models\<close>.
  Escapes of bytes above 0x7F, which Python decodes as UTF-8, are taken as single
  characters.
\<close>

section \<open>Requests on the wire\<close>

datatype http_method = GET | POST | DELETE

datatype http_body =
    NoBody
  | ApiKeyBody string string string
  | ConfigBody stored_config
  | AlertBody TradingViewAlertModel

datatype routed = Handler request | NoRoute nat string

text \<open>The path \<^verbatim>\<open>httpx\<close> sends for a URL path with an interpolated query or fragment.\<close>

definition url_path :: "string \<Rightarrow> string" where
  "url_path u = takeWhile (\<lambda>ch. ch \<noteq> CHR ''?'' \<and> ch \<noteq> CHR ''#'') u"

definition hex_digit :: "char \<Rightarrow> nat option" where
  "hex_digit ch =
     (let n = of_char ch :: nat in
      if 0x30 \<le> n \<and> n \<le> 0x39 then Some (n - 0x30)
      else if 0x41 \<le> n \<and> n \<le> 0x46 then Some (n - 0x37)
      else if 0x61 \<le> n \<and> n \<le> 0x66 then Some (n - 0x57)
      else None)"

text \<open>\<^verbatim>\<open>urllib.parse.unquote\<close> as the server applies it to the path: one pass, invalid escapes kept.\<close>

fun percent_decode :: "string \<Rightarrow> string" where
  "percent_decode (ch # a # b # s) =
     (if ch = CHR ''%'' \<and> hex_digit a \<noteq> None \<and> hex_digit b \<noteq> None
      then char_of (16 * the (hex_digit a) + the (hex_digit b)) # percent_decode s
      else ch # percent_decode (a # b # s))"
| "percent_decode s = s"

text \<open>The path the router matches for a URL the client was given.\<close>

definition server_path :: "string \<Rightarrow> string" where
  "server_path u = percent_decode (url_path u)"

definition not_found :: routed where
  "not_found = NoRoute 404 ''Not Found''"

definition method_not_allowed :: routed where
  "method_not_allowed = NoRoute 405 ''Method Not Allowed''"

definition unprocessable :: routed where
  "unprocessable = NoRoute 422 ''Unprocessable Entity''"

definition temporary_redirect :: routed where
  "temporary_redirect = NoRoute 307 ''Temporary Redirect''"

text \<open>A route \<^verbatim>\<open>/a/b/{p}\<close>: the parameter, when the path is the prefix and one more segment.\<close>

definition path_param :: "string list \<Rightarrow> string list \<Rightarrow> string option" where
  "path_param pre sg =
     (if length sg = Suc (length pre) \<and> take (length pre) sg = pre \<and> last sg \<noteq> [] then Some (last sg)
      else None)"

text \<open>The route table of \<^verbatim>\<open>main.py\<close>, in the order of its decorators.\<close>

definition match_route :: "string \<Rightarrow> http_method \<Rightarrow> string \<Rightarrow> nat option \<Rightarrow> http_body \<Rightarrow> routed" where
  "match_route now m path limit body =
     (let sg = split_on CHR ''/'' path in
      if sg = [[], []] then (if m = GET then Handler ReadRoot else method_not_allowed)
      else if sg = [[], ''api'', ''keys''] then
        (if m \<noteq> POST then method_not_allowed
         else case body of
           ApiKeyBody e k s \<Rightarrow> (case parse_api_key_body e k s of Some a \<Rightarrow> Handler (AddApiKey a) | None \<Rightarrow> unprocessable)
         | _ \<Rightarrow> unprocessable)
      else if path_param [[], ''api'', ''keys''] sg \<noteq> None then
        (if m = GET then Handler (GetApiKeyStatus (the (path_param [[], ''api'', ''keys''] sg)))
         else if m = DELETE then Handler (RemoveApiKey (the (path_param [[], ''api'', ''keys''] sg)))
         else method_not_allowed)
      else if sg = [[], ''api'', ''config''] then
        (if m = POST then
           (case body of
              ConfigBody d \<Rightarrow> (case parse_config_body d of Some cfg \<Rightarrow> Handler (CreateAlertConfig cfg) | None \<Rightarrow> unprocessable)
            | _ \<Rightarrow> unprocessable)
         else if m = GET then Handler ListConfigs
         else method_not_allowed)
      else if path_param [[], ''api'', ''config''] sg \<noteq> None then
        (if m = GET then Handler (GetConfig (the (path_param [[], ''api'', ''config''] sg)))
         else if m = DELETE then Handler (RemoveConfig (the (path_param [[], ''api'', ''config''] sg)))
         else method_not_allowed)
      else if sg = [[], ''webhook'', ''tradingview''] then
        (if m \<noteq> POST then method_not_allowed
         else case body of AlertBody a \<Rightarrow> Handler (Webhook a now) | _ \<Rightarrow> unprocessable)
      else if sg = [[], ''api'', ''history''] then
        (if m = GET then Handler (GetUserAlertHistory (case limit of None \<Rightarrow> 20 | Some l \<Rightarrow> l))
         else method_not_allowed)
      else if sg = [[], ''api'', ''exchanges''] then
        (if m = GET then Handler ListExchanges else method_not_allowed)
      else not_found)"

text \<open>The path Starlette tries when none matches: trailing slashes stripped, or one appended.\<close>

definition redirect_path :: "string \<Rightarrow> string" where
  "redirect_path p =
     (if p \<noteq> [] \<and> last p = CHR ''/'' then rev (dropWhile (\<lambda>ch. ch = CHR ''/'') (rev p)) else p @ ''/'')"

definition route :: "string \<Rightarrow> http_method \<Rightarrow> string \<Rightarrow> nat option \<Rightarrow> http_body \<Rightarrow> routed" where
  "route now m path limit body =
     (let r = match_route now m path limit body in
      if r = not_found \<and> path \<noteq> ''/'' \<and> match_route now m (redirect_path path) limit body \<noteq> not_found
      then temporary_redirect else r)"


section \<open>Lemmas\<close>

subsection \<open>Paths\<close>

lemma url_path_plain [simp]: "CHR ''?'' \<notin> set u \<Longrightarrow> CHR ''#'' \<notin> set u \<Longrightarrow> url_path u = u"
  by (auto simp: url_path_def takeWhile_eq_all_conv)

lemma percent_decode_Cons: "ch \<noteq> CHR ''%'' \<Longrightarrow> percent_decode (ch # s) = ch # percent_decode s"
  by (cases s rule: percent_decode.cases) auto

lemma percent_decode_append: "CHR ''%'' \<notin> set p \<Longrightarrow> percent_decode (p @ s) = p @ percent_decode s"
proof (induction p)
  case (Cons a p)
  then have "a \<noteq> CHR ''%''" by auto
  with Cons show ?case by (simp del: percent_decode.simps add: percent_decode_Cons)
qed simp

lemma percent_decode_plain [simp]: "CHR ''%'' \<notin> set s \<Longrightarrow> percent_decode s = s"
  using percent_decode_append [of s "[]"] by simp

lemma server_path_plain [simp]:
  "CHR ''?'' \<notin> set u \<Longrightarrow> CHR ''#'' \<notin> set u \<Longrightarrow> CHR ''%'' \<notin> set u \<Longrightarrow> server_path u = u"
  by (simp add: server_path_def)


lemma path_param_last:
  "x \<noteq> [] \<Longrightarrow> path_param pre (pre @ [x]) = Some x"
  by (simp add: path_param_def)

subsection \<open>Routes\<close>

lemma route_matched:
  "match_route now m p l b \<noteq> not_found \<Longrightarrow> route now m p l b = match_route now m p l b"
  by (simp add: route_def Let_def)

lemma route_Handler:
  "route now m p l b = Handler q \<Longrightarrow> match_route now m p l b = Handler q"
  by (auto simp: route_def Let_def temporary_redirect_def split: if_splits)

lemmas routed_defs = not_found_def method_not_allowed_def unprocessable_def temporary_redirect_def

text \<open>The routes of the paths the front end calls.\<close>

lemma route_literal [simp]:
  "route now m ''/'' l b = (if m = GET then Handler ReadRoot else method_not_allowed)"
  "route now m ''/api/exchanges'' l b = (if m = GET then Handler ListExchanges else method_not_allowed)"
  "route now GET ''/api/config'' l b = Handler ListConfigs"
  "route now GET ''/api/history'' l b = Handler (GetUserAlertHistory (case l of None \<Rightarrow> 20 | Some x \<Rightarrow> x))"
  "route now POST ''/api/config'' l (ConfigBody d) =
     (case parse_config_body d of Some cfg \<Rightarrow> Handler (CreateAlertConfig cfg) | None \<Rightarrow> unprocessable)"
  "route now POST ''/api/keys'' l (ApiKeyBody e k s) =
     (case parse_api_key_body e k s of Some a \<Rightarrow> Handler (AddApiKey a) | None \<Rightarrow> unprocessable)"
  by (simp_all add: route_def match_route_def path_param_def routed_defs split: option.split)





text \<open>No route of \<^verbatim>\<open>main.py\<close> answers a GET by changing Redis, and only DELETE routes delete.\<close>

lemma route_GET_readonly:
  "route now GET path limit body = Handler q \<Longrightarrow> \<not> writes_redis q"
  by (drule route_Handler)
     (auto simp: match_route_def Let_def writes_redis_def routed_defs
      split: if_splits http_body.splits option.splits)

lemma route_delete_method:
  "route now m path limit body = Handler q \<Longrightarrow> (q = RemoveApiKey e \<or> q = RemoveConfig n) \<Longrightarrow> m = DELETE"
  by (drule route_Handler)
     (auto simp: match_route_def Let_def routed_defs split: if_splits http_body.splits option.splits)


section \<open>Witnesses\<close>


end
