(* ===== verification/Frontend.thy ===== *)
theory Frontend
  imports Routing "HOL-Library.State_Monad"
begin

text \<open>
  The Streamlit front end, \<^verbatim>\<open>src/bridge/frontend/app/main.py\<close>.  Streamlit runs the
  whole script again after every interaction; a run renders one page of the sidebar
  and talks to the backend through \<^verbatim>\<open>httpx\<close>.  A run is a computation of the
  state monad of HOL-Library over \<open>fe_state\<close>: the backend's \<open>world\<close> and whether the backend can be
  reached (every HTTP call goes by method, path and body through the router of theory
  \<open>Routing\<close> to one \<open>backend_step\<close>), the widget interaction that triggered the run,
  the checkboxes shown and checked in the previous and in this run, the messages put on
  the screen and the log of the requests sent.  Streamlit's widget semantics are
  modelled from its documentation: a button is true only in the run its click
  triggers; a form's submit button likewise; a checkbox keeps its value only while it is
  shown in consecutive runs and starts unchecked otherwise.  The values of text inputs,
  select boxes, number inputs and sliders are inputs of a run, constrained by the
  widgets' options and bounds (\<open>form_widgets_ok\<close>, \<open>limit_slider_ok\<close>).
\<close>

section \<open>Screen and widgets\<close>

datatype wkey = Key string | KeyIdx string nat

datatype event = NoEvent | Click wkey | Toggle wkey | Submit string

text \<open>A cell of a table: a string, a number, JSON null, or the default \<^verbatim>\<open>"N/A"\<close>.\<close>

datatype cell = CStr string | CNum real | CNull | CNA

record history_row =
  hr_timestamp :: string
  hr_config :: string
  hr_symbol :: cell
  hr_side :: cell
  hr_price :: cell
  hr_status :: string
  hr_message :: cell

datatype ui =
    UISuccess string
  | UIError string
  | UIApiError nat string
  | UIInfo string
  | UIExchangeTable "(string \<times> bool \<times> string option) list"
  | UIConfig rval
  | UIHistoryTable "history_row list"
  | UIRecord rval
  | UIConnectionError

record fe_state =
  fe_world :: world
  fe_online :: bool
  fe_event :: event
  fe_prev :: "wkey set"
  fe_next :: "wkey set"
  fe_ui :: "ui list"
  fe_sent :: "request list"

type_synonym 'a fe = "(fe_state, 'a) state"

definition button :: "wkey \<Rightarrow> bool fe" where
  "button k = State (\<lambda>s. (fe_event s = Click k, s))"

definition form_submit :: "string \<Rightarrow> bool fe" where
  "form_submit f = State (\<lambda>s. (fe_event s = Submit f, s))"

definition checkbox :: "wkey \<Rightarrow> bool fe" where
  "checkbox k = State (\<lambda>s.
     let v = (if fe_event s = Toggle k then k \<notin> fe_prev s else k \<in> fe_prev s)
     in (v, s\<lparr>fe_next := (if v then insert k (fe_next s) else fe_next s)\<rparr>))"

definition emit :: "ui \<Rightarrow> unit fe" where
  "emit m = State_Monad.update (\<lambda>s. s\<lparr>fe_ui := fe_ui s @ [m]\<rparr>)"

text \<open>A new run: the checkboxes not shown in the last run have lost their state.\<close>

definition start_run :: "event \<Rightarrow> fe_state \<Rightarrow> fe_state" where
  "start_run ev s = s\<lparr>fe_event := ev, fe_prev := fe_next s, fe_next := {}\<rparr>"

section \<open>HTTP client\<close>

text \<open>The status code of the backend's answer: an escaping \<open>HTTPException\<close> gives its code, any other exception 500.\<close>

definition status_code :: "exc + response \<Rightarrow> nat" where
  "status_code x = (case x of Inr _ \<Rightarrow> 200 | Inl (HTTPException c _) \<Rightarrow> c | Inl _ \<Rightarrow> 500)"

text \<open>
  One HTTP call to the backend: no answer (\<^verbatim>\<open>httpx\<close> raises) when the backend
  cannot be reached; otherwise the router's answer for a path no handler takes, or the
  answer of the handler the path and body select.  The front end never calls the webhook,
  so the clock the router passes to it is irrelevant.
\<close>

definition send ::
  "cipher \<Rightarrow> ccxt \<Rightarrow> http_method \<Rightarrow> string \<Rightarrow> nat option \<Rightarrow> http_body \<Rightarrow> (exc + response) option fe" where
  "send c env m url limit body = State (\<lambda>s. if \<not> fe_online s then (None, s)
     else case route [] m (server_path url) limit body of
       NoRoute code msg \<Rightarrow> (Some (Inl (HTTPException code msg)), s)
     | Handler q \<Rightarrow> (case backend_step c env q (fe_world s) of
         (x, w') \<Rightarrow> (Some x, s\<lparr>fe_world := w', fe_sent := fe_sent s @ [q]\<rparr>)))"

definition api_call :: "nat list \<Rightarrow> (exc + response) option fe \<Rightarrow> response option fe" where
  "api_call ok m = do {
     a \<leftarrow> m;
     case a of
       None \<Rightarrow> do { emit UIConnectionError; State_Monad.return None }
     | Some x \<Rightarrow>
         if status_code x \<in> set ok then State_Monad.return (case x of Inr r \<Rightarrow> Some r | Inl _ \<Rightarrow> None)
         else do {
           emit (UIApiError (status_code x) (case x of Inl e \<Rightarrow> exc_str e | Inr _ \<Rightarrow> []));
           State_Monad.return None
         }
   }"

definition api_get :: "(exc + response) option fe \<Rightarrow> response option fe" where
  "api_get m = api_call [200] m"

definition api_post :: "(exc + response) option fe \<Rightarrow> response option fe" where
  "api_post m = api_call [200, 201] m"

definition api_delete :: "(exc + response) option fe \<Rightarrow> response option fe" where
  "api_delete m = api_call [200, 204] m"

section \<open>Reading responses\<close>

text \<open>\<^verbatim>\<open>result and result.get("success")\<close>.\<close>

definition result_success :: "response option \<Rightarrow> bool" where
  "result_success r = (case r of Some (RSaved b _) \<Rightarrow> b | Some (RDeleted b) \<Rightarrow> b | _ \<Rightarrow> False)"

definition exchanges_of :: "response option \<Rightarrow> string list" where
  "exchanges_of r = (case r of Some (RExchanges es) \<Rightarrow> es | _ \<Rightarrow> [])"

definition upper_char :: "char \<Rightarrow> char" where
  "upper_char ch = (if CHR ''a'' \<le> ch \<and> ch \<le> CHR ''z'' then char_of (of_char ch - 32 :: nat) else ch)"

definition lower_char :: "char \<Rightarrow> char" where
  "lower_char ch = (if CHR ''A'' \<le> ch \<and> ch \<le> CHR ''Z'' then char_of (of_char ch + 32 :: nat) else ch)"

text \<open>Python's \<^verbatim>\<open>str.capitalize\<close> on ASCII strings.\<close>

fun capitalize :: "string \<Rightarrow> string" where
  "capitalize [] = []"
| "capitalize (ch # cs) = upper_char ch # map lower_char cs"

definition status_row :: "string \<Rightarrow> response \<Rightarrow> string \<times> bool \<times> string option" where
  "status_row e st = (let has = (case st of RHasKeys b \<Rightarrow> b | _ \<Rightarrow> False)
                      in (capitalize e, has, if has then Some e else None))"

section \<open>Exchange API Keys page\<close>

record keys_inputs =
  ki_exchange :: string
  ki_key :: string
  ki_secret :: string
  ki_delete :: "string option"

definition save_keys_form :: "cipher \<Rightarrow> ccxt \<Rightarrow> keys_inputs \<Rightarrow> unit fe" where
  "save_keys_form c env inp = do {
     submitted \<leftarrow> form_submit ''api_key_form'';
     if \<not> submitted then State_Monad.return ()
     else if ki_key inp \<noteq> [] \<and> ki_secret inp \<noteq> [] then do {
       result \<leftarrow> api_post (send c env POST ''/api/keys'' None
                   (ApiKeyBody (ki_exchange inp) (ki_key inp) (ki_secret inp)));
       emit (if result_success result then UISuccess (''API keys saved for '' @ ki_exchange inp)
             else UIError ''Failed to save API keys'')
     }
     else emit (UIError ''API Key and Secret are required'')
   }"

definition exchange_status :: "cipher \<Rightarrow> ccxt \<Rightarrow> string list \<Rightarrow> (string \<times> bool \<times> string option) list fe" where
  "exchange_status c env es = do {
     st \<leftarrow> traverse_list (\<lambda>e. do { r \<leftarrow> api_get (send c env GET (''/api/keys/'' @ e) None NoBody);
                                  State_Monad.return (map_option (status_row e) r) }) es;
     State_Monad.return (List.map_filter id st)
   }"

definition delete_keys :: "cipher \<Rightarrow> ccxt \<Rightarrow> string option \<Rightarrow> unit fe" where
  "delete_keys c env del = (case del of None \<Rightarrow> State_Monad.return () | Some d \<Rightarrow> do {
     clicked \<leftarrow> button (Key ''Delete API Keys'');
     if \<not> clicked then State_Monad.return () else do {
       confirm \<leftarrow> checkbox (Key ''Confirm deletion'');
       if \<not> confirm then State_Monad.return () else do {
         result \<leftarrow> api_delete (send c env DELETE (''/api/keys/'' @ d) None NoBody);
         emit (if result_success result then UISuccess (''API keys for '' @ d @ '' deleted'')
               else UIError (''Failed to delete API keys for '' @ d))
       }
     }
   })"

definition show_api_keys :: "cipher \<Rightarrow> ccxt \<Rightarrow> keys_inputs \<Rightarrow> unit fe" where
  "show_api_keys c env inp = do {
     exs \<leftarrow> api_get (send c env GET ''/api/exchanges'' None NoBody);
     if exchanges_of exs = [] then emit (UIError ''Could not fetch supported exchanges'') else do {
       save_keys_form c env inp;
       refresh \<leftarrow> button (Key ''Refresh'');
       (if refresh then emit (UIInfo ''Refreshing exchange status...'') else State_Monad.return ());
       rows \<leftarrow> exchange_status c env (exchanges_of exs);
       if rows = [] then emit (UIInfo ''No exchanges configured yet'') else do {
         emit (UIExchangeTable rows);
         delete_keys c env (ki_delete inp)
       }
     }
   }"

section \<open>Alert Configurations page\<close>

text \<open>The values of the form's widgets (lines 208--232).\<close>

record config_form =
  cf_name :: string
  cf_exchange :: string
  cf_symbol :: string
  cf_order_type :: string
  cf_position_side :: string
  cf_use_percentage :: bool
  cf_percentage_input :: nat
  cf_quantity_input :: real
  cf_price_input :: real
  cf_description :: string

definition form_widgets_ok :: "string list \<Rightarrow> config_form \<Rightarrow> bool" where
  "form_widgets_ok es f \<longleftrightarrow>
     cf_exchange f \<in> set es \<and>
     cf_order_type f \<in> set [''market'', ''limit'', ''stop_loss'', ''take_profit''] \<and>
     cf_position_side f \<in> set [''long'', ''short''] \<and>
     1 \<le> cf_percentage_input f \<and> cf_percentage_input f \<le> 100 \<and>
     0 \<le> cf_quantity_input f \<and> 0 \<le> cf_price_input f"

definition form_quantity_percentage :: "config_form \<Rightarrow> real option" where
  "form_quantity_percentage f = (if cf_use_percentage f then Some (real (cf_percentage_input f)) else None)"

definition form_quantity :: "config_form \<Rightarrow> real option" where
  "form_quantity f = (if cf_use_percentage f then None else Some (cf_quantity_input f))"

definition form_price :: "config_form \<Rightarrow> real option" where
  "form_price f = (if cf_order_type f \<noteq> ''market'' then Some (cf_price_input f) else None)"

definition config_data :: "config_form \<Rightarrow> stored_config" where
  "config_data f =
     (let base = \<lparr>name = cf_name f, exchange = cf_exchange f, symbol = cf_symbol f,
                  order_type = cf_order_type f, position_side = cf_position_side f,
                  quantity = None, quantity_percentage = None, price = None,
                  stop_loss = None, take_profit = None, description = Some (cf_description f)\<rparr>;
          with_q = (if cf_use_percentage f \<and> truthy (form_quantity_percentage f)
                    then base\<lparr>quantity_percentage := form_quantity_percentage f\<rparr>
                    else if truthy (form_quantity f) then base\<lparr>quantity := form_quantity f\<rparr>
                    else base)
      in if truthy (form_price f) then with_q\<lparr>price := form_price f\<rparr> else with_q)"

definition save_config_form :: "cipher \<Rightarrow> ccxt \<Rightarrow> config_form \<Rightarrow> unit fe" where
  "save_config_form c env f = do {
     submitted \<leftarrow> form_submit ''config_form'';
     if \<not> submitted then State_Monad.return ()
     else if cf_name f = [] \<or> cf_symbol f = [] then emit (UIError ''Name and Symbol are required'')
     else do {
       result \<leftarrow> api_post (send c env POST ''/api/config'' None (ConfigBody (config_data f)));
       emit (if result_success result then UISuccess (''Alert configuration '' @ cf_name f @ '' saved'')
             else UIError ''Failed to save alert configuration'')
     }
   }"

definition configs_of_response :: "response option \<Rightarrow> rval list" where
  "configs_of_response r = (case r of Some (RConfigList cs) \<Rightarrow> cs | _ \<Rightarrow> [])"

definition listed_name :: "rval \<Rightarrow> string" where
  "listed_name v = (case v of RConfig cfg \<Rightarrow> name cfg | _ \<Rightarrow> [])"

definition config_entry :: "cipher \<Rightarrow> ccxt \<Rightarrow> nat \<times> rval \<Rightarrow> unit fe" where
  "config_entry c env ic = (case ic of (idx, v) \<Rightarrow> do {
     emit (UIConfig v);
     clicked \<leftarrow> button (KeyIdx ''delete_'' idx);
     if \<not> clicked then State_Monad.return () else do {
       confirm \<leftarrow> checkbox (KeyIdx ''confirm_'' idx);
       if \<not> confirm then State_Monad.return () else do {
         result \<leftarrow> api_delete (send c env DELETE (''/api/config/'' @ listed_name v) None NoBody);
         emit (if result_success result then UISuccess (''Configuration '' @ listed_name v @ '' deleted'')
               else UIError (''Failed to delete configuration '' @ listed_name v))
       }
     }
   })"

definition manage_configs :: "cipher \<Rightarrow> ccxt \<Rightarrow> unit fe" where
  "manage_configs c env = do {
     refresh \<leftarrow> button (Key ''Refresh'');
     (if refresh then emit (UIInfo ''Refreshing configurations...'') else State_Monad.return ());
     configs \<leftarrow> api_get (send c env GET ''/api/config'' None NoBody);
     if configs_of_response configs = [] then emit (UIInfo ''No alert configurations found'')
     else do { traverse_list (config_entry c env) (enumerate 0 (configs_of_response configs)); State_Monad.return () }
   }"

definition show_alert_configs :: "cipher \<Rightarrow> ccxt \<Rightarrow> config_form \<Rightarrow> unit fe" where
  "show_alert_configs c env f = do {
     exs \<leftarrow> api_get (send c env GET ''/api/exchanges'' None NoBody);
     if exchanges_of exs = [] then emit (UIError ''Could not fetch supported exchanges'') else do {
       save_config_form c env f;
       manage_configs c env
     }
   }"

section \<open>Alert History page\<close>

definition history_row_of :: "rval \<Rightarrow> history_row" where
  "history_row_of v = (case v of
      RHistory (HistSuccess cn sy sd q p ts oid det) \<Rightarrow>
        \<lparr>hr_timestamp = ts, hr_config = cn, hr_symbol = CStr sy, hr_side = CStr sd,
         hr_price = (case p of None \<Rightarrow> CNull | Some x \<Rightarrow> CNum x), hr_status = ''Success'', hr_message = CNA\<rparr>
    | RHistory (HistFailure cn ts msg) \<Rightarrow>
        \<lparr>hr_timestamp = ts, hr_config = cn, hr_symbol = CNA, hr_side = CNA, hr_price = CNA,
         hr_status = ''Failed'', hr_message = CStr msg\<rparr>
    | _ \<Rightarrow> \<lparr>hr_timestamp = [], hr_config = [], hr_symbol = CNA, hr_side = CNA, hr_price = CNA,
             hr_status = ''Failed'', hr_message = CNA\<rparr>)"

definition history_of_response :: "response option \<Rightarrow> rval list" where
  "history_of_response r = (case r of Some (RHistoryList hs) \<Rightarrow> hs | _ \<Rightarrow> [])"

text \<open>\<^verbatim>\<open>st.slider(min_value=5, max_value=100, value=20, step=5)\<close>.\<close>

definition limit_slider_ok :: "nat \<Rightarrow> bool" where
  "limit_slider_ok l \<longleftrightarrow> 5 \<le> l \<and> l \<le> 100 \<and> l mod 5 = 0"

definition show_alert_history :: "cipher \<Rightarrow> ccxt \<Rightarrow> nat \<Rightarrow> nat \<Rightarrow> unit fe" where
  "show_alert_history c env limit sel = do {
     refresh \<leftarrow> button (Key ''Refresh'');
     (if refresh then emit (UIInfo ''Refreshing alert history...'') else State_Monad.return ());
     history \<leftarrow> api_get (send c env GET ''/api/history'' (Some limit) NoBody);
     let hs = history_of_response history;
     if hs = [] then emit (UIInfo ''No alert history found'') else do {
       emit (UIHistoryTable (map history_row_of hs));
       if sel < length hs then emit (UIRecord (hs ! sel)) else State_Monad.return ()
     }
   }"

section \<open>Dashboard and navigation\<close>

definition show_dashboard :: "cipher \<Rightarrow> ccxt \<Rightarrow> unit fe" where
  "show_dashboard c env = do {
     st \<leftarrow> api_get (send c env GET ''/'' None NoBody);
     emit (if st \<noteq> None then UISuccess ''Backend API is connected and running''
           else UIError ''Backend API connection failed'')
   }"

datatype page = Dashboard | ExchangeApiKeys | AlertConfigurations | AlertHistory | Documentation

record ui_inputs =
  in_keys :: keys_inputs
  in_form :: config_form
  in_limit :: nat
  in_selected :: nat

fun render :: "cipher \<Rightarrow> ccxt \<Rightarrow> page \<Rightarrow> ui_inputs \<Rightarrow> unit fe" where
  "render c env Dashboard inp = show_dashboard c env"
| "render c env ExchangeApiKeys inp = show_api_keys c env (in_keys inp)"
| "render c env AlertConfigurations inp = show_alert_configs c env (in_form inp)"
| "render c env AlertHistory inp = show_alert_history c env (in_limit inp) (in_selected inp)"
| "render c env Documentation inp = State_Monad.return ()"

definition app_run :: "cipher \<Rightarrow> ccxt \<Rightarrow> page \<Rightarrow> ui_inputs \<Rightarrow> event \<Rightarrow> fe_state \<Rightarrow> fe_state" where
  "app_run c env p inp ev s = snd (run_state (render c env p inp) (start_run ev s))"

fun app_session :: "cipher \<Rightarrow> (ccxt \<times> page \<times> ui_inputs \<times> event) list \<Rightarrow> fe_state \<Rightarrow> fe_state" where
  "app_session c [] s = s"
| "app_session c ((env, p, inp, ev) # runs) s = app_session c runs (app_run c env p inp ev s)"

section \<open>Invariants of runs\<close>

fun is_delete_request :: "request \<Rightarrow> bool" where
  "is_delete_request (RemoveApiKey _) = True"
| "is_delete_request (RemoveConfig _) = True"
| "is_delete_request _ = False"

fun is_confirm_key :: "wkey \<Rightarrow> bool" where
  "is_confirm_key (Key s) = (s = ''Confirm deletion'')"
| "is_confirm_key (KeyIdx s i) = (s = ''confirm_'')"

definition no_confirm :: "wkey set \<Rightarrow> bool" where
  "no_confirm K \<longleftrightarrow> (\<forall>k\<in>K. \<not> is_confirm_key k)"

text \<open>A part of a run that neither sends a deletion nor leaves a confirmation box checked.\<close>

definition calm :: "'a fe \<Rightarrow> bool" where
  "calm m \<longleftrightarrow> (\<forall>s. no_confirm (fe_prev s) \<longrightarrow>
     (let s' = snd (run_state m s) in
        filter is_delete_request (fe_sent s') = filter is_delete_request (fe_sent s) \<and>
        fe_prev s' = fe_prev s \<and> fe_event s' = fe_event s \<and>
        (no_confirm (fe_next s) \<longrightarrow> no_confirm (fe_next s'))))"

text \<open>A part of a run that, when no button was clicked, leaves Redis as it is.\<close>

definition keeps_redis :: "'a fe \<Rightarrow> bool" where
  "keeps_redis m \<longleftrightarrow> (\<forall>s. (\<forall>k. fe_event s \<noteq> Click k) \<longrightarrow>
     (let s' = snd (run_state m s) in w_redis (fe_world s') = w_redis (fe_world s) \<and> fe_event s' = fe_event s))"

section \<open>An example session\<close>

text \<open>
  The configuration c1 of the specification's example entered in the form, and a user who
  selects Binance's keys for deletion, clicks Delete, ticks the confirmation and clicks
  Delete again.
\<close>

definition ex_form :: config_form where
  "ex_form = \<lparr>cf_name = ''c1'', cf_exchange = ''binance'', cf_symbol = ''BTC/USDT'', cf_order_type = ''market'',
     cf_position_side = ''long'', cf_use_percentage = False, cf_percentage_input = 10, cf_quantity_input = 0.01,
     cf_price_input = 0, cf_description = []\<rparr>"

definition ex_inputs :: ui_inputs where
  "ex_inputs = \<lparr>in_keys = \<lparr>ki_exchange = ''binance'', ki_key = ''k'', ki_secret = ''s'', ki_delete = Some ''binance''\<rparr>,
     in_form = ex_form, in_limit = 20, in_selected = 0\<rparr>"

definition ex_fe_state :: "world \<Rightarrow> fe_state" where
  "ex_fe_state w = \<lparr>fe_world = w, fe_online = True, fe_event = NoEvent, fe_prev = {}, fe_next = {}, fe_ui = [], fe_sent = []\<rparr>"

definition ex_delete_attempt :: "(ccxt \<times> page \<times> ui_inputs \<times> event) list" where
  "ex_delete_attempt = [(ex_env, ExchangeApiKeys, ex_inputs, Click (Key ''Delete API Keys'')),
                        (ex_env, ExchangeApiKeys, ex_inputs, Toggle (Key ''Confirm deletion'')),
                        (ex_env, ExchangeApiKeys, ex_inputs, Click (Key ''Delete API Keys''))]"

section \<open>Lemmas\<close>

subsection \<open>No deletion ever\<close>

lemma calm_return [simp]: "calm (State_Monad.return x)"
  by (simp add: calm_def)

lemma calm_bind [intro]: "calm m \<Longrightarrow> (\<And>x. calm (f x)) \<Longrightarrow> calm (State_Monad.bind m f)"
  unfolding calm_def Let_def by (auto split: prod.split)

lemma calm_emit [simp]: "calm (emit m)"
  by (simp add: calm_def emit_def State_Monad.update_def)

lemma calm_button [simp]: "calm (button k)" "calm (form_submit f)"
  by (simp_all add: calm_def button_def form_submit_def)

lemma route_no_delete:
  "m \<noteq> DELETE \<Longrightarrow> route now m p l b = Handler q \<Longrightarrow> \<not> is_delete_request q"
  by (cases q) (auto dest: route_delete_method)

lemma calm_send: "m \<noteq> DELETE \<Longrightarrow> calm (send c env m u l b)"
  by (auto simp: calm_def send_def Let_def dest: route_no_delete split: routed.split prod.split)

lemma calm_api_call [intro]: "calm m \<Longrightarrow> calm (api_call ok m)"
  unfolding api_call_def by (intro calm_bind) (auto simp: Let_def split: option.split)

lemma calm_traverse [intro]: "(\<And>x. calm (f x)) \<Longrightarrow> calm (traverse_list f xs)"
  by (induction xs) (auto intro!: calm_bind)

text \<open>A checkbox shown in the run its own button's click triggered is unchecked.\<close>

lemma confirm_after_click:
  assumes "no_confirm (fe_prev s)" and "fe_event s = Click b" and "is_confirm_key k"
  shows "run_state (checkbox k) s = (False, s)"
  using assms by (auto simp: checkbox_def no_confirm_def)

lemma calm_delete_keys: "calm (delete_keys c env del)"
  by (cases del) (auto simp: calm_def delete_keys_def button_def confirm_after_click)

lemma calm_config_entry: "calm (config_entry c env ic)"
proof -
  obtain idx v where ic: "ic = (idx, v)" by fastforce
  have "calm (State_Monad.bind (button (KeyIdx ''delete_'' idx)) (\<lambda>clicked.
     if \<not> clicked then State_Monad.return () else do {
       confirm \<leftarrow> checkbox (KeyIdx ''confirm_'' idx);
       if \<not> confirm then State_Monad.return () else do {
         result \<leftarrow> api_delete (send c env DELETE (''/api/config/'' @ listed_name v) None NoBody);
         emit (if result_success result then UISuccess (''Configuration '' @ listed_name v @ '' deleted'')
               else UIError (''Failed to delete configuration '' @ listed_name v))
       }
     }))"
    by (auto simp: calm_def button_def confirm_after_click)
  then show ?thesis unfolding config_entry_def ic by (auto intro: calm_bind)
qed

lemma calm_render: "calm (render c env p inp)"
  by (cases p)
     (auto simp: show_dashboard_def show_api_keys_def save_keys_form_def exchange_status_def
        show_alert_configs_def save_config_form_def manage_configs_def show_alert_history_def
        api_get_def api_post_def api_delete_def Let_def
        intro!: calm_bind calm_api_call calm_send calm_traverse calm_delete_keys
          calm_config_entry)

lemma app_run_calm:
  assumes "no_confirm (fe_next s)"
  shows "no_confirm (fe_next (app_run c env p inp ev s)) \<and>
    filter is_delete_request (fe_sent (app_run c env p inp ev s)) = filter is_delete_request (fe_sent s)"
proof -
  have "no_confirm (fe_prev (start_run ev s))" and "no_confirm (fe_next (start_run ev s))"
    using assms by (simp_all add: start_run_def no_confirm_def)
  with calm_render [of c env p inp] show ?thesis
    unfolding calm_def app_run_def Let_def by (simp add: start_run_def)
qed

text \<open>C10: The delete flows of the front end never reach the backend: in any sequence of page runs, whatever the user clicks or ticks, no request to delete API keys or a configuration is sent.  The confirmation checkbox is only shown in the run triggered by the delete button, where it is new and unchecked; ticking it triggers a run in which the button is not pressed, so the checkbox is not shown and its state is discarded.\<close>

theorem frontend_never_deletes:
  assumes "no_confirm (fe_next s)"
  shows "filter is_delete_request (fe_sent (app_session c runs s)) = filter is_delete_request (fe_sent s)"
  using assms
proof (induction runs arbitrary: s)
  case (Cons r runs)
  obtain env p inp ev where r: "r = (env, p, inp, ev)" by (cases r) auto
  from app_run_calm [OF Cons.prems, of c env p inp ev] Cons.IH r show ?case by simp
qed simp

subsection \<open>The configuration form\<close>

lemma parse_exchange_valid:
  "s \<in> set exchange_values \<Longrightarrow> \<exists>e. parse_exchange s = Some e \<and> exchange_value e = s"
  by (auto simp: exchange_values_def all_exchanges_def parse_exchange_def)

lemma parse_order_type_valid:
  "s \<in> set [''market'', ''limit'', ''stop_loss'', ''take_profit''] \<Longrightarrow>
   \<exists>t. parse_order_type s = Some t \<and> order_type_value t = s"
  by (auto simp: parse_order_type_def)

lemma parse_position_side_valid:
  "s \<in> set [''long'', ''short''] \<Longrightarrow> \<exists>p. parse_position_side s = Some p \<and> position_side_value p = s"
  by (auto simp: parse_position_side_def)

lemma config_data_sel [simp]:
  "name (config_data f) = cf_name f" "exchange (config_data f) = cf_exchange f"
  "symbol (config_data f) = cf_symbol f" "order_type (config_data f) = cf_order_type f"
  "position_side (config_data f) = cf_position_side f"
  "stop_loss (config_data f) = None" "take_profit (config_data f) = None"
  "description (config_data f) = Some (cf_description f)"
  by (simp_all add: config_data_def Let_def)

lemma config_data_percentage:
  "cf_use_percentage f \<Longrightarrow> 1 \<le> cf_percentage_input f \<Longrightarrow>
   quantity (config_data f) = None \<and> quantity_percentage (config_data f) = Some (real (cf_percentage_input f))"
  by (simp add: config_data_def Let_def form_quantity_percentage_def form_quantity_def)

lemma config_data_fixed:
  "\<not> cf_use_percentage f \<Longrightarrow> quantity_percentage (config_data f) = None \<and>
   quantity (config_data f) = (if cf_quantity_input f = 0 then None else Some (cf_quantity_input f))"
  by (simp add: config_data_def Let_def form_quantity_percentage_def form_quantity_def)

lemma parse_config_body_data:
  assumes "form_widgets_ok exchange_values f"
  shows "\<exists>m. parse_config_body (config_data f) = Some m \<and> config_dict m = config_data f"
proof -
  from assms obtain e t p where "parse_exchange (cf_exchange f) = Some e" "exchange_value e = cf_exchange f"
    "parse_order_type (cf_order_type f) = Some t" "order_type_value t = cf_order_type f"
    "parse_position_side (cf_position_side f) = Some p" "position_side_value p = cf_position_side f"
    unfolding form_widgets_ok_def
    by (metis parse_exchange_valid parse_order_type_valid parse_position_side_valid)
  then show ?thesis
    by (simp add: parse_config_body_def config_dict_def alert_config.equality)
qed

lemma keeps_redis_return [simp]: "keeps_redis (State_Monad.return x)"
  and keeps_redis_emit [simp]: "keeps_redis (emit u)"
  and keeps_redis_button [simp]: "keeps_redis (button k)"
  by (simp_all add: keeps_redis_def emit_def State_Monad.update_def button_def)

lemma keeps_redis_bind [intro]: "keeps_redis m \<Longrightarrow> (\<And>x. keeps_redis (f x)) \<Longrightarrow> keeps_redis (State_Monad.bind m f)"
  unfolding keeps_redis_def Let_def by (auto split: prod.split)

lemma keeps_redis_traverse [intro]: "(\<And>x. keeps_redis (f x)) \<Longrightarrow> keeps_redis (traverse_list f xs)"
  by (induction xs) (auto intro!: keeps_redis_bind)

lemma keeps_redis_send: "keeps_redis (send c env GET u l b)"
  unfolding keeps_redis_def send_def Let_def
  by (auto split: prod.split routed.split dest: backend_step_readonly route_GET_readonly)

lemma keeps_redis_api_call [intro]: "keeps_redis m \<Longrightarrow> keeps_redis (api_call ok m)"
  unfolding api_call_def by (intro keeps_redis_bind) (auto split: option.split)

lemma keeps_redis_config_entry: "keeps_redis (config_entry c env ic)"
  by (cases ic) (auto simp: keeps_redis_def config_entry_def button_def emit_def State_Monad.update_def)

lemma keeps_redis_manage_configs: "keeps_redis (manage_configs c env)"
  unfolding manage_configs_def api_get_def
  by (auto intro!: keeps_redis_bind keeps_redis_api_call keeps_redis_send
      keeps_redis_traverse keeps_redis_config_entry)

lemma configs_of_update:
  "configs_of (r\<lparr>r_data := AList.update (config_key default_user n) (RConfig x) (r_data r)\<rparr>) =
   (configs_of r)(n \<mapsto> x)"
  by (auto simp: configs_of_def fun_eq_iff update_conv')

text \<open>C26: Submitting the configuration form with values the widgets allow, a name and a symbol, with the backend reachable and a Redis server that answers and accepts writes, stores exactly the dictionary the page builds: after the run the abstract configuration map holds it under the form's name, having passed FastAPI's validation unchanged.\<close>

theorem frontend_config_saved:
  assumes ok: "form_widgets_ok exchange_values (in_form inp)"
    and nm: "cf_name (in_form inp) \<noteq> []" "cf_symbol (in_form inp) \<noteq> []"
    and up: "fe_online s" "r_up (w_redis (fe_world s))" "\<not> r_oom (w_redis (fe_world s))"
  shows "configs_of (w_redis (fe_world (app_run c env AlertConfigurations inp (Submit ''config_form'') s))) =
           (configs_of (w_redis (fe_world s)))(cf_name (in_form inp) \<mapsto> config_data (in_form inp))"
proof -
  let ?f = "in_form inp"
  from parse_config_body_data [OF ok] obtain m where
    m: "parse_config_body (config_data ?f) = Some m" "config_dict m = config_data ?f" by blast
  then have nm_m: "name m = cf_name ?f" by (metis config_dict_sel(1) config_data_sel(1))
  let ?s0 = "start_run (Submit ''config_form'') s"
  let ?r1 = "(w_redis (fe_world s))\<lparr>r_data := AList.update (config_key default_user (cf_name ?f))
               (RConfig (config_data ?f)) (r_data (w_redis (fe_world s)))\<rparr>"
  obtain s1 where s1: "snd (run_state (do { exs \<leftarrow> api_get (send c env GET ''/api/exchanges'' None NoBody);
       save_config_form c env ?f }) ?s0) = s1" by blast
  have r1: "w_redis (fe_world s1) = ?r1" and ev1: "fe_event s1 = Submit ''config_form''"
    using s1 up m nm nm_m
    by (auto simp: start_run_def api_get_def api_post_def api_call_def send_def
        list_exchanges_def status_code_def save_config_form_def form_submit_def emit_def
        State_Monad.update_def create_alert_config_def save_alert_config_def http_500_def pbind_def ret_def)
  have "w_redis (fe_world (snd (run_state (manage_configs c env) s1))) = w_redis (fe_world s1)"
    using keeps_redis_manage_configs [of c env] ev1 unfolding keeps_redis_def Let_def by simp
  moreover have "app_run c env AlertConfigurations inp (Submit ''config_form'') s =
      snd (run_state (manage_configs c env) s1)"
    using s1 up(1) by (auto simp: app_run_def start_run_def show_alert_configs_def api_get_def api_call_def send_def
        list_exchanges_def status_code_def exchanges_of_def all_exchanges_def split: prod.split)
  ultimately show ?thesis using r1 by (simp add: configs_of_update)
qed

subsection \<open>Quantities of configurations built by the form\<close>

lemma determine_quantity_pct_result:
  assumes "determine_quantity env cl cfg alert w = (Inr q, w')"
    and "\<not> truthy (quantity cfg)" "quantity_percentage cfg = Some p" "p \<noteq> 0"
    and "quote_currency (symbol cfg) = Inr qc" "ccxt_balance env cl = Inr bal" "bal qc = Some (Some avail)"
    and "\<not> truthy (alert_price alert) \<Longrightarrow> ccxt_ticker env cl (symbol cfg) = Inr (Some lp)"
  shows "q = avail * p / 100 / (if truthy (alert_price alert) then the (alert_price alert) else lp)"
  using assms
  by (cases "truthy (alert_price alert)")
     (auto simp: determine_quantity_def fetch_balance_def fetch_ticker_def log_call_def py_div_def
       pbind_def ret_def raise_def of_sum_def split: if_splits)

text \<open>C27: For a configuration built by the form with a percentage of balance, the quantity the resolver computes costs at most the free quote balance at the price used (the widget bounds the percentage by 100), and is not negative.\<close>

theorem frontend_percentage_within_balance:
  assumes ok: "form_widgets_ok es f" and pct: "cf_use_percentage f"
    and dq: "determine_quantity env cl (config_data f) alert w = (Inr q, w')"
    and qc: "quote_currency (cf_symbol f) = Inr qc" "ccxt_balance env cl = Inr bal" "bal qc = Some (Some avail)"
    and av: "0 \<le> avail"
    and tk: "\<not> truthy (alert_price alert) \<Longrightarrow> ccxt_ticker env cl (cf_symbol f) = Inr (Some lp)"
    and cp: "0 < (if truthy (alert_price alert) then the (alert_price alert) else lp)"
  shows "0 \<le> q \<and> q * (if truthy (alert_price alert) then the (alert_price alert) else lp) \<le> avail"
proof -
  let ?cp = "if truthy (alert_price alert) then the (alert_price alert) else lp"
  let ?p = "real (cf_percentage_input f)"
  from ok have p1: "1 \<le> cf_percentage_input f" and p100: "cf_percentage_input f \<le> 100"
    by (simp_all add: form_widgets_ok_def)
  with pct have cd: "quantity (config_data f) = None" "quantity_percentage (config_data f) = Some ?p"
    by (simp_all add: config_data_percentage)
  from p1 have "?p \<noteq> 0" by simp
  with dq cd qc tk have q: "q = avail * ?p / 100 / ?cp"
    using determine_quantity_pct_result [where cfg = "config_data f" and p = ?p and qc = qc and bal = bal
        and avail = avail and lp = lp]
    by simp
  from p100 have "?p \<le> 100" by simp
  with av have "avail * ?p \<le> avail * 100" by (rule mult_left_mono [rotated])
  then have "avail * ?p / 100 \<le> avail" by simp
  moreover have "0 \<le> avail * ?p / 100" using av by simp
  ultimately show ?thesis using q cp by (simp add: divide_nonneg_pos)
qed

text \<open>C23: The quantity widget's lower bound is 0, so a form the widgets accept stays acceptable with a fixed quantity of 0; the dictionary sent then has neither quantity nor percentage (the 'elif quantity' test drops a falsy 0), and every alert for that configuration, once its exchange client is obtained, fails with HTTP 400 Could not determine order quantity, with no failure record written.\<close>

theorem frontend_zero_quantity_undetermined:
  assumes ok: "form_widgets_ok es f" and fixed: "\<not> cf_use_percentage f"
    and up: "r_up (w_redis w)"
    and cfg: "map_of (r_data (w_redis w)) (config_key (user_id alert) (config_name alert)) =
           Some (RConfig (config_data (f\<lparr>cf_quantity_input := 0\<rparr>)))"
    and cl: "get_exchange_client c env (user_id alert) (cf_exchange f) w = (Inr cl, wc)"
  shows "form_widgets_ok es (f\<lparr>cf_quantity_input := 0\<rparr>) \<and>
         quantity (config_data (f\<lparr>cf_quantity_input := 0\<rparr>)) = None \<and>
         quantity_percentage (config_data (f\<lparr>cf_quantity_input := 0\<rparr>)) = None \<and>
         process_tradingview_alert c env alert now w =
           (Inl (HTTPException 400 ''Could not determine order quantity''), wc)"
proof -
  let ?f = "f\<lparr>cf_quantity_input := 0\<rparr>"
  have ok0: "form_widgets_ok es ?f" using ok by (simp add: form_widgets_ok_def)
  from fixed have q: "quantity (config_data ?f) = None" and qp: "quantity_percentage (config_data ?f) = None"
    using config_data_fixed [of ?f] by simp_all
  have ex: "exchange (config_data ?f) = cf_exchange f" by simp
  have "determine_quantity env cl (config_data ?f) alert wc =
          (Inl (HTTPException 400 ''Could not determine order quantity''), wc)"
    using q qp by (simp add: determine_quantity_def pbind_def ret_def raise_def)
  with up cfg cl ex have "alert_body c env alert now w =
          (Inl (HTTPException 400 ''Could not determine order quantity''), wc)"
    by (simp add: alert_body_def get_alert_config_def as_config_def)
  then show ?thesis using ok0 q qp by (simp add: process_tradingview_alert_def)
qed

section \<open>Witnesses\<close>

theorem frontend_never_deletes_witness:
  "filter is_delete_request (fe_sent (app_session ex_cipher ex_delete_attempt (ex_fe_state ex_backend_world))) = []"
  using frontend_never_deletes [of "ex_fe_state ex_backend_world" ex_cipher ex_delete_attempt]
  by (simp add: ex_fe_state_def no_confirm_def)

theorem frontend_config_saved_witness:
  "configs_of (w_redis (fe_world (app_run ex_cipher ex_env AlertConfigurations ex_inputs (Submit ''config_form'')
      (ex_fe_state (init_world True False))))) = [''c1'' \<mapsto> config_data ex_form]"
proof -
  have "configs_of (w_redis (init_world True False)) = Map.empty"
    by (simp add: configs_of_def fun_eq_iff init_world_def)
  with frontend_config_saved [of ex_inputs "ex_fe_state (init_world True False)" ex_cipher ex_env]
  show ?thesis
    by (simp add: ex_inputs_def ex_form_def ex_fe_state_def init_world_def form_widgets_ok_def
        exchange_values_def all_exchanges_def)
qed

theorem frontend_percentage_within_balance_witness:
  "determine_quantity ex_env ex_client (config_data (ex_form\<lparr>cf_use_percentage := True\<rparr>)) ex_alert ex_world =
     (Inr 0.002, ex_world\<lparr>w_calls := [(ex_client, FetchBalance), (ex_client, FetchTicker ''BTC/USDT'')]\<rparr>) \<and>
   0 \<le> (0.002::real) \<and> 0.002 * 50000 \<le> (1000::real)"
proof -
  have dq: "determine_quantity ex_env ex_client (config_data (ex_form\<lparr>cf_use_percentage := True\<rparr>)) ex_alert ex_world =
     (Inr 0.002, ex_world\<lparr>w_calls := [(ex_client, FetchBalance), (ex_client, FetchTicker ''BTC/USDT'')]\<rparr>)"
    by (simp add: determine_quantity_def config_data_def Let_def form_quantity_percentage_def form_quantity_def
        form_price_def ex_form_def ex_env_def ex_alert_def fetch_balance_def fetch_ticker_def log_call_def
        quote_currency_def split_on_append_sep py_nth_def py_div_def ex_world_def ex_world_of_def
        pbind_def ret_def of_sum_def)
  have "0 \<le> (0.002::real) \<and> 0.002 * (if truthy (alert_price ex_alert) then the (alert_price ex_alert) else 50000) \<le> (1000::real)"
    by (rule frontend_percentage_within_balance [OF _ _ dq, where es = exchange_values and qc = "''USDT''"
          and bal = "[''USDT'' \<mapsto> Some 1000]"])
       (simp_all add: form_widgets_ok_def ex_form_def exchange_values_def all_exchanges_def quote_currency_def
          split_on_append_sep py_nth_def ex_env_def ex_alert_def)
  with dq show ?thesis by (simp add: ex_alert_def)
qed

theorem frontend_zero_quantity_undetermined_witness:
  "form_widgets_ok exchange_values (ex_form\<lparr>cf_quantity_input := 0\<rparr>) \<and>
   quantity (config_data (ex_form\<lparr>cf_quantity_input := 0\<rparr>)) = None \<and>
   quantity_percentage (config_data (ex_form\<lparr>cf_quantity_input := 0\<rparr>)) = None \<and>
   process_tradingview_alert ex_cipher ex_env ex_alert ''t1''
     (ex_world_of (config_data (ex_form\<lparr>cf_quantity_input := 0\<rparr>))) =
   (Inl (HTTPException 400 ''Could not determine order quantity''),
    ex_world_of (config_data (ex_form\<lparr>cf_quantity_input := 0\<rparr>))
      \<lparr>w_cache := [client_key ''u1'' ''binance'' \<mapsto> ex_client]\<rparr>)"
  by (rule frontend_zero_quantity_undetermined [where f = ex_form])
     (simp_all add: form_widgets_ok_def ex_form_def exchange_values_def all_exchanges_def ex_world_of_def
       ex_redis_of_def ex_alert_def config_key_def api_key_key_def client_key_def get_exchange_client_def Let_def
       get_exchange_api_key_def decrypt_data_def ex_cipher_def ex_env_def ex_client_def)

end
