(* ===== verification/Deployment.thy ===== *)
theory Deployment
  imports Backend
begin

text \<open>
  Process start of the backend.  Importing \<^verbatim>\<open>database.py\<close> reads
  \<^verbatim>\<open>ENCRYPTION_KEY\<close> from the environment, with a key freshly generated by
  \<^verbatim>\<open>Fernet.generate_key()\<close> as its default (lines 13--14), and builds
  \<^verbatim>\<open>cipher_suite\<close> from it (line 15); importing \<^verbatim>\<open>main.py\<close> starts with an
  empty client cache \<^verbatim>\<open>exchange_clients\<close> (line 43).  Redis and the exchanges
  outlive the process.  Fernet is a family of ciphers indexed by the key, given as a
  parameter like ccxt; its one property used here is that a token made under one key
  is rejected (\<open>InvalidToken\<close>) by the cipher of another key.
\<close>

section \<open>Start of a backend process\<close>

definition encryption_key :: "string option \<Rightarrow> string \<Rightarrow> string" where
  "encryption_key env_key generated = (case env_key of Some k \<Rightarrow> k | None \<Rightarrow> generated)"

definition cipher_suite :: "(string \<Rightarrow> cipher) \<Rightarrow> string option \<Rightarrow> string \<Rightarrow> cipher" where
  "cipher_suite fernet env_key generated = fernet (encryption_key env_key generated)"

text \<open>
  A (re)start: the new process's cipher, and the world it sees, with Redis and the log of
  exchange calls kept and the client cache empty.
\<close>

definition start_backend ::
  "(string \<Rightarrow> cipher) \<Rightarrow> string option \<Rightarrow> string \<Rightarrow> world \<Rightarrow> cipher \<times> world" where
  "start_backend fernet env_key generated w =
     (cipher_suite fernet env_key generated, w\<lparr>w_cache := Map.empty\<rparr>)"

section \<open>Example\<close>

text \<open>A toy Fernet: a token is the key followed by the plain text.\<close>

definition ex_fernet :: "string \<Rightarrow> cipher" where
  "ex_fernet k = \<lparr>encrypt = (\<lambda>s. k @ s),
                  decrypt = (\<lambda>t. if prefix k t then Some (drop (length k) t) else None)\<rparr>"

text \<open>The state a process with the generated key k1 leaves behind: a configuration, its keys, a cached client.\<close>

definition ex_before_restart :: world where
  "ex_before_restart =
     \<lparr>w_redis = \<lparr>r_data = [(config_key ''u1'' ''c1'', RConfig ex_cfg),
                            (api_key_key ''u1'' ''binance'', RApiKeys (''k1'' @ ''k'') (''k1'' @ ''s''))],
                 r_up = True, r_oom = False\<rparr>,
      w_cache = [client_key ''u1'' ''binance'' \<mapsto> ex_client], w_calls = []\<rparr>"

section \<open>Lemmas\<close>

lemma start_backend_unset:
  "start_backend fernet None g w = (fernet g, w\<lparr>w_cache := Map.empty\<rparr>)"
  by (simp add: start_backend_def cipher_suite_def encryption_key_def)

text \<open>C16: When ENCRYPTION_KEY is not set, every process encrypts with a key of its own: after a restart whose generated key rejects the previous key's tokens, a webhook whose configuration and API keys were stored by the previous process cannot decrypt the keys; the InvalidToken error is recorded and returned as a failure, and no order is placed.\<close>

theorem restart_without_key_loses_credentials:
  assumes "start_backend fernet None g_new w = (c', w1)"
    and "decrypt (fernet g_new) (encrypt (fernet g_old) k) = None"
    and "map_of (r_data (w_redis w)) (config_key (user_id alert) (config_name alert)) = Some (RConfig cfg)"
    and "map_of (r_data (w_redis w)) (api_key_key (user_id alert) (exchange cfg)) =
           Some (RApiKeys (encrypt (fernet g_old) k) s)"
    and "r_up (w_redis w)" and "\<not> r_oom (w_redis w)"
  shows "process_tradingview_alert c' env alert now w1 =
           (Inr (failure_result InvalidToken now), record_history (user_id alert) (failure_entry alert InvalidToken now) w1)"
proof -
  from assms(1) have c': "c' = fernet g_new" and w1: "w1 = w\<lparr>w_cache := Map.empty\<rparr>"
    by (simp_all add: start_backend_unset)
  have "alert_body c' env alert now w1 = (Inl InvalidToken, w1)"
    using assms(2-5) by (simp add: c' w1 alert_body_def get_alert_config_def as_config_def
        get_exchange_client_def get_exchange_api_key_def decrypt_data_def)
  with assms(5,6) show ?thesis
    by (simp add: process_tradingview_alert_def save_alert_history_ok record_history_def w1)
qed

section \<open>Witnesses\<close>

theorem restart_without_key_loses_credentials_witness:
  "process_tradingview_alert (ex_fernet ''k2'') ex_env ex_alert ''t1'' (ex_before_restart\<lparr>w_cache := Map.empty\<rparr>) =
     (Inr (failure_result InvalidToken ''t1''),
      record_history (user_id ex_alert) (failure_entry ex_alert InvalidToken ''t1'')
        (ex_before_restart\<lparr>w_cache := Map.empty\<rparr>))"
  by (rule restart_without_key_loses_credentials
      [where fernet = ex_fernet and g_new = "''k2''" and g_old = "''k1''" and k = "''k''" and s = "''k1'' @ ''s''"
         and w = ex_before_restart and cfg = ex_cfg])
     (simp_all add: start_backend_unset ex_fernet_def ex_before_restart_def ex_alert_def ex_cfg_def
      config_key_def api_key_key_def)

end
