(* ===== verification/Spec2Isabelle.thy ===== *)
theory Spec2Isabelle
  imports Frontend Deployment Routing
begin

text \<open>
  \<^bold>\<open>Bridge: the TradingView alert pipeline, modelled in HOL.\<close>

  The repository is a FastAPI backend (\<^verbatim>\<open>src/bridge/backend/app/main.py\<close>,
  \<^verbatim>\<open>database.py\<close>, \<^verbatim>\<open>models.py\<close>) and a Streamlit front end
  (\<^verbatim>\<open>src/bridge/frontend/app/main.py\<close>).  A TradingView webhook names a stored
  alert configuration and a user; the backend loads the configuration from Redis,
  gets a ccxt exchange client for the user's encrypted API keys (cached per process),
  computes the order quantity (fixed, or a percentage of the free quote balance at the
  alert's or the ticker's price), places the order the configuration's order type
  asks for, and writes a history record to Redis.

  \<^bold>\<open>Theories, in import order.\<close>
  \<^item> \<open>Prelude\<close>: the Python exceptions on the alert path (\<open>exc\<close>), an
    exception-and-state monad (\<open>('s, 'a) py\<close>, \<open>pbind\<close>, \<open>raise\<close>, \<open>lift\<close>) in
    which every backend handler is written so that effects made before an exception are
    kept, Python truthiness of optional floats (\<open>truthy\<close>, \<open>py_or\<close> for
    \<^verbatim>\<open>a if a else b\<close>), \<^verbatim>\<open>str.split\<close> (\<open>split_on\<close>), indexing and float
    division with their Python errors, and the list lemmas the components share.
  \<^item> \<open>Models\<close>: \<^verbatim>\<open>models.py\<close>.  The three string enums with their values, the
    records of the five pydantic models, and FastAPI's validation of request bodies
    (\<open>parse_api_key_body\<close>, \<open>parse_config_body\<close>).  \<open>alert_config\<close> is parametrised
    by its enum fields: \<open>AlertConfigModel\<close> holds enum members, \<open>stored_config\<close> the
    strings of the JSON dictionary (\<open>config_dict\<close> is \<^verbatim>\<open>config.dict()\<close>).
  \<^item> \<open>Glob\<close>: the glob-style patterns of Redis \<^verbatim>\<open>KEYS\<close>
    (\<open>glob_match\<close>, from the Redis documentation), a \<^theory_text>\<open>function\<close> with its
    termination proof, and the fact that a literal prefix followed by \<^verbatim>\<open>*\<close> selects
    the keys with that prefix.
  \<^item> \<open>Store\<close>: \<^verbatim>\<open>database.py\<close>.  Redis is a record: an association list of
    keys to the three value shapes the backend writes (\<open>RApiKeys\<close>, \<open>RConfig\<close>,
    \<open>RHistory\<close>), a flag for a reachable server and a flag for a server out of memory.
    One definition per function of \<^verbatim>\<open>database.py\<close>, with the key formats and the
    Fernet cipher as a pair of functions.
  \<^item> \<open>Gateway\<close>: lines 42--70 of \<^verbatim>\<open>main.py\<close>.  ccxt is the environment
    \<open>ccxt\<close> of what construction and the three client calls answer; the process state
    \<open>world\<close> is Redis, the client cache \<^verbatim>\<open>exchange_clients\<close> and the log of
    exchange calls (through which orders placed are observed: \<open>orders_of\<close>).
  \<^item> \<open>Scenario\<close>: the specification's example deployment (user u1, configuration
    c1, Binance, BTC/USDT) on which the witnesses instantiate the theorems.
  \<^item> \<open>Quantity\<close> (lines 177--195), \<open>Dispatcher\<close> (173, 197--235),
    \<open>Pipeline\<close> (158--279, the \<^verbatim>\<open>try\<close> body \<open>alert_body\<close> and both handlers).
  \<^item> \<open>Backend\<close>: every route of \<^verbatim>\<open>main.py\<close> as an operation of
    \<open>backend_step\<close>, with its exception handler.  Each handler is an \<^verbatim>\<open>async def\<close>
    without \<^verbatim>\<open>await\<close>, so requests are atomic steps; \<open>reachable\<close> closes the start
    state under any request, any exchange answers and any Redis outage, and
    \<open>backend_inv\<close> is its invariant.
  \<^item> \<open>Refinement\<close>: abstraction functions from Redis to the specification's
    Configuration Store and Credential Vault (section 6), the refinement of every
    request against them, and the configuration listing read through the abstract
    map.
  \<^item> \<open>Routing\<close>: how an HTTP call reaches a handler: the route table of the
    \<^verbatim>\<open>@app\<close> decorators, Starlette's matching of literal paths and one-segment path
    parameters (404, 405, \<open>match_route\<close>), the 307 redirect of Starlette's
    \<^verbatim>\<open>redirect_slashes\<close> when only the path with its trailing slash toggled
    matches (\<open>route\<close>), FastAPI's 422 for invalid bodies, the split of a URL at
    \<^verbatim>\<open>?\<close> and \<^verbatim>\<open>#\<close> by \<^verbatim>\<open>httpx\<close> (\<open>url_path\<close>), and the
    server's percent-decoding of the path as \<^verbatim>\<open>urllib.parse.unquote\<close> does it
    (\<open>percent_decode\<close>, \<open>server_path\<close>); \<open>http_handle\<close> dispatches.
  \<^item> \<open>Frontend\<close>: \<^verbatim>\<open>src/bridge/frontend/app/main.py\<close>.  A Streamlit run is a
    computation of HOL-Library's state monad over the backend world, the screen, the
    widget state and the log of requests; every HTTP call goes by method, path and body
    through \<open>route\<close> to a \<open>backend_step\<close>, or fails with a connection error when the
    backend cannot be reached.
    Streamlit's widget semantics (buttons true only in the run their click triggers,
    checkboxes that lose their state when not shown) are modelled from its documentation.
  \<^item> \<open>Deployment\<close>: the start of a backend process (\<open>start_backend\<close>): the
    Fernet key from \<^verbatim>\<open>ENCRYPTION_KEY\<close> or freshly generated
    (\<^verbatim>\<open>database.py\<close> lines 13--15), an empty client cache (\<^verbatim>\<open>main.py\<close>
    line 43), Redis kept; Fernet is a family of ciphers indexed by key.

  \<^bold>\<open>What the theorems show\<close> (claims C1--C38, each stated in the theory of its
  component right after a text naming it).  The webhook on every branch: success with
  exactly one history record (C1); an HTTP exception escapes with no record and no order
  (C2, C3), against the specification's policy of always recording a failure; any other
  exception becomes a recorded failure (C4); at most one order per alert (C5); no
  deduplication (C12); an unknown order type recorded as a success (C13); an order
  placed but unrecorded when Redis refuses writes (C14); negative quantities sent to the
  exchange (C15).  The quantity resolver (C6, C7, C18, C19), the dispatcher (C8, C9,
  C17), the gateway (C11, C20), the store (C22, C24).  Across a restart without
  \<^verbatim>\<open>ENCRYPTION_KEY\<close>, stored credentials become unreadable (C16).  The
  configuration listing names a configuration by the last colon-separated segment of its
  key, so a name containing a colon can be read back but never appears in the listing
  (C25).  The backend as a state machine (C28--C35, C37): the invariant of its reachable
  states, clients cached for the right exchange, webhooks of users other than "default"
  always 404, a cache that only grows over any request sequence, stale clients after key
  deletion, the history listing, its leak across user ids by prefix (C34) and by
  unescaped glob characters (C35), typed history answers.  Routing (C36): a
  configuration name interpolated into the URL is cut at \<^verbatim>\<open>?\<close> and
  percent-decoded, and one whose decoding holds an inner slash reaches no handler.
  Refinement of the configuration map and the credential vault (C21, C38).  The front
  end (C10, C23, C26, C27): its delete flows can never complete; a zero quantity passes
  the widgets and makes every alert fail with HTTP 400; a submitted form is stored
  exactly as built; a percentage order never costs more than the free balance.

  \<^bold>\<open>Choices.\<close>  Python floats are \<open>real\<close>: the code's arithmetic is one product
  and two divisions, and the claims concern the formula and the branches, not rounding.
  Every loop of the code is a structural recursion over a list (\<open>split_on\<close>,
  \<open>collect_configs\<close>, \<open>fetch_all\<close>, \<open>traverse_list\<close> over exchanges and
  configurations), so no fuel is needed and every function is total; the one recursion
  that is not structural, the glob matcher of Redis, terminates by the lexicographic
  measure (length of the key, length of the pattern).
  \<^verbatim>\<open>datetime.now()\<close> is the parameter \<open>now\<close> of the handler.  The cipher of a
  process is a parameter of every handler; \<open>Deployment\<close> says where it comes from.

  \<^bold>\<open>Not modelled.\<close>  ccxt itself and the exchanges (an environment of answers);
  Fernet's cryptography (a family of ciphers with the properties the claims assume);
  the Redis connection settings (the server answers or not); the order in which
  \<^verbatim>\<open>KEYS\<close> returns keys (the model returns them in insertion order; every caller
  either sorts them or only collects them); JSON serialisation (values are stored as typed records);
  FastAPI's response-model validation; concurrency between requests, which the
  \<^verbatim>\<open>async def\<close> handlers without \<^verbatim>\<open>await\<close> exclude on one event loop
  (several worker processes would each have their own cache); the front end's static
  texts, its documentation page, table layout, and \<^verbatim>\<open>st.rerun\<close> after a
  deletion (which no run reaches); the reassembly of percent-escaped UTF-8 sequences of
  several bytes (each escape is decoded to the character of its byte value) and the
  redirect's round trip through the client (the model answers the 307 itself).
\<close>

end
